(* ===== verification/Sched_Prelude.thy ===== *)
theory Sched_Prelude
  imports Main
begin

text \<open>
  Shared vocabulary of the development: the exceptions of the scheduler, JavaScript's
  array and string helpers that \<^verbatim>\<open>src/src/scheduler.ts\<close> relies on (\<^verbatim>\<open>Array.prototype.join\<close>,
  \<^verbatim>\<open>map\<close> and \<^verbatim>\<open>forEach\<close> with a callback that may throw, decimal printing of a number
  inside a template string), and the generic lemmas about them that the component
  theories use. Nothing here is specific to one component.

  \<^item> \<open>sched_defs\<close> collects the unfolding equations of the non-recursive operations, so a
    proof can open a whole handler with \<open>simp add: sched_defs\<close>.
  \<^item> \<open>action_simps\<close> collects the evaluation rules of the exception-passing combinators.
\<close>

named_theorems sched_defs "unfolding equations of the scheduler's operations"
named_theorems action_simps "evaluation rules of actions that may throw"

section \<open>Exceptions\<close>

text \<open>
  The two failures the program knows: an interval expression that cannot be converted
  (thrown by \<^verbatim>\<open>convertExpressionToCron\<close>) and a failed invocation (thrown by
  \<^verbatim>\<open>slsInvokeFunction\<close>). The argument is the thrown value as a template string prints it.
\<close>

datatype error = InvalidExpression string | InvocationError string

section \<open>Actions: state passing with exceptions\<close>

text \<open>
  A statement of the source that changes the world and may throw is a function from the
  state to an optional exception and the state reached; the state is kept when an
  exception is thrown, as the effects performed before a JavaScript \<^verbatim>\<open>throw\<close> are.
\<close>

type_synonym ('e, 's) action = "'s \<Rightarrow> 'e option \<times> 's"

definition ok :: "('e, 's) action" where
  "ok s = (None, s)"

definition throw :: "'e \<Rightarrow> ('e, 's) action" where
  "throw e s = (Some e, s)"

definition perform :: "('s \<Rightarrow> 's) \<Rightarrow> ('e, 's) action" where
  "perform f s = (None, f s)"

definition andThen :: "('e, 's) action \<Rightarrow> ('e, 's) action \<Rightarrow> ('e, 's) action" where
  "andThen a b s = (case a s of (None, s') \<Rightarrow> b s' | (Some e, s') \<Rightarrow> (Some e, s'))"

text \<open>\<^verbatim>\<open>xs.forEach(f)\<close>: the callback runs on each element in order; the first exception
  ends the loop.\<close>

fun forEach :: "('a \<Rightarrow> ('e, 's) action) \<Rightarrow> 'a list \<Rightarrow> ('e, 's) action" where
  "forEach f [] s = (None, s)"
| "forEach f (x # xs) s =
     (case f x s of (None, s') \<Rightarrow> forEach f xs s' | (Some e, s') \<Rightarrow> (Some e, s'))"

text \<open>\<^verbatim>\<open>xs.map(f)\<close> for a pure callback that may throw: the results in order, or the
  first exception.\<close>

fun mapE :: "('a \<Rightarrow> 'e + 'b) \<Rightarrow> 'a list \<Rightarrow> 'e + 'b list" where
  "mapE f [] = Inr []"
| "mapE f (x # xs) =
     (case f x of
        Inl e \<Rightarrow> Inl e
      | Inr y \<Rightarrow> (case mapE f xs of Inl e \<Rightarrow> Inl e | Inr ys \<Rightarrow> Inr (y # ys)))"

section \<open>Strings\<close>

text \<open>\<^verbatim>\<open>xs.join(sep)\<close>; a template string prints an array as \<^verbatim>\<open>xs.join(",")\<close>.\<close>

fun joinWith :: "string \<Rightarrow> string list \<Rightarrow> string" where
  "joinWith sep [] = []"
| "joinWith sep [x] = x"
| "joinWith sep (x # y # ys) = x @ sep @ joinWith sep (y # ys)"

text \<open>\<^verbatim>\<open>s.split(c)\<close> for a one-character separator: the pieces between its occurrences.\<close>

fun splitOn :: "'a \<Rightarrow> 'a list \<Rightarrow> 'a list list" where
  "splitOn c [] = [[]]"
| "splitOn c (x # xs) =
     (if x = c then [] # splitOn c xs
      else (case splitOn c xs of [] \<Rightarrow> [[x]] | y # ys \<Rightarrow> (x # y) # ys))"

text \<open>Decimal digits of a natural number, most significant first, and their value.\<close>

definition digitChar :: "nat \<Rightarrow> char" where
  "digitChar d = ''0123456789'' ! d"

definition isDigit :: "char \<Rightarrow> bool" where
  "isDigit c \<longleftrightarrow> c \<in> set ''0123456789''"

definition digitVal :: "char \<Rightarrow> nat" where
  "digitVal c = (of_char c :: nat) - 48"

fun string_of_nat :: "nat \<Rightarrow> string" where
  "string_of_nat n =
     (if n < 10 then [digitChar n] else string_of_nat (n div 10) @ [digitChar (n mod 10)])"

declare string_of_nat.simps [simp del]

definition digitsVal :: "string \<Rightarrow> nat" where
  "digitsVal ds = foldl (\<lambda>acc c. 10 * acc + digitVal c) 0 ds"

definition nat_of_string :: "string \<Rightarrow> nat option" where
  "nat_of_string ds = (if ds \<noteq> [] \<and> list_all isDigit ds then Some (digitsVal ds) else None)"

section \<open>Lemmas on actions\<close>

lemma ok_apply [action_simps]: "ok s = (None, s)"
  by (simp add: ok_def)

lemma throw_apply [action_simps]: "throw e s = (Some e, s)"
  by (simp add: throw_def)

lemma perform_apply [simp, action_simps]: "perform f s = (None, f s)"
  by (simp add: perform_def)

lemma andThen_apply [action_simps]:
  "andThen a b s = (if fst (a s) = None then b (snd (a s)) else a s)"
  by (cases "a s") (auto simp: andThen_def split: option.splits)

lemma andThen_ok_left [simp]: "andThen ok b = b"
  by (rule ext) (simp add: andThen_def ok_def)

lemma andThen_ok_right [simp]: "andThen a ok = a"
  by (rule ext) (auto simp: andThen_def ok_def split: prod.splits option.splits)

lemma andThen_assoc: "andThen (andThen a b) c = andThen a (andThen b c)"
  by (rule ext) (auto simp: andThen_def split: prod.splits option.splits)

lemma andThen_perform: "andThen (perform f) b s = b (f s)"
  by (simp add: andThen_def perform_def)

lemma andThen_throws: "a s = (Some e, s') \<Longrightarrow> andThen a b s = (Some e, s')"
  by (simp add: andThen_def)

lemma andThen_returns: "a s = (None, s') \<Longrightarrow> andThen a b s = b s'"
  by (simp add: andThen_def)

lemma forEach_Nil: "forEach f [] = ok"
  by (rule ext) (simp add: ok_def)

lemma forEach_Cons: "forEach f (x # xs) = andThen (f x) (forEach f xs)"
  by (rule ext) (simp add: andThen_def)

lemma forEach_append: "forEach f (xs @ ys) = andThen (forEach f xs) (forEach f ys)"
  by (induction xs) (simp_all add: forEach_Nil forEach_Cons andThen_assoc del: forEach.simps)

lemma forEach_Cons_apply:
  "forEach f (x # xs) s = (if fst (f x s) = None then forEach f xs (snd (f x s)) else f x s)"
  by (simp add: forEach_Cons andThen_apply del: forEach.simps)

lemma forEach_single [simp]: "forEach f [x] = f x"
  by (simp add: forEach_Nil forEach_Cons del: forEach.simps)

text \<open>A loop whose body never throws never throws; its final state is the fold of the
  body's state changes.\<close>

lemma forEach_perform: "forEach (\<lambda>x. perform (g x)) xs s = (None, fold g xs s)"
  by (induction xs arbitrary: s) (simp_all add: perform_def)

text \<open>An invariant of the body, kept whether or not it throws, is kept by the loop.\<close>

lemma forEach_invariant:
  assumes step: "\<And>x s. x \<in> set xs \<Longrightarrow> P s \<Longrightarrow> P (snd (f x s))"
    and init: "P s"
  shows "P (snd (forEach f xs s))"
  using assms
proof (induction xs arbitrary: s)
  case Nil
  then show ?case by simp
next
  case (Cons x xs)
  have "P (snd (f x s))" using Cons.prems by simp
  with Cons show ?case by (simp add: forEach_Cons_apply del: forEach.simps)
qed

section \<open>Lemmas on \<open>mapE\<close>\<close>

lemma mapE_Inr_iff: "mapE f xs = Inr ys \<longleftrightarrow> list_all2 (\<lambda>x y. f x = Inr y) xs ys"
proof (induction xs arbitrary: ys)
  case Nil
  then show ?case by auto
next
  case (Cons x xs)
  show ?case
    by (cases ys; cases "f x"; cases "mapE f xs") (auto simp: Cons.IH [symmetric])
qed

lemma mapE_length: "mapE f xs = Inr ys \<Longrightarrow> length ys = length xs"
  by (simp add: mapE_Inr_iff list_all2_lengthD)

lemma mapE_total: "(\<And>x. x \<in> set xs \<Longrightarrow> f x = Inr (g x)) \<Longrightarrow> mapE f xs = Inr (map g xs)"
  by (induction xs) simp_all

lemma mapE_Inl_iff:
  "mapE f xs = Inl e \<longleftrightarrow>
     (\<exists>i < length xs. f (xs ! i) = Inl e \<and> (\<forall>j < i. \<exists>y. f (xs ! j) = Inr y))"
proof (induction xs)
  case Nil
  then show ?case by simp
next
  case (Cons x xs)
  show ?case
  proof (cases "f x")
    case (Inl e')
    have "e' = e" if "i < length (x # xs)" "f ((x # xs) ! i) = Inl e"
      "\<forall>j<i. \<exists>y. f ((x # xs) ! j) = Inr y" for i
      using that Inl by (cases i) auto
    with Inl show ?thesis by (auto intro: exI [of _ 0])
  next
    case (Inr y)
    have "(\<exists>i<length (x # xs). f ((x # xs) ! i) = Inl e \<and> (\<forall>j<i. \<exists>y. f ((x # xs) ! j) = Inr y))
        \<longleftrightarrow> (\<exists>i<length xs. f (xs ! i) = Inl e \<and> (\<forall>j<i. \<exists>y. f (xs ! j) = Inr y))"
      (is "?L \<longleftrightarrow> ?R")
    proof
      assume ?L
      then obtain i where i: "i < length (x # xs)" "f ((x # xs) ! i) = Inl e"
        "\<forall>j<i. \<exists>y. f ((x # xs) ! j) = Inr y" by blast
      with Inr obtain k where k: "i = Suc k" by (cases i) auto
      with i have "k < length xs \<and> f (xs ! k) = Inl e \<and> (\<forall>j<k. \<exists>y. f (xs ! j) = Inr y)"
        by (auto dest: spec [of _ "Suc _"])
      then show ?R by blast
    next
      assume ?R
      then obtain i where i: "i < length xs" "f (xs ! i) = Inl e"
        "\<forall>j<i. \<exists>y. f (xs ! j) = Inr y" by blast
      with Inr have "Suc i < length (x # xs) \<and> f ((x # xs) ! Suc i) = Inl e
          \<and> (\<forall>j<Suc i. \<exists>y. f ((x # xs) ! j) = Inr y)"
        by (auto simp: nth_Cons split: nat.splits)
      then show ?L by blast
    qed
    with Inr Cons.IH show ?thesis by (auto split: sum.splits)
  qed
qed

lemma mapE_map: "mapE f (map g xs) = mapE (\<lambda>x. f (g x)) xs"
  by (induction xs) (simp_all split: sum.splits)

lemma mapE_append:
  "mapE f (xs @ ys) =
     (case mapE f xs of
        Inl e \<Rightarrow> Inl e
      | Inr us \<Rightarrow> (case mapE f ys of Inl e \<Rightarrow> Inl e | Inr vs \<Rightarrow> Inr (us @ vs)))"
  by (induction xs) (auto split: sum.splits)

text \<open>
  Nested maps that fail at the first bad element: when the callback on \<open>x\<close> fails exactly
  at the first bad element of \<open>g x\<close>, the map over \<open>xs\<close> fails exactly at the first bad
  element of the concatenation, in traversal order. The resolver uses it at each of its
  three levels.
\<close>

lemma find_append:
  "find P (xs @ ys) = (case find P xs of None \<Rightarrow> find P ys | Some x \<Rightarrow> Some x)"
  by (induction xs) simp_all

lemma mapE_find_concat:
  assumes "\<And>x. x \<in> set xs \<Longrightarrow>
    f x = (case find P (g x) of None \<Rightarrow> Inr (h x) | Some b \<Rightarrow> Inl (E b))"
  shows "mapE f xs =
    (case find P (concat (map g xs)) of None \<Rightarrow> Inr (map h xs) | Some b \<Rightarrow> Inl (E b))"
  using assms
proof (induction xs)
  case Nil
  then show ?case by simp
next
  case (Cons x xs)
  then show ?case by (simp add: find_append split: option.splits)
qed

section \<open>Lemmas on strings\<close>

lemma joinWith_single [simp]: "joinWith sep [x] = x"
  by simp

lemma joinWith_Cons: "xs \<noteq> [] \<Longrightarrow> joinWith sep (x # xs) = x @ sep @ joinWith sep xs"
  by (cases xs) simp_all

lemma length_joinWith:
  "xs \<noteq> [] \<Longrightarrow>
     length (joinWith sep xs) = sum_list (map length xs) + (length xs - 1) * length sep"
  by (induction sep xs rule: joinWith.induct) simp_all

lemma splitOn_nonempty [simp]: "splitOn c xs \<noteq> []"
  by (induction xs) (auto split: list.splits)

lemma splitOn_no_sep [simp]: "c \<notin> set xs \<Longrightarrow> splitOn c xs = [xs]"
  by (induction xs) auto

lemma splitOn_append_sep:
  "c \<notin> set xs \<Longrightarrow> splitOn c (xs @ c # ys) = xs # splitOn c ys"
  by (induction xs) auto

text \<open>Splitting undoes joining when no piece holds the separator.\<close>

lemma splitOn_joinWith:
  "xs \<noteq> [] \<Longrightarrow> \<forall>x \<in> set xs. c \<notin> set x \<Longrightarrow> splitOn c (joinWith [c] xs) = xs"
  by (induction "[c]" xs rule: joinWith.induct) (simp_all add: splitOn_append_sep)

lemma joinWith_head_Cons: "joinWith sep ((x # a) # rest) = x # joinWith sep (a # rest)"
  by (cases rest) simp_all

lemma joinWith_splitOn: "joinWith [c] (splitOn c xs) = xs"
proof (induction xs)
  case Nil
  then show ?case by simp
next
  case (Cons x xs)
  show ?case
  proof (cases "splitOn c xs")
    case Nil
    then show ?thesis by simp
  next
    case (Cons a list)
    with Cons.IH show ?thesis by (simp add: joinWith_Cons joinWith_head_Cons)
  qed
qed

lemma digitChar_simps [simp]:
  "digitChar 0 = CHR ''0''" "digitChar (Suc 0) = CHR ''1''" "digitChar 2 = CHR ''2''"
  "digitChar 3 = CHR ''3''" "digitChar 4 = CHR ''4''" "digitChar 5 = CHR ''5''"
  "digitChar 6 = CHR ''6''" "digitChar 7 = CHR ''7''" "digitChar 8 = CHR ''8''"
  "digitChar 9 = CHR ''9''"
  by (simp_all add: digitChar_def)

lemma less_10_cases:
  fixes d :: nat
  assumes "d < 10"
  shows "d \<in> {0, 1, 2, 3, 4, 5, 6, 7, 8, 9}"
  using assms by auto

lemma isDigit_digitChar [simp]: "d < 10 \<Longrightarrow> isDigit (digitChar d)"
  by (drule less_10_cases) (auto simp: isDigit_def)

lemma digitVal_digitChar [simp]: "d < 10 \<Longrightarrow> digitVal (digitChar d) = d"
  by (drule less_10_cases) (auto simp: digitVal_def)

lemma string_of_nat_small: "n < 10 \<Longrightarrow> string_of_nat n = [digitChar n]"
  by (subst string_of_nat.simps) simp

lemma string_of_nat_large:
  "10 \<le> n \<Longrightarrow> string_of_nat n = string_of_nat (n div 10) @ [digitChar (n mod 10)]"
  by (subst string_of_nat.simps) simp

lemma string_of_nat_nonempty [simp]: "string_of_nat n \<noteq> []"
  by (subst string_of_nat.simps) simp

lemma string_of_nat_digits [simp]: "list_all isDigit (string_of_nat n)"
  by (induction n rule: string_of_nat.induct) (subst string_of_nat.simps, simp)

lemma digitsVal_snoc: "digitsVal (ds @ [c]) = 10 * digitsVal ds + digitVal c"
  by (simp add: digitsVal_def)

lemma digitsVal_string_of_nat [simp]: "digitsVal (string_of_nat n) = n"
proof (induction n rule: string_of_nat.induct)
  case (1 n)
  show ?case
  proof (cases "n < 10")
    case True
    then show ?thesis by (simp add: string_of_nat_small digitsVal_def)
  next
    case False
    with "1.IH" show ?thesis by (simp add: string_of_nat_large digitsVal_snoc)
  qed
qed

text \<open>Reading back the printed digits gives the number: printing loses nothing.\<close>

lemma nat_of_string_of_nat [simp]: "nat_of_string (string_of_nat n) = Some n"
  by (simp add: nat_of_string_def)

lemma string_of_nat_inj: "string_of_nat m = string_of_nat n \<Longrightarrow> m = n"
  by (metis digitsVal_string_of_nat)

lemma space_not_digit [simp]: "\<not> isDigit CHR '' ''"
  by (simp add: isDigit_def)

lemma string_of_nat_no_space [simp]: "CHR '' '' \<notin> set (string_of_nat n)"
  using string_of_nat_digits [of n] by (auto simp: list_all_iff)

end
