(* ===== verification/Json.thy ===== *)
theory Json
  imports Sched_Prelude
begin

text \<open>
  The payload of a schedule event (\<^verbatim>\<open>event['schedule'].input\<close>) is a JavaScript value that
  \<^verbatim>\<open>scheduler.ts\<close> handles in two places: line 85 replaces a falsy payload by the empty object
  (\<^verbatim>\<open>input || {}\<close>), and line 50 prints it into the scheduling notice with
  \<^verbatim>\<open>JSON.stringify(input)\<close>. This theory holds the values, JavaScript's truthiness on them and
  the text \<^verbatim>\<open>JSON.stringify\<close> produces.

  \<^verbatim>\<open>JSON.stringify\<close> is a builtin of the language, not code of the repository: line 50 is
  only its call. \<open>stringify\<close>, \<open>quoteJSONString\<close>, \<open>escapeChar\<close>, \<open>hexDigit\<close> and
  \<open>string_of_int\<close> model it after the ECMAScript specification (\<^verbatim>\<open>SerializeJSONProperty\<close>,
  \<^verbatim>\<open>QuoteJSONString\<close>), for the values below.

  Bounds of the model: numbers are integers (no fractions, \<^verbatim>\<open>NaN\<close> or infinities) of a
  magnitude up to \<open>2^53\<close>, the integers a JavaScript number holds exactly and prints in
  plain decimal; the type \<open>int\<close> has larger values, for which JavaScript would round and,
  from \<open>10^21\<close> on, print an exponent, and which are outside the model. Strings
  are byte strings (ASCII text is printed as JavaScript prints it; characters outside ASCII
  are not modelled), and an object is the list of its own enumerable properties in
  \<^verbatim>\<open>Object.keys\<close> order. Values that \<^verbatim>\<open>JSON.stringify\<close> omits (functions, \<^verbatim>\<open>undefined\<close>
  inside objects) are not values of the type; an absent payload is \<open>None\<close> at the place
  where it can be absent.

  The lemmas show that the default leaves no falsy payload and that the text of a payload
  cannot break the line of a notice; that the text determines the payload is the subject
  of theory \<open>Json_Reader\<close>.
\<close>

section \<open>Values\<close>

datatype json =
    JNull
  | JBool bool
  | JNumber int
  | JString string
  | JArray "json list"
  | JObject "(string \<times> json) list"

text \<open>The empty object literal \<^verbatim>\<open>{}\<close> of line 85.\<close>

abbreviation emptyObject :: json where
  "emptyObject \<equiv> JObject []"

section \<open>Truthiness and the \<^verbatim>\<open>||\<close> default\<close>

text \<open>
  JavaScript's \<^verbatim>\<open>ToBoolean\<close>: \<^verbatim>\<open>null\<close>, \<^verbatim>\<open>false\<close>, \<^verbatim>\<open>0\<close> and the empty string are falsy,
  every array and object is truthy. \<open>orEmptyObject\<close> is \<^verbatim>\<open>input || {}\<close> for a payload
  that may be absent (\<^verbatim>\<open>undefined\<close> is falsy too).
\<close>

fun truthy :: "json \<Rightarrow> bool" where
  "truthy JNull = False"
| "truthy (JBool b) = b"
| "truthy (JNumber i) = (i \<noteq> 0)"
| "truthy (JString s) = (s \<noteq> [])"
| "truthy (JArray xs) = True"
| "truthy (JObject kvs) = True"

definition orEmptyObject :: "json option \<Rightarrow> json" where
  "orEmptyObject v = (case v of None \<Rightarrow> emptyObject | Some j \<Rightarrow> if truthy j then j else emptyObject)"

section \<open>\<^verbatim>\<open>JSON.stringify\<close>\<close>

definition hexDigit :: "nat \<Rightarrow> char" where
  "hexDigit d = ''0123456789abcdef'' ! d"

text \<open>One character inside a JSON string literal (ECMAScript \<^verbatim>\<open>QuoteJSONString\<close>): the
  quote and the backslash are escaped, control characters are written with their short
  escape or as \<^verbatim>\<open>\u00XX\<close>.\<close>

definition escapeChar :: "char \<Rightarrow> string" where
  "escapeChar c =
     (if c = CHR 0x22 then [CHR 0x5C, CHR 0x22]
      else if c = CHR 0x5C then [CHR 0x5C, CHR 0x5C]
      else if c = CHR 0x08 then [CHR 0x5C, CHR ''b'']
      else if c = CHR 0x0C then [CHR 0x5C, CHR ''f'']
      else if c = CHR 0x0A then [CHR 0x5C, CHR ''n'']
      else if c = CHR 0x0D then [CHR 0x5C, CHR ''r'']
      else if c = CHR 0x09 then [CHR 0x5C, CHR ''t'']
      else if (of_char c :: nat) < 32 then
        [CHR 0x5C, CHR ''u'', CHR ''0'', CHR ''0'',
         hexDigit ((of_char c :: nat) div 16), hexDigit ((of_char c :: nat) mod 16)]
      else [c])"

definition quoteJSONString :: "string \<Rightarrow> string" where
  "quoteJSONString s = CHR 0x22 # concat (map escapeChar s) @ [CHR 0x22]"

definition string_of_int :: "int \<Rightarrow> string" where
  "string_of_int i = (if i < 0 then CHR ''-'' # string_of_nat (nat (- i)) else string_of_nat (nat i))"

fun stringify :: "json \<Rightarrow> string" where
  "stringify JNull = ''null''"
| "stringify (JBool b) = (if b then ''true'' else ''false'')"
| "stringify (JNumber i) = string_of_int i"
| "stringify (JString s) = quoteJSONString s"
| "stringify (JArray xs) = ''['' @ joinWith '','' (map stringify xs) @ '']''"
| "stringify (JObject kvs) =
     ''{'' @ joinWith '','' (map (\<lambda>(k, v). quoteJSONString k @ '':'' @ stringify v) kvs) @ ''}''"

text \<open>Characters that \<^verbatim>\<open>JSON.stringify\<close> copies unchanged.\<close>

definition plainChar :: "char \<Rightarrow> bool" where
  "plainChar c \<longleftrightarrow> c \<noteq> CHR 0x22 \<and> c \<noteq> CHR 0x5C \<and> 32 \<le> (of_char c :: nat)"

text \<open>Characters that do not end or move the line of a notice: everything from the space
  on.\<close>

definition printable :: "char \<Rightarrow> bool" where
  "printable c \<longleftrightarrow> 32 \<le> (of_char c :: nat)"

section \<open>Lemmas\<close>

lemma orEmptyObject_simps [simp]:
  "orEmptyObject None = emptyObject"
  "truthy j \<Longrightarrow> orEmptyObject (Some j) = j"
  "\<not> truthy j \<Longrightarrow> orEmptyObject (Some j) = emptyObject"
  by (simp_all add: orEmptyObject_def)

text \<open>Whatever the event carries, the payload of a configuration is truthy: the default
  leaves no \<^verbatim>\<open>null\<close>, \<^verbatim>\<open>false\<close>, \<^verbatim>\<open>0\<close> or empty string behind.\<close>

lemma truthy_orEmptyObject [simp]: "truthy (orEmptyObject v)"
  by (simp add: orEmptyObject_def split: option.splits)

lemma orEmptyObject_idem [simp]: "orEmptyObject (Some (orEmptyObject v)) = orEmptyObject v"
  by simp

lemma truthy_cases: "\<not> truthy j \<longleftrightarrow> j \<in> {JNull, JBool False, JNumber 0, JString []}"
  by (cases j) auto

lemma escapeChar_plain [simp]: "plainChar c \<Longrightarrow> escapeChar c = [c]"
  by (auto simp: plainChar_def escapeChar_def)

lemma escapeChar_nonempty [simp]: "escapeChar c \<noteq> []"
  by (simp add: escapeChar_def)

lemma concat_escape_plain: "list_all plainChar s \<Longrightarrow> concat (map escapeChar s) = s"
  by (induction s) simp_all

lemma quoteJSONString_plain:
  "list_all plainChar s \<Longrightarrow> quoteJSONString s = CHR 0x22 # s @ [CHR 0x22]"
  by (simp add: quoteJSONString_def concat_escape_plain)

lemma stringify_emptyObject [simp]: "stringify emptyObject = ''{}''"
  by simp

lemma stringify_nonempty [simp]: "stringify j \<noteq> []"
  by (cases j) (simp_all add: quoteJSONString_def string_of_int_def)

lemma string_of_int_nat [simp]: "string_of_int (int n) = string_of_nat n"
  by (simp add: string_of_int_def)

section \<open>The text of a payload\<close>

lemma printable_Char [simp]:
  "printable (Char b0 b1 b2 b3 b4 b5 b6 b7) \<longleftrightarrow> b5 \<or> b6 \<or> b7"
  by (simp add: printable_def)

lemma printable_hexDigit: "d < 16 \<Longrightarrow> printable (hexDigit d)"
proof -
  have "\<forall>d \<in> set [0..<16]. printable (hexDigit d)"
    by code_simp
  then show "d < 16 \<Longrightarrow> printable (hexDigit d)"
    by simp
qed

lemma printable_escapeChar [simp]: "list_all printable (escapeChar c)"
proof (cases "(of_char c :: nat) < 32")
  case True
  then have "(of_char c :: nat) div 16 < 16" "(of_char c :: nat) mod 16 < 16"
    by auto
  with True show ?thesis
    by (simp add: escapeChar_def printable_hexDigit)
next
  case False
  then show ?thesis
    by (simp add: escapeChar_def) (simp add: printable_def)
qed

lemma length_escapeChar: "1 \<le> length (escapeChar c) \<and> length (escapeChar c) \<le> 6"
  by (simp add: escapeChar_def)

lemma length_concat_escapeChar:
  "length s \<le> length (concat (map escapeChar s))
   \<and> length (concat (map escapeChar s)) \<le> 6 * length s"
proof (induction s)
  case Nil
  show ?case by simp
next
  case (Cons c s)
  with length_escapeChar [of c] show ?case by simp
qed

lemma quoteJSONString_length:
  "length s + 2 \<le> length (quoteJSONString s) \<and> length (quoteJSONString s) \<le> 6 * length s + 2"
  using length_concat_escapeChar [of s] by (simp add: quoteJSONString_def)

lemma quoteJSONString_printable [simp]: "list_all printable (quoteJSONString s)"
  using printable_escapeChar by (auto simp: quoteJSONString_def list_all_iff)

lemma printable_digit: "isDigit c \<Longrightarrow> printable c"
  by (auto simp: isDigit_def printable_def)

lemma string_of_int_printable [simp]: "list_all printable (string_of_int i)"
  using string_of_nat_digits
  by (auto simp: string_of_int_def list_all_iff intro: printable_digit)

lemma joinWith_printable:
  "list_all printable sep \<Longrightarrow> \<forall>x \<in> set xs. list_all printable x \<Longrightarrow>
     list_all printable (joinWith sep xs)"
  by (induction sep xs rule: joinWith.induct) simp_all

lemma stringify_printable: "list_all printable (stringify j)"
proof (induction j)
  case (JArray xs)
  then have "\<forall>x \<in> set (map stringify xs). list_all printable x"
    by simp
  then show ?case
    by (simp add: joinWith_printable del: set_map)
next
  case (JObject kvs)
  then have "\<forall>x \<in> set (map (\<lambda>(k, v). quoteJSONString k @ '':'' @ stringify v) kvs).
      list_all printable x"
    by fastforce
  then show ?case
    by (simp add: joinWith_printable del: set_map)
qed simp_all

text \<open>
  C32. The payload text stays on its line. \<^verbatim>\<open>JSON.stringify\<close> writes no character below
  \<^verbatim>\<open>0x20\<close>, whatever the payload holds, and a string of \<open>n\<close> characters takes between \<open>n + 2\<close>
  and \<open>6 * n + 2\<close> characters of the notice.
\<close>

theorem stringify_bounds:
  "list_all printable (stringify j)
   \<and> length s + 2 \<le> length (quoteJSONString s)
   \<and> length (quoteJSONString s) \<le> 6 * length s + 2"
  using stringify_printable [of j] quoteJSONString_length [of s] by blast

end
