(* ===== verification/Cron_Expression.thy ===== *)
theory Cron_Expression
  imports Sched_Prelude
begin

text \<open>
  The expression normalizer, \<^verbatim>\<open>convertExpressionToCron\<close>. \<^verbatim>\<open>scheduler.ts\<close> imports it from
  \<^verbatim>\<open>./utils\<close> (line 4) and calls it on line 84; the file \<^verbatim>\<open>utils.ts\<close> is not part of the
  sources at hand, so this theory follows section 4.1 of the specification: an expression
  \<^verbatim>\<open>rate(<n> <unit>)\<close> with a unit among minute(s), hour(s), day(s) becomes a five-field
  schedule with the step \<^verbatim>\<open>*/n\<close> in the field of the unit and \<^verbatim>\<open>*\<close> elsewhere; anything
  else fails with \<open>InvalidExpression\<close>.

  Choices of the model where the specification is silent: \<open>n\<close> is a non-empty string of
  decimal digits read as a number and printed again (so \<^verbatim>\<open>rate(01 minute)\<close> gives
  \<^verbatim>\<open>*/1 * * * *\<close>), any number is accepted (\<open>0\<close> included), number and unit are
  separated by exactly one space, and nothing may follow the closing bracket. Calendar
  expressions (\<^verbatim>\<open>cron(...)\<close>), which the specification puts out of the scope of the core,
  are refused like any other input that is not a rate. The real \<^verbatim>\<open>utils.ts\<close> may differ in
  each of these; the theorems on the resolver and the scheduler do not depend on them,
  only the ones that name \<open>rateExpression\<close> do.
\<close>

section \<open>Definitions\<close>

datatype time_unit = Minute | Hour | Day

text \<open>The unit words of the grammar and the unit each denotes.\<close>

definition unitWords :: "(string \<times> time_unit) list" where
  "unitWords =
     [(''minute'', Minute), (''minutes'', Minute), (''hour'', Hour), (''hours'', Hour),
      (''day'', Day), (''days'', Day)]"

definition parseUnit :: "string \<Rightarrow> time_unit option" where
  "parseUnit w = map_of unitWords w"

text \<open>The text between \<^verbatim>\<open>rate(\<close> and the closing bracket.\<close>

definition rateBody :: "string \<Rightarrow> string option" where
  "rateBody e =
     (if take 5 e = ''rate('' \<and> 5 < length e \<and> last e = CHR '')''
      then Some (butlast (drop 5 e)) else None)"

definition parseRate :: "string \<Rightarrow> (nat \<times> time_unit) option" where
  "parseRate e =
     (case rateBody e of
        None \<Rightarrow> None
      | Some body \<Rightarrow>
          (case splitOn CHR '' '' body of
             [ds, u] \<Rightarrow>
               (case nat_of_string ds of
                  None \<Rightarrow> None
                | Some n \<Rightarrow> map_option (Pair n) (parseUnit u))
           | _ \<Rightarrow> None))"

definition stepField :: "nat \<Rightarrow> string" where
  "stepField n = ''*/'' @ string_of_nat n"

text \<open>The five fields: minute, hour, day of month, month, day of week.\<close>

fun cronFields :: "nat \<Rightarrow> time_unit \<Rightarrow> string list" where
  "cronFields n Minute = [stepField n, ''*'', ''*'', ''*'', ''*'']"
| "cronFields n Hour = [''*'', stepField n, ''*'', ''*'', ''*'']"
| "cronFields n Day = [''*'', ''*'', stepField n, ''*'', ''*'']"

definition cronOf :: "nat \<Rightarrow> time_unit \<Rightarrow> string" where
  "cronOf n u = joinWith '' '' (cronFields n u)"

definition convertExpressionToCron :: "string \<Rightarrow> error + string" where
  "convertExpressionToCron e =
     (case parseRate e of
        None \<Rightarrow> Inl (InvalidExpression e)
      | Some (n, u) \<Rightarrow> Inr (cronOf n u))"

text \<open>The expression that denotes a rate, for stating what the conversion accepts.\<close>

definition rateExpression :: "nat \<Rightarrow> string \<Rightarrow> string" where
  "rateExpression n unit_word = ''rate('' @ string_of_nat n @ '' '' @ unit_word @ '')''"

fun fieldIndex :: "time_unit \<Rightarrow> nat" where
  "fieldIndex Minute = 0"
| "fieldIndex Hour = 1"
| "fieldIndex Day = 2"

text \<open>Reading a schedule back: the step of a field \<^verbatim>\<open>*/n\<close>, and the rate of a schedule
  that has a step in one of its first three fields and \<^verbatim>\<open>*\<close> in the four others. These are
  the schedules the timer subsystem is given.\<close>

definition readStep :: "string \<Rightarrow> nat option" where
  "readStep f = (if take 2 f = ''*/'' then nat_of_string (drop 2 f) else None)"

definition readFields :: "string list \<Rightarrow> (nat \<times> time_unit) option" where
  "readFields fs =
     (case fs of
        [a, b, d, m, w] \<Rightarrow>
          if m \<noteq> ''*'' \<or> w \<noteq> ''*'' then None
          else if b = ''*'' \<and> d = ''*'' then map_option (\<lambda>n. (n, Minute)) (readStep a)
          else if a = ''*'' \<and> d = ''*'' then map_option (\<lambda>n. (n, Hour)) (readStep b)
          else if a = ''*'' \<and> b = ''*'' then map_option (\<lambda>n. (n, Day)) (readStep d)
          else None
      | _ \<Rightarrow> None)"

definition readSchedule :: "string \<Rightarrow> (nat \<times> time_unit) option" where
  "readSchedule c = readFields (splitOn CHR '' '' c)"

section \<open>The accepted expressions\<close>

lemma unitWords_no_space: "list_all (\<lambda>(w, u). CHR '' '' \<notin> set w) unitWords"
  by (simp add: unitWords_def)

lemma parseUnit_no_space: "parseUnit w = Some u \<Longrightarrow> CHR '' '' \<notin> set w"
  using unitWords_no_space by (auto simp: parseUnit_def list_all_iff dest!: map_of_SomeD)

lemma parseUnit_words [simp]:
  "parseUnit ''minute'' = Some Minute" "parseUnit ''minutes'' = Some Minute"
  "parseUnit ''hour'' = Some Hour" "parseUnit ''hours'' = Some Hour"
  "parseUnit ''day'' = Some Day" "parseUnit ''days'' = Some Day"
  by (simp_all add: parseUnit_def unitWords_def)

lemma distinct_unitWords: "distinct (map fst unitWords)"
  by (simp add: unitWords_def)

lemma parseUnit_Some_iff: "parseUnit w = Some u \<longleftrightarrow> (w, u) \<in> set unitWords"
  by (simp add: parseUnit_def distinct_unitWords)

lemma rateBody_rateExpression [simp]:
  "rateBody (rateExpression n w) = Some (string_of_nat n @ '' '' @ w)"
  by (simp add: rateBody_def rateExpression_def butlast_append)

text \<open>Reading a printed rate gives the number and the unit back.\<close>

lemma parseRate_rateExpression:
  "CHR '' '' \<notin> set w \<Longrightarrow> parseRate (rateExpression n w) = map_option (Pair n) (parseUnit w)"
  by (simp add: parseRate_def splitOn_append_sep)

lemma convert_rateExpression:
  "parseUnit w = Some u \<Longrightarrow> convertExpressionToCron (rateExpression n w) = Inr (cronOf n u)"
  by (simp add: convertExpressionToCron_def parseRate_rateExpression parseUnit_no_space)

lemma convert_Inr_iff:
  "convertExpressionToCron e = Inr c \<longleftrightarrow> (\<exists>n u. parseRate e = Some (n, u) \<and> c = cronOf n u)"
  by (auto simp: convertExpressionToCron_def split: option.splits)

lemma convert_Inl_iff:
  "convertExpressionToCron e = Inl err \<longleftrightarrow> parseRate e = None \<and> err = InvalidExpression e"
  by (auto simp: convertExpressionToCron_def split: option.splits)

text \<open>An expression that does not start with \<^verbatim>\<open>rate(\<close> is refused, calendar expressions
  (\<^verbatim>\<open>cron(...)\<close>) included.\<close>

lemma convert_not_rate:
  "take 5 e \<noteq> ''rate('' \<Longrightarrow> convertExpressionToCron e = Inl (InvalidExpression e)"
  by (simp add: convertExpressionToCron_def parseRate_def rateBody_def)

section \<open>The shape of the result\<close>

lemma length_cronFields [simp]: "length (cronFields n u) = 5"
  by (cases u) simp_all

lemma cronFields_nth:
  "i < 5 \<Longrightarrow> cronFields n u ! i = (if i = fieldIndex u then stepField n else ''*'')"
  by (cases u) (auto simp: nth_Cons split: nat.splits)

lemma cronFields_update:
  "cronFields n u = (replicate 5 ''*'')[fieldIndex u := stepField n]"
  by (cases u) (simp_all add: eval_nat_numeral)

lemma stepField_no_space [simp]: "CHR '' '' \<notin> set (stepField n)"
  by (simp add: stepField_def)

lemma cronFields_no_space: "f \<in> set (cronFields n u) \<Longrightarrow> CHR '' '' \<notin> set f"
  by (cases u) auto

text \<open>Splitting the schedule at its spaces gives exactly the five fields.\<close>

lemma splitOn_cronOf: "splitOn CHR '' '' (cronOf n u) = cronFields n u"
  unfolding cronOf_def
  by (rule splitOn_joinWith) (auto dest: cronFields_no_space simp: length_0_conv [symmetric]
      simp del: length_0_conv)

lemma stepField_inj: "stepField m = stepField n \<Longrightarrow> m = n"
  by (auto simp: stepField_def dest: string_of_nat_inj)

lemma stepField_not_star [simp]: "stepField n \<noteq> ''*''" "''*'' \<noteq> stepField n"
  by (simp_all add: stepField_def)

lemma cronFields_inj: "cronFields m u = cronFields n v \<Longrightarrow> m = n \<and> u = v"
  by (cases u; cases v) (auto dest: stepField_inj)

text \<open>Different rates have different schedules.\<close>

lemma cronOf_inj: "cronOf m u = cronOf n v \<Longrightarrow> m = n \<and> u = v"
  by (metis cronFields_inj splitOn_cronOf)

section \<open>Reading a schedule back\<close>

lemma readStep_stepField [simp]: "readStep (stepField n) = Some n"
  by (simp add: readStep_def stepField_def)

lemma readStep_star [simp]: "readStep ''*'' = None"
  by (simp add: readStep_def)

lemma readFields_cronFields [simp]: "readFields (cronFields n u) = Some (n, u)"
  by (cases u) (simp_all add: readFields_def)

text \<open>The schedule of a rate is read back as that rate: the conversion loses nothing.\<close>

lemma readSchedule_cronOf [simp]: "readSchedule (cronOf n u) = Some (n, u)"
  by (simp add: readSchedule_def splitOn_cronOf)

lemma readSchedule_convert:
  "convertExpressionToCron e = Inr c \<Longrightarrow> readSchedule c = parseRate e"
  by (auto simp: convert_Inr_iff)

end
