(* ===== verification/Function_Config.thy ===== *)
theory Function_Config
  imports Json Cron_Expression
begin

text \<open>
  The task configuration resolver: the types of \<^verbatim>\<open>src/src/scheduler.ts\<close> lines 6-20 and the
  private method \<^verbatim>\<open>getFunctionConfigurations\<close> (lines 69-91). It asks the function provider
  for the functions of the service, keeps the events of each function that have a
  \<^verbatim>\<open>schedule\<close> property, turns the rate of each into an array, converts every expression
  with \<^verbatim>\<open>convertExpressionToCron\<close> and flattens the per-function arrays into one.
  An expression that does not convert ends the call with an exception.

  The provider's answer is taken to have the declared type: \<^verbatim>\<open>events\<close> is an array and the
  \<^verbatim>\<open>schedule\<close> of an event is an object or a string. An answer in which \<^verbatim>\<open>events\<close> is
  \<^verbatim>\<open>undefined\<close> or a schedule is \<^verbatim>\<open>null\<close>, for which lines 75 and 78 throw a \<^verbatim>\<open>TypeError\<close>, is
  outside the model.

  A JavaScript object is modelled by the list of its properties in \<^verbatim>\<open>Object.keys\<close> order;
  the keys of such a list are distinct (\<open>wf_functions\<close>). The fields of a function and of
  a schedule event that the scheduler never reads (\<^verbatim>\<open>name\<close>, \<^verbatim>\<open>enabled\<close> of a schedule)
  are left out, except \<open>handler\<close> and \<open>fn_name\<close>, which the tests' fixtures set.
\<close>

section \<open>Data\<close>

text \<open>\<^verbatim>\<open>event['schedule'].rate\<close> is declared \<^verbatim>\<open>string | string[]\<close> (line 78). At run time it
  is \<^verbatim>\<open>undefined\<close> when the schedule has no such property: an object without a rate, or a
  schedule written as a string (\<^verbatim>\<open>schedule: rate(1 minute)\<close>), of which the code reads the
  properties \<^verbatim>\<open>rate\<close> and \<^verbatim>\<open>input\<close> like of any other value.\<close>

datatype rate_spec = OneRate string | ManyRates "string list" | NoRate

record schedule_event =
  rate :: rate_spec
  schedule_input :: "json option"

text \<open>An event either has the own property \<^verbatim>\<open>schedule\<close> or is of another kind (named by
  its key, e.g. \<^verbatim>\<open>http\<close>).\<close>

datatype event = ScheduleEvent schedule_event | OtherEvent string

record sls_function =
  handler :: string
  events :: "event list"
  fn_name :: string

type_synonym sls_functions = "(string \<times> sls_function) list"

text \<open>Lines 6-8: the provider is called with no argument and returns the functions.\<close>

type_synonym FunctionProvider = "unit \<Rightarrow> sls_functions"

text \<open>Lines 16-20.\<close>

record FunctionConfiguration =
  input :: json
  functionName :: string
  cron :: "string list"

definition wf_functions :: "sls_functions \<Rightarrow> bool" where
  "wf_functions fs \<longleftrightarrow> distinct (map fst fs)"

section \<open>\<^verbatim>\<open>getFunctionConfigurations\<close>\<close>

text \<open>Line 75: \<^verbatim>\<open>events.filter(event => event.hasOwnProperty('schedule'))\<close>, with the
  \<^verbatim>\<open>event['schedule']\<close> of each event kept.\<close>

fun scheduleEventsOf :: "event list \<Rightarrow> schedule_event list" where
  "scheduleEventsOf [] = []"
| "scheduleEventsOf (ScheduleEvent s # es) = s # scheduleEventsOf es"
| "scheduleEventsOf (OtherEvent k # es) = scheduleEventsOf es"

text \<open>Lines 78-81: whatever is not an array becomes an array of one, \<^verbatim>\<open>undefined\<close>
  included (\<open>None\<close>).\<close>

fun rateArray :: "rate_spec \<Rightarrow> string option list" where
  "rateArray (OneRate r) = [Some r]"
| "rateArray (ManyRates rs) = map Some rs"
| "rateArray NoRate = [None]"

text \<open>Line 84, the call \<^verbatim>\<open>convertExpressionToCron(r)\<close> on an element of the array. What the
  call does with \<^verbatim>\<open>undefined\<close> is an assumption of the model, since \<^verbatim>\<open>utils.ts\<close> is not among
  the sources: the specification (section 4.1) requires a total normalizer that refuses
  what it does not recognise with \<open>InvalidExpression\<close>, and the model lets it refuse
  \<^verbatim>\<open>undefined\<close> in this way, named as a template string prints it. An implementation that
  reads a property of its argument first would throw a \<^verbatim>\<open>TypeError\<close> instead; in both cases
  line 84 throws and the resolution ends there.\<close>

fun expressionText :: "string option \<Rightarrow> string" where
  "expressionText None = ''undefined''"
| "expressionText (Some e) = e"

fun convertRate :: "string option \<Rightarrow> error + string" where
  "convertRate None = Inl (InvalidExpression (expressionText None))"
| "convertRate (Some e) = convertExpressionToCron e"

text \<open>Lines 77-87, the callback of \<^verbatim>\<open>scheduleEvents.map\<close>: one configuration per schedule
  event; a conversion that throws ends it.\<close>

definition eventConfiguration :: "string \<Rightarrow> schedule_event \<Rightarrow> error + FunctionConfiguration" where
  "eventConfiguration fname s =
     (case mapE convertRate (rateArray (rate s)) of
        Inl e \<Rightarrow> Inl e
      | Inr cs \<Rightarrow>
          Inr \<lparr>input = orEmptyObject (schedule_input s), functionName = fname, cron = cs\<rparr>)"

text \<open>Lines 72-88, the callback of \<^verbatim>\<open>Object.keys(functions).map\<close>: the configurations of
  one function.\<close>

definition functionConfigurations ::
    "string \<times> sls_function \<Rightarrow> error + FunctionConfiguration list" where
  "functionConfigurations kf =
     mapE (eventConfiguration (fst kf)) (scheduleEventsOf (events (snd kf)))"

text \<open>Lines 69-91: the provider is asked once, and the arrays of all functions are
  flattened (\<^verbatim>\<open>lodash.flatten\<close>, one level).\<close>

definition getFunctionConfigurations ::
    "FunctionProvider \<Rightarrow> error + FunctionConfiguration list" where
  "getFunctionConfigurations functionProvider =
     (case mapE functionConfigurations (functionProvider ()) of
        Inl e \<Rightarrow> Inl e
      | Inr css \<Rightarrow> Inr (concat css))"

section \<open>The result when every expression converts\<close>

text \<open>The expressions of a provider's answer, in the order the resolver meets them.\<close>

definition rateTexts :: "schedule_event \<Rightarrow> string list" where
  "rateTexts s = map expressionText (rateArray (rate s))"

definition functionExpressions :: "sls_function \<Rightarrow> string list" where
  "functionExpressions f = concat (map rateTexts (scheduleEventsOf (events f)))"

definition allExpressions :: "sls_functions \<Rightarrow> string list" where
  "allExpressions fs = concat (map (functionExpressions \<circ> snd) fs)"

definition convertible :: "string \<Rightarrow> bool" where
  "convertible e \<longleftrightarrow> parseRate e \<noteq> None"

text \<open>The schedule of a convertible expression, as a total function.\<close>

definition cronOfExpression :: "string \<Rightarrow> string" where
  "cronOfExpression e = (case parseRate e of Some (n, u) \<Rightarrow> cronOf n u | None \<Rightarrow> [])"

definition resolvedEvent :: "string \<Rightarrow> schedule_event \<Rightarrow> FunctionConfiguration" where
  "resolvedEvent fname s =
     \<lparr>input = orEmptyObject (schedule_input s), functionName = fname,
      cron = map cronOfExpression (rateTexts s)\<rparr>"

definition resolvedFunction :: "string \<times> sls_function \<Rightarrow> FunctionConfiguration list" where
  "resolvedFunction kf = map (resolvedEvent (fst kf)) (scheduleEventsOf (events (snd kf)))"

definition resolved :: "sls_functions \<Rightarrow> FunctionConfiguration list" where
  "resolved fs = concat (map resolvedFunction fs)"

text \<open>The first expression, in the order the resolver meets them, that does not convert.\<close>

definition firstInvalid :: "string list \<Rightarrow> string option" where
  "firstInvalid es = find (\<lambda>e. \<not> convertible e) es"

lemma convert_convertible:
  "convertExpressionToCron e = (if convertible e then Inr (cronOfExpression e) else Inl (InvalidExpression e))"
  by (auto simp: convertExpressionToCron_def convertible_def cronOfExpression_def split: option.splits)

lemma scheduleEventsOf_append [simp]:
  "scheduleEventsOf (xs @ ys) = scheduleEventsOf xs @ scheduleEventsOf ys"
  by (induction xs rule: scheduleEventsOf.induct) simp_all

lemma set_scheduleEventsOf: "s \<in> set (scheduleEventsOf es) \<longleftrightarrow> ScheduleEvent s \<in> set es"
  by (induction es rule: scheduleEventsOf.induct) auto

lemma firstInvalid_None_iff: "firstInvalid es = None \<longleftrightarrow> list_all convertible es"
  by (auto simp: firstInvalid_def find_None_iff list_all_iff)

lemma firstInvalid_SomeD: "firstInvalid es = Some e \<Longrightarrow> e \<in> set es \<and> \<not> convertible e"
  by (auto simp: firstInvalid_def find_Some_iff)

lemma mapE_convert:
  "mapE convertExpressionToCron es =
     (case firstInvalid es of
        None \<Rightarrow> Inr (map cronOfExpression es)
      | Some e \<Rightarrow> Inl (InvalidExpression e))"
  using mapE_find_concat [where f = convertExpressionToCron and g = "\<lambda>e. [e]"
      and P = "\<lambda>e. \<not> convertible e" and h = cronOfExpression and E = InvalidExpression and xs = es]
  by (simp add: convert_convertible firstInvalid_def)

text \<open>An absent rate is an expression that does not convert.\<close>

lemma not_convertible_undefined [simp]: "\<not> convertible ''undefined''"
  unfolding convertible_def by code_simp

lemma convertRate_text: "convertRate r = convertExpressionToCron (expressionText r)"
  by (cases r) (simp_all add: convert_convertible)

lemma mapE_convertRate:
  "mapE convertRate rs = mapE convertExpressionToCron (map expressionText rs)"
  by (simp add: mapE_map convertRate_text [abs_def])

lemma rateTexts_simps [simp]:
  "rate s = OneRate r \<Longrightarrow> rateTexts s = [r]"
  "rate s = ManyRates rs \<Longrightarrow> rateTexts s = rs"
  "rate s = NoRate \<Longrightarrow> rateTexts s = [''undefined'']"
  by (simp_all add: rateTexts_def comp_def)

lemma eventConfiguration_eq:
  "eventConfiguration fname s =
     (case firstInvalid (rateTexts s) of
        None \<Rightarrow> Inr (resolvedEvent fname s)
      | Some e \<Rightarrow> Inl (InvalidExpression e))"
  by (simp add: eventConfiguration_def resolvedEvent_def mapE_convertRate mapE_convert
      rateTexts_def split: option.splits)

lemma functionConfigurations_eq:
  "functionConfigurations kf =
     (case firstInvalid (functionExpressions (snd kf)) of
        None \<Rightarrow> Inr (resolvedFunction kf)
      | Some e \<Rightarrow> Inl (InvalidExpression e))"
  unfolding functionConfigurations_def functionExpressions_def resolvedFunction_def
    firstInvalid_def comp_def
  by (rule mapE_find_concat) (simp add: eventConfiguration_eq firstInvalid_def)

section \<open>Properties of the resolver\<close>

lemma mapE_functionConfigurations:
  "mapE functionConfigurations fs =
     (case firstInvalid (allExpressions fs) of
        None \<Rightarrow> Inr (map resolvedFunction fs)
      | Some e \<Rightarrow> Inl (InvalidExpression e))"
  unfolding allExpressions_def firstInvalid_def comp_def
  by (rule mapE_find_concat) (simp add: functionConfigurations_eq firstInvalid_def)

lemma getFunctionConfigurations_convertible:
  "list_all convertible (allExpressions (functionProvider ())) \<Longrightarrow>
     getFunctionConfigurations functionProvider = Inr (resolved (functionProvider ()))"
  using firstInvalid_None_iff [of "allExpressions (functionProvider ())"]
  by (simp add: getFunctionConfigurations_def resolved_def mapE_functionConfigurations)

lemma getFunctionConfigurations_invalid:
  "firstInvalid (allExpressions (functionProvider ())) = Some e \<Longrightarrow>
     getFunctionConfigurations functionProvider = Inl (InvalidExpression e)"
  by (simp add: getFunctionConfigurations_def mapE_functionConfigurations)

text \<open>
  C5. \<^verbatim>\<open>getFunctionConfigurations\<close> is fail-fast and complete: if some expression of the
  provider's answer does not convert, the call throws \<open>InvalidExpression\<close> for the first
  such expression in source order (functions in key order, events in declaration order,
  rates in array order) and returns nothing; otherwise it returns one configuration per
  schedule event, each with the converted schedules of that event.
\<close>

theorem getFunctionConfigurations_eq:
  "getFunctionConfigurations functionProvider =
     (case firstInvalid (allExpressions (functionProvider ())) of
        None \<Rightarrow> Inr (resolved (functionProvider ()))
      | Some e \<Rightarrow> Inl (InvalidExpression e))"
proof (cases "firstInvalid (allExpressions (functionProvider ()))")
  case None
  then have "list_all convertible (allExpressions (functionProvider ()))"
    by (simp add: firstInvalid_None_iff)
  with None show ?thesis by (simp add: getFunctionConfigurations_convertible)
next
  case (Some e)
  then show ?thesis by (simp add: getFunctionConfigurations_invalid)
qed

lemma cron_resolvedEvent [simp]:
  "cron (resolvedEvent fname s) = map cronOfExpression (rateTexts s)"
  by (simp add: resolvedEvent_def)

lemma functionName_resolvedEvent [simp]: "functionName (resolvedEvent fname s) = fname"
  by (simp add: resolvedEvent_def)

lemma input_resolvedEvent [simp]: "input (resolvedEvent fname s) = orEmptyObject (schedule_input s)"
  by (simp add: resolvedEvent_def)

lemma schedules_resolvedFunction:
  "concat (map cron (resolvedFunction kf)) = map cronOfExpression (functionExpressions (snd kf))"
  by (simp add: resolvedFunction_def functionExpressions_def map_concat comp_def)

lemma schedules_resolved:
  "concat (map cron (resolved fs)) = map cronOfExpression (allExpressions fs)"
  by (induction fs) (simp_all add: resolved_def allExpressions_def schedules_resolvedFunction)

lemma functionName_resolved:
  "map functionName (resolved fs) =
     concat (map (\<lambda>kf. replicate (length (scheduleEventsOf (events (snd kf)))) (fst kf)) fs)"
  by (induction fs) (simp_all add: resolved_def resolvedFunction_def comp_def map_replicate_const)

lemma getFunctionConfigurations_InrD:
  "getFunctionConfigurations functionProvider = Inr cs \<Longrightarrow> cs = resolved (functionProvider ())"
  by (auto simp: getFunctionConfigurations_def resolved_def mapE_functionConfigurations
      split: option.splits)

text \<open>
  C6. Order is preserved: when \<^verbatim>\<open>getFunctionConfigurations\<close> returns, the schedules of the
  returned configurations, read in order, are the conversions of the expressions of the
  provider's answer in source order, one for one; and the configurations carry the key of
  their function, one per schedule event of that function in declaration order.
\<close>

theorem resolved_schedules_in_order:
  assumes "getFunctionConfigurations functionProvider = Inr cs"
  shows "concat (map cron cs) = map cronOfExpression (allExpressions (functionProvider ()))
   \<and> map functionName cs
       = concat (map (\<lambda>kf. replicate (length (scheduleEventsOf (events (snd kf)))) (fst kf))
           (functionProvider ()))"
  using getFunctionConfigurations_InrD [OF assms]
  by (simp add: schedules_resolved functionName_resolved)

text \<open>A function contributes one configuration per schedule event, under its own key; a
  function without schedule events contributes none.\<close>

lemma resolved_no_schedule_events:
  "(\<And>kf. kf \<in> set fs \<Longrightarrow> scheduleEventsOf (events (snd kf)) = []) \<Longrightarrow> resolved fs = []"
  by (induction fs) (simp_all add: resolved_def resolvedFunction_def)

text \<open>The payload of a configuration is never falsy: line 85 has replaced an absent,
  \<^verbatim>\<open>null\<close>, \<^verbatim>\<open>false\<close>, \<^verbatim>\<open>0\<close> or empty-string payload by the empty object.\<close>

lemma input_resolved_truthy: "fc \<in> set (resolved fs) \<Longrightarrow> truthy (input fc)"
  by (auto simp: resolved_def resolvedFunction_def)

text \<open>Iterating the property list is iterating \<^verbatim>\<open>Object.keys\<close> and looking each key up,
  as lines 72-73 do, when the keys are distinct.\<close>

lemma keys_lookup:
  assumes "wf_functions fs"
  shows "map (\<lambda>k. (k, the (map_of fs k))) (map fst fs) = fs"
proof -
  have "(fst kf, the (map_of fs (fst kf))) = kf" if "kf \<in> set fs" for kf
  proof (cases kf)
    case (Pair k f)
    with that assms have "map_of fs k = Some f" by (simp add: wf_functions_def)
    with Pair show ?thesis by simp
  qed
  then show ?thesis by (simp add: comp_def map_idI)
qed

section \<open>Rate expressions\<close>

lemma convertible_rateExpression: "parseUnit w = Some u \<Longrightarrow> convertible (rateExpression n w)"
  by (simp add: convertible_def parseRate_rateExpression parseUnit_no_space)

lemma cronOfExpression_rateExpression:
  "parseUnit w = Some u \<Longrightarrow> cronOfExpression (rateExpression n w) = cronOf n u"
  by (simp add: cronOfExpression_def parseRate_rateExpression parseUnit_no_space)

lemma eventConfiguration_oneRate:
  assumes "rate s = OneRate (rateExpression n w)" and "parseUnit w = Some u"
  shows "eventConfiguration fname s
    = Inr \<lparr>input = orEmptyObject (schedule_input s), functionName = fname, cron = [cronOf n u]\<rparr>"
  using assms
  by (simp add: eventConfiguration_eq resolvedEvent_def firstInvalid_def
      convertible_rateExpression cronOfExpression_rateExpression)

text \<open>
  C18. A schedule event whose rates are \<^verbatim>\<open>rate(<n> <unit>)\<close> with a unit word of the
  grammar always resolves: the configuration carries the key it was resolved for and the
  defaulted payload, and has one schedule per rate, in order, each of five fields with
  the step \<^verbatim>\<open>*/n\<close> in the field of the unit and \<^verbatim>\<open>*\<close> in the four others.
\<close>

theorem eventConfiguration_rates:
  assumes rates: "rateArray (rate s) = map (\<lambda>(n, w). Some (rateExpression n w)) nws"
    and units: "list_all (\<lambda>(n, w). parseUnit w \<noteq> None) nws"
  shows "\<exists>cs. eventConfiguration fname s
        = Inr \<lparr>input = orEmptyObject (schedule_input s), functionName = fname, cron = cs\<rparr>
    \<and> list_all2 (\<lambda>(n, w) c. splitOn CHR '' '' c
          = (replicate 5 ''*'')[fieldIndex (the (parseUnit w)) := stepField n]) nws cs"
proof -
  let ?cs = "map (\<lambda>(n, w). cronOf n (the (parseUnit w))) nws"
  have texts: "rateTexts s = map (\<lambda>(n, w). rateExpression n w) nws"
    by (simp add: rateTexts_def rates comp_def split_def)
  from units have "list_all convertible (rateTexts s)"
    unfolding texts by (auto simp: list_all_iff convertible_rateExpression)
  then have "firstInvalid (rateTexts s) = None"
    by (simp add: firstInvalid_None_iff)
  moreover from units have "map cronOfExpression (rateTexts s) = ?cs"
    unfolding texts by (auto simp: list_all_iff cronOfExpression_rateExpression)
  ultimately have "eventConfiguration fname s
      = Inr \<lparr>input = orEmptyObject (schedule_input s), functionName = fname, cron = ?cs\<rparr>"
    by (simp add: eventConfiguration_eq resolvedEvent_def)
  moreover have "list_all2 (\<lambda>(n, w) c. splitOn CHR '' '' c
      = (replicate 5 ''*'')[fieldIndex (the (parseUnit w)) := stepField n]) nws ?cs"
    by (simp add: list_all2_map2 list_all2_same splitOn_cronOf cronFields_update split_def)
  ultimately show ?thesis by blast
qed

section \<open>Every returned schedule is one the normalizer made\<close>

lemma getFunctionConfigurations_Inr_convertible:
  "getFunctionConfigurations functionProvider = Inr cs \<Longrightarrow>
     list_all convertible (allExpressions (functionProvider ()))"
  by (auto simp: getFunctionConfigurations_def mapE_functionConfigurations firstInvalid_None_iff
      split: option.splits)

lemma readSchedule_cronOfExpression:
  "convertible e \<Longrightarrow> readSchedule (cronOfExpression e) = parseRate e"
  by (auto simp: convertible_def cronOfExpression_def)

lemma getFunctionConfigurations_schedules:
  assumes "getFunctionConfigurations functionProvider = Inr cs"
    and "fc \<in> set cs" and "c \<in> set (cron fc)"
  shows "\<exists>e \<in> set (allExpressions (functionProvider ())).
    convertible e \<and> c = cronOfExpression e"
proof -
  from assms(2,3) have "c \<in> set (concat (map cron cs))"
    by auto
  also have "concat (map cron cs) = map cronOfExpression (allExpressions (functionProvider ()))"
    using getFunctionConfigurations_InrD [OF assms(1)] by (simp add: schedules_resolved)
  finally show ?thesis
    using getFunctionConfigurations_Inr_convertible [OF assms(1)] by (auto simp: list_all_iff)
qed

section \<open>Payloads and functions without schedules\<close>

lemma input_resolved:
  "map input (resolved fs)
     = map (orEmptyObject \<circ> schedule_input) (concat (map (scheduleEventsOf \<circ> events \<circ> snd) fs))"
  by (induction fs) (simp_all add: resolved_def resolvedFunction_def resolvedEvent_def)

lemma resolved_Nil_iff:
  "resolved fs = [] \<longleftrightarrow> (\<forall>kf \<in> set fs. scheduleEventsOf (events (snd kf)) = [])"
  by (induction fs) (simp_all add: resolved_def resolvedFunction_def)

lemma allExpressions_no_schedule_events:
  "\<forall>kf \<in> set fs. scheduleEventsOf (events (snd kf)) = [] \<Longrightarrow> allExpressions fs = []"
  by (induction fs) (simp_all add: allExpressions_def functionExpressions_def)

text \<open>
  C20. The payload of a returned configuration is that of its schedule event with the
  default of line 85 applied, so it is never falsy: an absent payload, \<^verbatim>\<open>null\<close>, \<^verbatim>\<open>false\<close>,
  \<^verbatim>\<open>0\<close> and the empty string have all become the empty object.
\<close>

theorem getFunctionConfigurations_payload:
  assumes "getFunctionConfigurations functionProvider = Inr cs"
  shows "map input cs = map (orEmptyObject \<circ> schedule_input)
      (concat (map (scheduleEventsOf \<circ> events \<circ> snd) (functionProvider ())))
    \<and> list_all (\<lambda>fc. truthy (input fc)) cs"
  using getFunctionConfigurations_InrD [OF assms]
  by (simp add: input_resolved list_all_iff input_resolved_truthy)

text \<open>Nothing to schedule: \<^verbatim>\<open>getFunctionConfigurations\<close> returns the empty array exactly if
  no function of the provider's answer has an event with a \<^verbatim>\<open>schedule\<close> property; events of
  other kinds never produce a configuration and are never converted.\<close>

lemma getFunctionConfigurations_Nil_iff:
  "getFunctionConfigurations functionProvider = Inr [] \<longleftrightarrow>
     (\<forall>kf \<in> set (functionProvider ()). scheduleEventsOf (events (snd kf)) = [])"
proof
  assume "getFunctionConfigurations functionProvider = Inr []"
  then have "resolved (functionProvider ()) = []"
    by (auto dest: getFunctionConfigurations_InrD)
  then show "\<forall>kf \<in> set (functionProvider ()). scheduleEventsOf (events (snd kf)) = []"
    by (simp add: resolved_Nil_iff)
next
  assume none: "\<forall>kf \<in> set (functionProvider ()). scheduleEventsOf (events (snd kf)) = []"
  then have "list_all convertible (allExpressions (functionProvider ()))"
    by (simp add: allExpressions_no_schedule_events)
  with none show "getFunctionConfigurations functionProvider = Inr []"
    by (simp add: getFunctionConfigurations_convertible resolved_Nil_iff)
qed

end
