(* ===== verification/Runtime.thy ===== *)
theory Runtime
  imports Json
begin

text \<open>
  The world outside \<^verbatim>\<open>OfflineScheduler\<close> that its methods act on, and the three calls they
  make into it: the log function (\<^verbatim>\<open>this.log\<close>, by default \<^verbatim>\<open>console.log\<close>), the invoker
  \<^verbatim>\<open>slsInvokeFunction\<close> of \<^verbatim>\<open>./utils\<close> and the timer registry \<^verbatim>\<open>schedule.scheduleJob\<close> of
  \<^verbatim>\<open>node-schedule\<close>. The world records every call in one trace, in the order the calls
  happen, so that claims about the order of a notice, an invocation and a registration
  can be stated; the registered jobs, the notices and the invocations are projections of
  the trace.

  The invoker is the one collaborator whose behaviour the scheduler depends on: it
  returns or throws. It is a parameter of every operation that calls it, a function of
  the number of invocations made so far, the function name and the payload; since that
  number grows with every call, any sequence of outcomes is the behaviour of some
  invoker, and a lemma proved for every invoker holds for every such sequence.
  Assumptions about the other two: a log function returns without throwing, and
  \<^verbatim>\<open>scheduleJob\<close> registers the job it is given (its return value is not used by the
  source).
\<close>

section \<open>State\<close>

text \<open>Where a notice goes: \<^verbatim>\<open>console.log\<close>, or a log function the configuration supplies
  (lines 11 and 28). A supplied function is known by a number that stands for its
  identity, so the notices of two schedulers with different log functions are told
  apart. What a log function does with a notice is not modelled beyond the record of the
  call; it is assumed to return.\<close>

datatype logger = Console | Supplied nat

text \<open>A registered timer: the schedule it was registered with, and what its callback
  (lines 57-64) closes over: the function name, the payload and the log function of the
  scheduler that registered it.\<close>

record job =
  jobSchedule :: string
  jobLogger :: logger
  jobFunction :: string
  jobInput :: json

datatype effect =
    Logged logger string
  | Invoked string json
  | Scheduled job

datatype signal = SIGINT | SIGTERM

text \<open>\<open>listeners\<close>: the handlers installed with \<^verbatim>\<open>process.on\<close>, in order, each with the
  signal it listens for and the log function its continuation uses; \<open>exitCode\<close>: the
  argument of \<^verbatim>\<open>process.exit\<close> once it has been called.\<close>

record world =
  trace :: "effect list"
  listeners :: "(signal \<times> logger) list"
  exitCode :: "nat option"

definition initialWorld :: world where
  "initialWorld = \<lparr>trace = [], listeners = [], exitCode = None\<rparr>"

type_synonym invoker = "nat \<Rightarrow> string \<Rightarrow> json \<Rightarrow> string option"

section \<open>Projections of the trace\<close>

fun jobsOf :: "effect list \<Rightarrow> job list" where
  "jobsOf [] = []"
| "jobsOf (Scheduled j # es) = j # jobsOf es"
| "jobsOf (e # es) = jobsOf es"

fun invocationsOf :: "effect list \<Rightarrow> (string \<times> json) list" where
  "invocationsOf [] = []"
| "invocationsOf (Invoked f i # es) = (f, i) # invocationsOf es"
| "invocationsOf (e # es) = invocationsOf es"

fun noticesOf :: "logger \<Rightarrow> effect list \<Rightarrow> string list" where
  "noticesOf l [] = []"
| "noticesOf l (Logged l' m # es) = (if l' = l then m # noticesOf l es else noticesOf l es)"
| "noticesOf l (e # es) = noticesOf l es"

definition jobs :: "world \<Rightarrow> job list" where
  "jobs w = jobsOf (trace w)"

definition invocations :: "world \<Rightarrow> (string \<times> json) list" where
  "invocations w = invocationsOf (trace w)"

definition notices :: "logger \<Rightarrow> world \<Rightarrow> string list" where
  "notices l w = noticesOf l (trace w)"

section \<open>The three calls\<close>

definition emit :: "effect list \<Rightarrow> world \<Rightarrow> world" where
  "emit es w = w\<lparr>trace := trace w @ es\<rparr>"

text \<open>\<^verbatim>\<open>this.log(message)\<close>.\<close>

definition callLog :: "logger \<Rightarrow> string \<Rightarrow> world \<Rightarrow> world" where
  "callLog l message w = emit [Logged l message] w"

text \<open>\<^verbatim>\<open>schedule.scheduleJob(c, callback)\<close>, the callback closing over the log function, the
  function name and the payload.\<close>

definition scheduleJob :: "string \<Rightarrow> logger \<Rightarrow> string \<Rightarrow> json \<Rightarrow> world \<Rightarrow> world" where
  "scheduleJob c l fname inp w =
     emit [Scheduled \<lparr>jobSchedule = c, jobLogger = l, jobFunction = fname, jobInput = inp\<rparr>] w"

text \<open>\<^verbatim>\<open>slsInvokeFunction(functionName, input)\<close>: the call is recorded; it returns, or throws
  what the invoker says.\<close>

definition slsInvokeFunction :: "invoker \<Rightarrow> string \<Rightarrow> json \<Rightarrow> (error, world) action" where
  "slsInvokeFunction invoke fname inp w =
     (map_option InvocationError (invoke (length (invocations w)) fname inp),
      emit [Invoked fname inp] w)"

section \<open>Plans: a list of calls, performed in order\<close>

text \<open>
  A list of effects read as a plan: perform each call in turn, ending at the first
  invocation that throws. \<open>runPlan\<close> is the same as a function on lists, without a
  world: the outcome and the part of the plan that was performed, given the number of
  invocations made before.
\<close>

fun performEffect :: "invoker \<Rightarrow> effect \<Rightarrow> (error, world) action" where
  "performEffect invoke (Logged l m) = perform (callLog l m)"
| "performEffect invoke (Invoked f i) = slsInvokeFunction invoke f i"
| "performEffect invoke (Scheduled j) =
     perform (scheduleJob (jobSchedule j) (jobLogger j) (jobFunction j) (jobInput j))"

definition execute :: "invoker \<Rightarrow> effect list \<Rightarrow> (error, world) action" where
  "execute invoke es = forEach (performEffect invoke) es"

fun runPlan :: "invoker \<Rightarrow> nat \<Rightarrow> effect list \<Rightarrow> error option \<times> effect list" where
  "runPlan invoke n [] = (None, [])"
| "runPlan invoke n (Invoked f i # es) =
     (case invoke n f i of
        Some err \<Rightarrow> (Some (InvocationError err), [Invoked f i])
      | None \<Rightarrow> (case runPlan invoke (Suc n) es of (r, performed) \<Rightarrow> (r, Invoked f i # performed)))"
| "runPlan invoke n (e # es) =
     (case runPlan invoke n es of (r, performed) \<Rightarrow> (r, e # performed))"

text \<open>The exception \<open>e\<close> was thrown by the last call of \<open>performed\<close>, an invocation that
  the invoker refused.\<close>

definition thrownBy :: "invoker \<Rightarrow> nat \<Rightarrow> effect list \<Rightarrow> error \<Rightarrow> bool" where
  "thrownBy invoke n performed e \<longleftrightarrow>
     (\<exists>before f i err. performed = before @ [Invoked f i]
        \<and> invoke (n + length (invocationsOf before)) f i = Some err \<and> e = InvocationError err)"

section \<open>Lemmas\<close>

lemma jobsOf_append [simp]: "jobsOf (xs @ ys) = jobsOf xs @ jobsOf ys"
  by (induction xs rule: jobsOf.induct) simp_all

lemma invocationsOf_append [simp]:
  "invocationsOf (xs @ ys) = invocationsOf xs @ invocationsOf ys"
  by (induction xs rule: invocationsOf.induct) simp_all

lemma noticesOf_append [simp]: "noticesOf l (xs @ ys) = noticesOf l xs @ noticesOf l ys"
  by (induction l xs rule: noticesOf.induct) simp_all

lemma emit_Nil [simp]: "emit [] w = w"
  by (simp add: emit_def)

lemma emit_emit [simp]: "emit ys (emit xs w) = emit (xs @ ys) w"
  by (simp add: emit_def)

lemma trace_emit [simp]: "trace (emit es w) = trace w @ es"
  by (simp add: emit_def)

lemma listeners_emit [simp]: "listeners (emit es w) = listeners w"
  by (simp add: emit_def)

lemma exitCode_emit [simp]: "exitCode (emit es w) = exitCode w"
  by (simp add: emit_def)

lemma jobs_emit [simp]: "jobs (emit es w) = jobs w @ jobsOf es"
  by (simp add: jobs_def)

lemma invocations_emit [simp]: "invocations (emit es w) = invocations w @ invocationsOf es"
  by (simp add: invocations_def)

lemma notices_emit [simp]: "notices l (emit es w) = notices l w @ noticesOf l es"
  by (simp add: notices_def)

lemma emit_eq_iff [simp]: "emit xs w = emit ys w \<longleftrightarrow> xs = ys"
  by (auto simp: emit_def dest: arg_cong [where f = trace])

lemmas call_defs [sched_defs] = callLog_def scheduleJob_def slsInvokeFunction_def

lemma job_eta [simp]:
  "\<lparr>jobSchedule = jobSchedule j, jobLogger = jobLogger j, jobFunction = jobFunction j,
    jobInput = jobInput j\<rparr> = j"
  by (cases j) simp

lemma execute_Nil [simp]: "execute invoke [] w = (None, w)"
  by (simp add: execute_def)

lemma execute_append:
  "execute invoke (xs @ ys) = andThen (execute invoke xs) (execute invoke ys)"
  by (simp add: execute_def forEach_append)

lemma execute_Cons: "execute invoke (e # es) = andThen (performEffect invoke e) (execute invoke es)"
  by (simp add: execute_def forEach_Cons del: forEach.simps)

text \<open>Executing a plan in a world is running it as a list and emitting what was
  performed.\<close>

lemma execute_runPlan:
  "execute invoke es w =
     (fst (runPlan invoke (length (invocations w)) es),
      emit (snd (runPlan invoke (length (invocations w)) es)) w)"
proof (induction es arbitrary: w)
  case Nil
  then show ?case by simp
next
  case (Cons e es)
  show ?case
  proof (cases e)
    case (Invoked f i)
    then show ?thesis
      by (cases "invoke (length (invocations w)) f i")
        (simp_all add: execute_Cons andThen_def slsInvokeFunction_def Cons.IH split: prod.splits)
  qed (simp_all add: execute_Cons andThen_def perform_def callLog_def scheduleJob_def Cons.IH
      split: prod.splits)
qed

lemma runPlan_append:
  "runPlan invoke n (xs @ ys) =
     (case runPlan invoke n xs of
        (Some e, performed) \<Rightarrow> (Some e, performed)
      | (None, performed) \<Rightarrow>
          (case runPlan invoke (n + length (invocationsOf xs)) ys of
             (r, performed') \<Rightarrow> (r, performed @ performed')))"
  by (induction invoke n xs rule: runPlan.induct) (auto split: prod.splits option.splits)

text \<open>What was performed is an initial part of the plan, and the whole plan when nothing
  was thrown.\<close>

lemma runPlan_prefix: "\<exists>rest. es = snd (runPlan invoke n es) @ rest"
  by (induction invoke n es rule: runPlan.induct) (auto split: prod.splits option.splits)

lemma runPlan_returns: "fst (runPlan invoke n es) = None \<Longrightarrow> snd (runPlan invoke n es) = es"
  by (induction invoke n es rule: runPlan.induct) (auto split: prod.splits option.splits)

text \<open>A thrown exception is that of the last invocation performed, and it is the invoker's
  answer for it.\<close>

lemma thrownBy_first: "invoke n f i = Some err \<Longrightarrow> thrownBy invoke n [Invoked f i] (InvocationError err)"
proof -
  have "[Invoked f i] = [] @ [Invoked f i]" by simp
  moreover assume "invoke n f i = Some err"
  ultimately show ?thesis unfolding thrownBy_def by fastforce
qed

lemma thrownBy_Cons:
  assumes "thrownBy invoke (n + length (invocationsOf [x])) performed e"
  shows "thrownBy invoke n (x # performed) e"
proof -
  from assms obtain before f i err where *: "performed = before @ [Invoked f i]"
    "invoke (n + length (invocationsOf [x]) + length (invocationsOf before)) f i = Some err"
    "e = InvocationError err"
    unfolding thrownBy_def by blast
  have "x # performed = (x # before) @ [Invoked f i]" using * by simp
  moreover have "invoke (n + length (invocationsOf (x # before))) f i = Some err"
    using *(2) by (cases x) (simp_all add: ac_simps)
  ultimately show ?thesis unfolding thrownBy_def using *(3) by blast
qed

lemma runPlan_throws:
  "fst (runPlan invoke n es) = Some e \<Longrightarrow> thrownBy invoke n (snd (runPlan invoke n es)) e"
proof (induction invoke n es rule: runPlan.induct)
  case (2 invoke n f i es)
  show ?case
  proof (cases "invoke n f i")
    case None
    with 2 show ?thesis by (auto split: prod.splits intro!: thrownBy_Cons)
  next
    case (Some err)
    with 2 show ?thesis by (auto intro: thrownBy_first)
  qed
qed (auto split: prod.splits intro!: thrownBy_Cons)

text \<open>A plan runs to its end when the invoker accepts each of its invocations.\<close>

lemma runPlan_succeeds:
  "(\<And>k. k < length (invocationsOf es) \<Longrightarrow>
      invoke (n + k) (fst (invocationsOf es ! k)) (snd (invocationsOf es ! k)) = None) \<Longrightarrow>
   runPlan invoke n es = (None, es)"
proof (induction invoke n es rule: runPlan.induct)
  case (1 invoke n)
  then show ?case by simp
next
  case (2 invoke n f i es)
  from "2.prems" [of 0] have now: "invoke n f i = None" by simp
  have "invoke (Suc n + k) (fst (invocationsOf es ! k)) (snd (invocationsOf es ! k)) = None"
    if "k < length (invocationsOf es)" for k
    using "2.prems" [of "Suc k"] that by simp
  with 2 now show ?case by simp
qed simp_all

text \<open>And only then.\<close>

lemma runPlan_returns_iff:
  "fst (runPlan invoke n es) = None \<longleftrightarrow>
     (\<forall>k < length (invocationsOf es).
        invoke (n + k) (fst (invocationsOf es ! k)) (snd (invocationsOf es ! k)) = None)"
proof (induction invoke n es rule: runPlan.induct)
  case (2 invoke n f i es)
  show ?case
  proof (cases "invoke n f i")
    case None
    with 2 show ?thesis
      by (auto simp: less_Suc_eq_0_disj split: prod.splits)
  next
    case (Some err)
    then show ?thesis by auto
  qed
qed (auto split: prod.splits)

lemma runPlan_no_invocations: "invocationsOf es = [] \<Longrightarrow> runPlan invoke n es = (None, es)"
  by (rule runPlan_succeeds) simp

end
