(* ===== verification/Scheduler.thy ===== *)
theory Scheduler
  imports Function_Config Runtime
begin

text \<open>
  The scheduling engine: the class \<^verbatim>\<open>OfflineScheduler\<close> of \<^verbatim>\<open>src/src/scheduler.ts\<close> with its
  constructor (lines 27-32) and the method \<^verbatim>\<open>scheduleEvents\<close> (lines 39-67). The method
  resolves the configurations, and for each one either emits the skip notice or emits the
  scheduling notice and, for each schedule of the configuration, runs the function at once
  if \<^verbatim>\<open>runImmediately\<close> is set and registers a timer.

  The operations are actions on the world of theory \<open>Runtime\<close>; an exception thrown by the
  resolver or by an immediate invocation leaves \<^verbatim>\<open>scheduleEvents\<close> as the action's
  outcome, with the calls made before it kept in the trace. \<open>plannedEffects\<close> is the
  specification of the registration loop as a list of calls, and the first theorem
  of the last section shows that the method performs exactly this plan.
\<close>

section \<open>Configuration and the class\<close>

text \<open>\<^verbatim>\<open>Serverless.ScheduleConfigOptions\<close>, as lines 45 and 53 read it: the skip list may be
  absent.\<close>

record ScheduleConfigOptions =
  skipFunctions :: "string list option"
  runImmediately :: bool

text \<open>Lines 10-14; \<^verbatim>\<open>log\<close> is optional.\<close>

record SchedulerConfig =
  config_log :: "logger option"
  config_functionProvider :: FunctionProvider
  config_configOptions :: ScheduleConfigOptions

text \<open>Lines 22-25: the private fields.\<close>

record OfflineScheduler =
  log :: logger
  functionProvider :: FunctionProvider
  configOptions :: ScheduleConfigOptions

text \<open>Lines 27-32: the constructor; \<^verbatim>\<open>log = console.log\<close> when the configuration has none.\<close>

definition newOfflineScheduler :: "SchedulerConfig \<Rightarrow> OfflineScheduler" where
  "newOfflineScheduler config =
     \<lparr>log = (case config_log config of None \<Rightarrow> Console | Some l \<Rightarrow> l),
      functionProvider = config_functionProvider config,
      configOptions = config_configOptions config\<rparr>"

section \<open>Notices\<close>

text \<open>The template strings of lines 46, 50 and 54. An array inside a template string is
  printed with its elements joined by commas.\<close>

definition skippingMessage :: "string \<Rightarrow> string" where
  "skippingMessage fname = ''Skipping scheduled function ['' @ fname @ '']''"

definition schedulingMessage :: "string \<Rightarrow> string list \<Rightarrow> json \<Rightarrow> string" where
  "schedulingMessage fname cs inp =
     ''Scheduling ['' @ fname @ ''] cron: ['' @ joinWith '','' cs @ ''] input: '' @ stringify inp"

definition runningMessage :: "string \<Rightarrow> string" where
  "runningMessage fname = ''Running scheduled function immediately ['' @ fname @ '']''"

section \<open>\<^verbatim>\<open>scheduleEvents\<close>\<close>

text \<open>Line 45: \<^verbatim>\<open>(this.configOptions.skipFunctions || []).includes(functionName)\<close>.\<close>

definition skipList :: "OfflineScheduler \<Rightarrow> string list" where
  "skipList this = (case skipFunctions (configOptions this) of None \<Rightarrow> [] | Some names \<Rightarrow> names)"

definition skipped :: "OfflineScheduler \<Rightarrow> string \<Rightarrow> bool" where
  "skipped this fname \<longleftrightarrow> fname \<in> set (skipList this)"

text \<open>Lines 52-65, the callback of \<^verbatim>\<open>cron.forEach\<close>: the immediate run, which may throw,
  then the registration.\<close>

definition scheduleCron ::
    "invoker \<Rightarrow> OfflineScheduler \<Rightarrow> string \<Rightarrow> json \<Rightarrow> string \<Rightarrow> (error, world) action" where
  "scheduleCron invoke this fname inp c =
     andThen
       (if runImmediately (configOptions this)
        then andThen (perform (callLog (log this) (runningMessage fname)))
               (slsInvokeFunction invoke fname inp)
        else ok)
       (perform (scheduleJob c (log this) fname inp))"

text \<open>Lines 42-66, the callback of \<^verbatim>\<open>configurations.forEach\<close>.\<close>

definition scheduleConfiguration ::
    "invoker \<Rightarrow> OfflineScheduler \<Rightarrow> FunctionConfiguration \<Rightarrow> (error, world) action" where
  "scheduleConfiguration invoke this fc =
     (if skipped this (functionName fc)
      then perform (callLog (log this) (skippingMessage (functionName fc)))
      else andThen
             (perform (callLog (log this)
                (schedulingMessage (functionName fc) (cron fc) (input fc))))
             (forEach (scheduleCron invoke this (functionName fc) (input fc)) (cron fc)))"

text \<open>Lines 39-67. An exception of the resolver is thrown before anything is done.\<close>

definition scheduleEvents :: "invoker \<Rightarrow> OfflineScheduler \<Rightarrow> (error, world) action" where
  "scheduleEvents invoke this w =
     (case getFunctionConfigurations (functionProvider this) of
        Inl e \<Rightarrow> throw e w
      | Inr configurations \<Rightarrow> forEach (scheduleConfiguration invoke this) configurations w)"

section \<open>The plan of a registration\<close>

text \<open>
  What section 4.3 of the specification asks of \<open>Start\<close>, as the list of calls to make:
  for a skipped function the skip notice alone; otherwise the scheduling notice and, per
  schedule, the immediate run (notice, then invocation) if requested, then the timer.
\<close>

definition jobFor :: "OfflineScheduler \<Rightarrow> string \<Rightarrow> json \<Rightarrow> string \<Rightarrow> job" where
  "jobFor this fname inp c =
     \<lparr>jobSchedule = c, jobLogger = log this, jobFunction = fname, jobInput = inp\<rparr>"

definition cronEffects :: "OfflineScheduler \<Rightarrow> string \<Rightarrow> json \<Rightarrow> string \<Rightarrow> effect list" where
  "cronEffects this fname inp c =
     (if runImmediately (configOptions this)
      then [Logged (log this) (runningMessage fname), Invoked fname inp] else [])
     @ [Scheduled (jobFor this fname inp c)]"

definition configurationEffects :: "OfflineScheduler \<Rightarrow> FunctionConfiguration \<Rightarrow> effect list" where
  "configurationEffects this fc =
     (if skipped this (functionName fc)
      then [Logged (log this) (skippingMessage (functionName fc))]
      else Logged (log this) (schedulingMessage (functionName fc) (cron fc) (input fc))
           # concat (map (cronEffects this (functionName fc) (input fc)) (cron fc)))"

definition plannedEffects :: "OfflineScheduler \<Rightarrow> FunctionConfiguration list \<Rightarrow> effect list" where
  "plannedEffects this configurations = concat (map (configurationEffects this) configurations)"

text \<open>The timers of the plan: one per schedule of every configuration that is not
  skipped, in order.\<close>

definition plannedJobs :: "OfflineScheduler \<Rightarrow> FunctionConfiguration list \<Rightarrow> job list" where
  "plannedJobs this configurations =
     concat (map (\<lambda>fc. map (jobFor this (functionName fc) (input fc)) (cron fc))
       (filter (\<lambda>fc. \<not> skipped this (functionName fc)) configurations))"

text \<open>The notices of the plan for one configuration: the skip notice, or the scheduling
  notice and one immediate-run notice per schedule if immediate runs are requested.\<close>

definition configurationNotices :: "OfflineScheduler \<Rightarrow> FunctionConfiguration \<Rightarrow> string list" where
  "configurationNotices this fc =
     (if skipped this (functionName fc) then [skippingMessage (functionName fc)]
      else schedulingMessage (functionName fc) (cron fc) (input fc)
           # (if runImmediately (configOptions this)
              then replicate (length (cron fc)) (runningMessage (functionName fc)) else []))"

text \<open>
  The shape of a plan with \<^verbatim>\<open>runImmediately\<close>: notices, and blocks of three calls, the
  immediate-run notice, the invocation and the timer of the same function and payload.
  So every invocation is announced, every invocation is followed at once by its timer,
  and there is no timer without an invocation before it.
\<close>

inductive immediatePlan :: "effect list \<Rightarrow> bool" where
  Nil: "immediatePlan []"
| Notice: "immediatePlan es \<Longrightarrow> immediatePlan (Logged l m # es)"
| Run: "immediatePlan es \<Longrightarrow> jobFunction j = f \<Longrightarrow> jobInput j = i \<Longrightarrow>
    immediatePlan (Logged l (runningMessage f) # Invoked f i # Scheduled j # es)"

inductive_cases immediatePlan_InvokedE [elim!]: "immediatePlan (Invoked f i # es)"
inductive_cases immediatePlan_ScheduledE [elim!]: "immediatePlan (Scheduled j # es)"
inductive_cases immediatePlan_LoggedE: "immediatePlan (Logged l m # es)"

section \<open>The method performs the plan\<close>

lemma execute_concat_map:
  "(\<And>x. x \<in> set xs \<Longrightarrow> f x = execute invoke (g x)) \<Longrightarrow>
     forEach f xs = execute invoke (concat (map g xs))"
proof (induction xs)
  case Nil
  then show ?case by (simp add: execute_def)
next
  case (Cons x xs)
  then show ?case by (simp add: forEach_Cons execute_append del: forEach.simps)
qed

lemma scheduleCron_plan:
  "scheduleCron invoke this fname inp c = execute invoke (cronEffects this fname inp c)"
  by (simp add: scheduleCron_def cronEffects_def execute_def jobFor_def forEach_Nil forEach_Cons
      andThen_assoc del: forEach.simps)

lemma scheduleConfiguration_plan:
  "scheduleConfiguration invoke this fc = execute invoke (configurationEffects this fc)"
  by (simp add: scheduleConfiguration_def configurationEffects_def execute_Cons
      execute_concat_map [OF scheduleCron_plan, symmetric])
    (simp add: execute_def forEach_Nil forEach_Cons del: forEach.simps)

lemma forEach_scheduleConfiguration_plan:
  "forEach (scheduleConfiguration invoke this) cs = execute invoke (plannedEffects this cs)"
  unfolding plannedEffects_def by (rule execute_concat_map) (rule scheduleConfiguration_plan)

section \<open>Projections of the plan\<close>

lemma jobsOf_concat: "jobsOf (concat xss) = concat (map jobsOf xss)"
  by (induction xss) simp_all

lemma invocationsOf_concat: "invocationsOf (concat xss) = concat (map invocationsOf xss)"
  by (induction xss) simp_all

lemma noticesOf_concat: "noticesOf l (concat xss) = concat (map (noticesOf l) xss)"
  by (induction xss) simp_all

lemma jobsOf_cronEffects [simp]: "jobsOf (cronEffects this fname inp c) = [jobFor this fname inp c]"
  by (simp add: cronEffects_def)

lemma invocationsOf_cronEffects [simp]:
  "invocationsOf (cronEffects this fname inp c) =
     (if runImmediately (configOptions this) then [(fname, inp)] else [])"
  by (simp add: cronEffects_def)

lemma jobsOf_configurationEffects:
  "jobsOf (configurationEffects this fc) =
     (if skipped this (functionName fc) then []
      else map (jobFor this (functionName fc) (input fc)) (cron fc))"
  by (simp add: configurationEffects_def jobsOf_concat comp_def)

lemma invocationsOf_configurationEffects:
  "invocationsOf (configurationEffects this fc) =
     (if skipped this (functionName fc) \<or> \<not> runImmediately (configOptions this) then []
      else map (\<lambda>c. (functionName fc, input fc)) (cron fc))"
  by (simp add: configurationEffects_def invocationsOf_concat comp_def)

lemma jobsOf_plannedEffects: "jobsOf (plannedEffects this cs) = plannedJobs this cs"
  by (induction cs) (simp_all add: plannedEffects_def plannedJobs_def jobsOf_configurationEffects)

lemma invocationsOf_plannedEffects:
  "invocationsOf (plannedEffects this cs) =
     (if runImmediately (configOptions this)
      then map (\<lambda>j. (jobFunction j, jobInput j)) (plannedJobs this cs) else [])"
  by (induction cs)
    (simp_all add: plannedEffects_def plannedJobs_def invocationsOf_configurationEffects
      jobFor_def comp_def)

lemma noticesOf_cronEffects [simp]:
  "noticesOf l (cronEffects this fname inp c) =
     (if runImmediately (configOptions this) \<and> l = log this then [runningMessage fname] else [])"
  by (auto simp: cronEffects_def)

lemma noticesOf_configurationEffects:
  "noticesOf l (configurationEffects this fc) =
     (if l = log this then configurationNotices this fc else [])"
  by (simp add: configurationEffects_def configurationNotices_def noticesOf_concat comp_def
      map_replicate_const)

lemma noticesOf_plannedEffects:
  "noticesOf l (plannedEffects this cs) =
     (if l = log this then concat (map (configurationNotices this) cs) else [])"
  by (induction cs) (simp_all add: plannedEffects_def noticesOf_configurationEffects)

lemma plannedJobs_not_skipped: "j \<in> set (plannedJobs this cs) \<Longrightarrow> \<not> skipped this (jobFunction j)"
  by (auto simp: plannedJobs_def jobFor_def)

lemma plannedJobs_origin:
  "j \<in> set (plannedJobs this cs) \<Longrightarrow>
     \<exists>fc \<in> set cs. jobInput j = input fc \<and> jobFunction j = functionName fc
       \<and> jobSchedule j \<in> set (cron fc)"
  by (auto simp: plannedJobs_def jobFor_def)

lemma jobLogger_plannedJobs: "j \<in> set (plannedJobs this cs) \<Longrightarrow> jobLogger j = log this"
  by (auto simp: plannedJobs_def jobFor_def)

lemma length_plannedJobs:
  "length (plannedJobs this cs) =
     sum_list (map (length \<circ> cron) (filter (\<lambda>fc. \<not> skipped this (functionName fc)) cs))"
  by (simp add: plannedJobs_def length_concat comp_def)

section \<open>The shape of a plan with immediate runs\<close>

lemma immediatePlan_append:
  "immediatePlan xs \<Longrightarrow> immediatePlan ys \<Longrightarrow> immediatePlan (xs @ ys)"
  by (induction xs rule: immediatePlan.induct) (auto intro: immediatePlan.intros)

lemma immediatePlan_concat:
  "(\<And>xs. xs \<in> set xss \<Longrightarrow> immediatePlan xs) \<Longrightarrow> immediatePlan (concat xss)"
  by (induction xss) (auto intro: immediatePlan.Nil immediatePlan_append)

lemma immediatePlan_cronEffects:
  "runImmediately (configOptions this) \<Longrightarrow> immediatePlan (cronEffects this fname inp c)"
  by (auto simp: cronEffects_def jobFor_def intro!: immediatePlan.Run immediatePlan.Nil)

lemma immediatePlan_configurationEffects:
  "runImmediately (configOptions this) \<Longrightarrow> immediatePlan (configurationEffects this fc)"
  by (auto simp: configurationEffects_def
      intro!: immediatePlan.Notice immediatePlan.Nil immediatePlan_concat immediatePlan_cronEffects)

lemma immediatePlan_plannedEffects:
  "runImmediately (configOptions this) \<Longrightarrow> immediatePlan (plannedEffects this cs)"
  by (auto simp: plannedEffects_def
      intro!: immediatePlan_concat immediatePlan_configurationEffects)

text \<open>In such a plan, what follows an invocation starts with the timer of the same
  function and payload.\<close>

lemma immediatePlan_after_invocation:
  "immediatePlan es \<Longrightarrow> es = before @ Invoked f i # rest \<Longrightarrow>
     \<exists>j rest'. rest = Scheduled j # rest' \<and> jobFunction j = f \<and> jobInput j = i"
proof (induction arbitrary: before rule: immediatePlan.induct)
  case Nil
  then show ?case by simp
next
  case (Notice es l m)
  then show ?case by (cases before) auto
next
  case (Run es j f' i' l)
  show ?case
  proof (cases "before = [Logged l (runningMessage f')]")
    case True
    with Run.prems Run.hyps show ?thesis by auto
  next
    case False
    with Run.prems obtain before' where
      "es = before' @ Invoked f i # rest"
      by (auto simp: Cons_eq_append_conv)
    then show ?thesis by (rule Run.IH)
  qed
qed

section \<open>What a run leaves in the world\<close>

text \<open>The outcome and the final world of \<^verbatim>\<open>scheduleEvents\<close> in terms of the plan run as a
  list: shared by the theorems below.\<close>

lemma scheduleEvents_runPlan:
  assumes "getFunctionConfigurations (functionProvider this) = Inr cs"
  shows "scheduleEvents invoke this w =
     (fst (runPlan invoke (length (invocations w)) (plannedEffects this cs)),
      emit (snd (runPlan invoke (length (invocations w)) (plannedEffects this cs))) w)"
  using assms
  by (simp add: scheduleEvents_def forEach_scheduleConfiguration_plan execute_runPlan)

lemma scheduleEvents_performed:
  assumes "getFunctionConfigurations (functionProvider this) = Inr cs"
  obtains performed rest where
    "plannedEffects this cs = performed @ rest"
    "snd (scheduleEvents invoke this w) = emit performed w"
    "fst (scheduleEvents invoke this w) = None \<Longrightarrow> rest = []"
proof -
  let ?r = "runPlan invoke (length (invocations w)) (plannedEffects this cs)"
  obtain rest where rest: "plannedEffects this cs = snd ?r @ rest"
    using runPlan_prefix by blast
  show thesis
  proof (rule that [of "snd ?r" rest])
    show "plannedEffects this cs = snd ?r @ rest" by (rule rest)
    show "snd (scheduleEvents invoke this w) = emit (snd ?r) w"
      by (simp add: scheduleEvents_runPlan [OF assms])
    show "rest = []" if "fst (scheduleEvents invoke this w) = None"
      using that rest runPlan_returns [of invoke "length (invocations w)" "plannedEffects this cs"]
      by (simp add: scheduleEvents_runPlan [OF assms])
  qed
qed

text \<open>A run that returns has performed the whole plan.\<close>

lemma scheduleEvents_returned:
  assumes "getFunctionConfigurations (functionProvider this) = Inr cs"
    and "fst (scheduleEvents invoke this w) = None"
  shows "snd (scheduleEvents invoke this w) = emit (plannedEffects this cs) w"
proof -
  have "snd (runPlan invoke (length (invocations w)) (plannedEffects this cs))
      = plannedEffects this cs"
    using assms(2) by (intro runPlan_returns) (simp add: scheduleEvents_runPlan [OF assms(1)])
  then show ?thesis
    by (simp add: scheduleEvents_runPlan [OF assms(1)])
qed

text \<open>Whatever the outcome, the timers a start registers are planned ones.\<close>

lemma scheduleEvents_registers:
  "\<exists>registered. jobs (snd (scheduleEvents invoke this w)) = jobs w @ registered
     \<and> (\<forall>j \<in> set registered. \<exists>cs.
          getFunctionConfigurations (functionProvider this) = Inr cs
          \<and> j \<in> set (plannedJobs this cs))"
proof (cases "getFunctionConfigurations (functionProvider this)")
  case (Inl e)
  then have "jobs (snd (scheduleEvents invoke this w)) = jobs w @ []"
    by (simp add: scheduleEvents_def throw_def)
  then show ?thesis by fastforce
next
  case (Inr cs)
  then obtain performed rest where
    plan: "plannedEffects this cs = performed @ rest"
    and world: "snd (scheduleEvents invoke this w) = emit performed w"
    by (rule scheduleEvents_performed)
  have "plannedJobs this cs = jobsOf performed @ jobsOf rest"
    using jobsOf_plannedEffects [of this cs] by (simp add: plan)
  then have "set (jobsOf performed) \<subseteq> set (plannedJobs this cs)"
    by simp
  with Inr world have "jobs (snd (scheduleEvents invoke this w)) = jobs w @ jobsOf performed
      \<and> (\<forall>j \<in> set (jobsOf performed). \<exists>cs.
          getFunctionConfigurations (functionProvider this) = Inr cs
          \<and> j \<in> set (plannedJobs this cs))"
    by auto
  then show ?thesis by blast
qed

text \<open>Whatever the outcome, what a start runs at once are planned timers' functions with
  their payloads.\<close>

lemma scheduleEvents_invokes:
  "\<exists>invoked. invocations (snd (scheduleEvents invoke this w)) = invocations w @ invoked
     \<and> (\<forall>x \<in> set invoked. \<exists>cs j.
          getFunctionConfigurations (functionProvider this) = Inr cs
          \<and> j \<in> set (plannedJobs this cs) \<and> x = (jobFunction j, jobInput j))"
proof (cases "getFunctionConfigurations (functionProvider this)")
  case (Inl e)
  then have "invocations (snd (scheduleEvents invoke this w)) = invocations w @ []"
    by (simp add: scheduleEvents_def throw_def)
  then show ?thesis by fastforce
next
  case (Inr cs)
  then obtain performed rest where
    plan: "plannedEffects this cs = performed @ rest"
    and world: "snd (scheduleEvents invoke this w) = emit performed w"
    by (rule scheduleEvents_performed)
  have "\<exists>j \<in> set (plannedJobs this cs). x = (jobFunction j, jobInput j)"
    if "x \<in> set (invocationsOf (plannedEffects this cs))" for x
    using that by (auto simp: invocationsOf_plannedEffects split: if_splits)
  then have "\<forall>x \<in> set (invocationsOf performed).
      \<exists>j \<in> set (plannedJobs this cs). x = (jobFunction j, jobInput j)"
    by (simp add: plan)
  with Inr world show ?thesis by auto
qed

text \<open>Whatever the outcome, a start logs to the log function of its scheduler only.\<close>

lemma scheduleEvents_notices_other:
  assumes "l \<noteq> log this"
  shows "notices l (snd (scheduleEvents invoke this w)) = notices l w"
proof (cases "getFunctionConfigurations (functionProvider this)")
  case (Inl e)
  then show ?thesis by (simp add: scheduleEvents_def throw_def)
next
  case (Inr cs)
  then obtain performed rest where
    plan: "plannedEffects this cs = performed @ rest"
    and world: "snd (scheduleEvents invoke this w) = emit performed w"
    by (rule scheduleEvents_performed)
  from assms have "noticesOf l (performed @ rest) = []"
    unfolding plan [symmetric] by (simp add: noticesOf_plannedEffects)
  with world show ?thesis by simp
qed

text \<open>\<^verbatim>\<open>scheduleEvents\<close> touches neither the signal handlers nor the exit code.\<close>

lemma scheduleEvents_emits: "\<exists>es. snd (scheduleEvents invoke this w) = emit es w"
proof (cases "getFunctionConfigurations (functionProvider this)")
  case (Inl e)
  then have "snd (scheduleEvents invoke this w) = emit [] w"
    by (simp add: scheduleEvents_def throw_def)
  then show ?thesis ..
next
  case (Inr cs)
  then show ?thesis by (simp add: scheduleEvents_runPlan)
qed

lemma scheduleEvents_frame [simp]:
  "listeners (snd (scheduleEvents invoke this w)) = listeners w"
  "exitCode (snd (scheduleEvents invoke this w)) = exitCode w"
  using scheduleEvents_emits [of invoke this w] by auto

lemma scheduleEvents_fail_fast_lemma:
  "firstInvalid (allExpressions (functionProvider this ())) = Some e \<Longrightarrow>
     scheduleEvents invoke this w = (Some (InvalidExpression e), w)"
  by (simp add: scheduleEvents_def getFunctionConfigurations_invalid throw_def)

section \<open>Properties of \<^verbatim>\<open>scheduleEvents\<close>\<close>

text \<open>
  C1. \<^verbatim>\<open>scheduleEvents\<close> implements the plan: if an expression of the provider's answer does
  not convert, it throws \<open>InvalidExpression\<close> for the first such expression and does
  nothing; otherwise it performs the planned calls of the resolved configurations in order
  (skip notice, or scheduling notice and per schedule the immediate run and the timer),
  ending at the first invocation that throws.
\<close>

theorem scheduleEvents_plan:
  "scheduleEvents invoke this w =
     (case firstInvalid (allExpressions (functionProvider this ())) of
        Some e \<Rightarrow> (Some (InvalidExpression e), w)
      | None \<Rightarrow> execute invoke (plannedEffects this (resolved (functionProvider this ()))) w)"
proof (cases "firstInvalid (allExpressions (functionProvider this ()))")
  case None
  then have "getFunctionConfigurations (functionProvider this)
      = Inr (resolved (functionProvider this ()))"
    by (simp add: getFunctionConfigurations_convertible firstInvalid_None_iff)
  with None show ?thesis
    by (simp add: scheduleEvents_def forEach_scheduleConfiguration_plan)
next
  case (Some e)
  then show ?thesis by (simp add: scheduleEvents_fail_fast_lemma)
qed

text \<open>
  C2. Without \<^verbatim>\<open>runImmediately\<close>, \<^verbatim>\<open>scheduleEvents\<close> on resolvable configurations returns
  normally, appends exactly the planned notices and registrations to the trace, registers
  the planned timers after those already present and never calls the invoker.
\<close>

theorem scheduleEvents_without_immediate:
  assumes "\<not> runImmediately (configOptions this)"
    and "getFunctionConfigurations (functionProvider this) = Inr cs"
  shows "scheduleEvents invoke this w = (None, emit (plannedEffects this cs) w)
    \<and> jobs (snd (scheduleEvents invoke this w)) = jobs w @ plannedJobs this cs
    \<and> invocations (snd (scheduleEvents invoke this w)) = invocations w"
proof -
  have "invocationsOf (plannedEffects this cs) = []"
    using assms(1) by (simp add: invocationsOf_plannedEffects)
  then have "scheduleEvents invoke this w = (None, emit (plannedEffects this cs) w)"
    by (simp add: scheduleEvents_runPlan [OF assms(2)] runPlan_no_invocations)
  with \<open>invocationsOf (plannedEffects this cs) = []\<close> show ?thesis
    by (simp add: jobsOf_plannedEffects)
qed

text \<open>
  C3. A skipped function gets no timer, whatever \<^verbatim>\<open>runImmediately\<close> says and however the
  run ends: every timer present after \<^verbatim>\<open>scheduleEvents\<close> was present before or belongs to a
  function that is not on the skip list.
\<close>

theorem scheduleEvents_skipped_never_registered:
  assumes "j \<in> set (jobs (snd (scheduleEvents invoke this w)))"
  shows "j \<in> set (jobs w) \<or> \<not> skipped this (jobFunction j)"
  using scheduleEvents_registers [of invoke this w] assms
  by (auto dest: plannedJobs_not_skipped)

text \<open>
  C7. An exception of an immediate invocation is not caught (line 55 is outside the
  \<^verbatim>\<open>try\<close> of lines 58-63): if \<^verbatim>\<open>scheduleEvents\<close> throws after the configurations resolved,
  then \<^verbatim>\<open>runImmediately\<close> is set, the exception is the invoker's, the timers registered are
  an initial part of the planned ones, and at least the timer of the schedule whose
  immediate run failed is missing.
\<close>

theorem scheduleEvents_immediate_failure:
  assumes resolved: "getFunctionConfigurations (functionProvider this) = Inr cs"
    and thrown: "fst (scheduleEvents invoke this w) = Some e"
  shows "runImmediately (configOptions this) \<and>
    (\<exists>err registered missing.
       e = InvocationError err \<and> plannedJobs this cs = registered @ missing \<and> missing \<noteq> []
       \<and> jobs (snd (scheduleEvents invoke this w)) = jobs w @ registered
       \<and> last (invocations (snd (scheduleEvents invoke this w)))
           = (jobFunction (hd missing), jobInput (hd missing)))"
proof -
  let ?plan = "plannedEffects this cs"
  let ?run = "runPlan invoke (length (invocations w)) ?plan"
  from thrown have "fst ?run = Some e"
    by (simp add: scheduleEvents_runPlan [OF resolved])
  then obtain before f i err where
    performed: "snd ?run = before @ [Invoked f i]" and e: "e = InvocationError err"
    using runPlan_throws unfolding thrownBy_def by blast
  obtain rest where plan: "?plan = before @ Invoked f i # rest"
    using runPlan_prefix [of ?plan invoke "length (invocations w)"] performed by auto
  then have immediate: "runImmediately (configOptions this)"
    using invocationsOf_plannedEffects [of this cs] by (auto split: if_splits)
  then obtain j rest' where rest: "rest = Scheduled j # rest'"
    "jobFunction j = f" "jobInput j = i"
    using immediatePlan_after_invocation [OF immediatePlan_plannedEffects plan] by blast
  have "plannedJobs this cs = jobsOf before @ j # jobsOf rest'"
    using jobsOf_plannedEffects [of this cs] by (simp add: plan rest)
  moreover have "snd (scheduleEvents invoke this w) = emit (before @ [Invoked f i]) w"
    by (simp add: scheduleEvents_runPlan [OF resolved] performed)
  ultimately show ?thesis using immediate e rest by auto
qed

text \<open>
  C8. With \<^verbatim>\<open>runImmediately\<close>, a run that returns has run every function that is not skipped
  once per schedule, each run announced and made directly before the timer of that
  schedule is registered: the trace grows by the plan, the plan consists of notices and
  blocks of announcement, invocation and timer, and the invocations made are those of the
  registered timers in order.
\<close>

theorem scheduleEvents_immediate_runs:
  assumes "runImmediately (configOptions this)"
    and "getFunctionConfigurations (functionProvider this) = Inr cs"
    and "fst (scheduleEvents invoke this w) = None"
  shows "snd (scheduleEvents invoke this w) = emit (plannedEffects this cs) w
    \<and> immediatePlan (plannedEffects this cs)
    \<and> invocations (snd (scheduleEvents invoke this w))
        = invocations w @ map (\<lambda>j. (jobFunction j, jobInput j)) (plannedJobs this cs)
    \<and> jobs (snd (scheduleEvents invoke this w)) = jobs w @ plannedJobs this cs"
proof -
  have "snd (scheduleEvents invoke this w) = emit (plannedEffects this cs) w"
    using assms(2,3) by (rule scheduleEvents_returned)
  with assms(1) show ?thesis
    by (simp add: immediatePlan_plannedEffects invocationsOf_plannedEffects jobsOf_plannedEffects)
qed

text \<open>
  C17. The notices of a start that returns: the log function of the scheduler receives,
  per configuration and in order, the skip notice, or the scheduling notice followed by
  one immediate-run notice per schedule when immediate runs are requested; nothing else is
  logged, and no other log function is called.
\<close>

theorem scheduleEvents_notices:
  assumes "getFunctionConfigurations (functionProvider this) = Inr cs"
    and "fst (scheduleEvents invoke this w) = None"
  shows "notices l (snd (scheduleEvents invoke this w))
    = notices l w @ (if l = log this then concat (map (configurationNotices this) cs) else [])"
proof -
  have "snd (scheduleEvents invoke this w) = emit (plannedEffects this cs) w"
    using assms by (rule scheduleEvents_returned)
  then show ?thesis by (simp add: noticesOf_plannedEffects)
qed

text \<open>
  C19. When a start succeeds: \<^verbatim>\<open>scheduleEvents\<close> returns normally exactly if every
  expression of the provider's answer converts and, with \<^verbatim>\<open>runImmediately\<close>, the invoker
  accepts the immediate run of every planned timer; without \<^verbatim>\<open>runImmediately\<close> the invoker
  has no say.
\<close>

theorem scheduleEvents_returns_iff:
  "fst (scheduleEvents invoke this w) = None \<longleftrightarrow>
     (\<exists>cs. getFunctionConfigurations (functionProvider this) = Inr cs \<and>
        (runImmediately (configOptions this) \<longrightarrow>
           (\<forall>k < length (plannedJobs this cs).
              invoke (length (invocations w) + k) (jobFunction (plannedJobs this cs ! k))
                (jobInput (plannedJobs this cs ! k)) = None)))"
proof (cases "getFunctionConfigurations (functionProvider this)")
  case (Inl e)
  then show ?thesis by (simp add: scheduleEvents_def throw_def)
next
  case (Inr cs)
  then show ?thesis
    by (simp add: scheduleEvents_runPlan runPlan_returns_iff invocationsOf_plannedEffects)
qed

end
