(* ===== verification/Firing.thy ===== *)
theory Firing
  imports Runtime
begin

text \<open>
  What happens when a registered timer fires: the callback given to
  \<^verbatim>\<open>schedule.scheduleJob\<close> on lines 57-64 of \<^verbatim>\<open>src/src/scheduler.ts\<close>. It invokes the
  function inside a \<^verbatim>\<open>try\<close>, logs success, and on an exception logs the failure instead.

  When timers fire is decided by \<^verbatim>\<open>node-schedule\<close> and the clock; the model lets any
  registered timer fire at any moment while the process has not exited (\<open>fires\<close>), which
  covers every schedule the library can produce. JavaScript runs one callback at a time
  and \<^verbatim>\<open>slsInvokeFunction\<close> is synchronous, so a firing is one atomic step and a run of the
  system is a sequence of firings (\<open>fireAll\<close>). The theorems hold for every invoker,
  also one whose answers depend on the calls made before.
\<close>

section \<open>The callback\<close>

text \<open>The template strings of lines 60 and 62.\<close>

definition succeededMessage :: "string \<Rightarrow> string" where
  "succeededMessage fname = ''Succesfully invoked scheduled function: ['' @ fname @ '']''"

definition failedMessage :: "string \<Rightarrow> string \<Rightarrow> string" where
  "failedMessage fname err =
     ''Failed to execute scheduled function: ['' @ fname @ ''] Error: '' @ err"

text \<open>The caught value as the template string of line 62 prints it.\<close>

fun thrownText :: "error \<Rightarrow> string" where
  "thrownText (InvocationError err) = err"
| "thrownText (InvalidExpression e) = e"

text \<open>Lines 57-64. The \<^verbatim>\<open>catch\<close> takes whatever the invocation throws, so the callback
  itself returns in every case.\<close>

definition jobCallback :: "invoker \<Rightarrow> job \<Rightarrow> world \<Rightarrow> world" where
  "jobCallback invoke j w =
     (case slsInvokeFunction invoke (jobFunction j) (jobInput j) w of
        (None, w') \<Rightarrow> callLog (jobLogger j) (succeededMessage (jobFunction j)) w'
      | (Some e, w') \<Rightarrow> callLog (jobLogger j) (failedMessage (jobFunction j) (thrownText e)) w')"

section \<open>Firings as steps\<close>

inductive fires :: "invoker \<Rightarrow> world \<Rightarrow> world \<Rightarrow> bool" for invoke where
  fire: "j \<in> set (jobs w) \<Longrightarrow> exitCode w = None \<Longrightarrow> fires invoke w (jobCallback invoke j w)"

inductive reachableBy :: "invoker \<Rightarrow> world \<Rightarrow> world \<Rightarrow> bool" for invoke w0 where
  start: "reachableBy invoke w0 w0"
| step: "reachableBy invoke w0 w \<Longrightarrow> fires invoke w w' \<Longrightarrow> reachableBy invoke w0 w'"

inductive_cases firesE: "fires invoke w w'"

text \<open>A sequence of firings, by the jobs that fire.\<close>

fun fireAll :: "invoker \<Rightarrow> job list \<Rightarrow> world \<Rightarrow> world" where
  "fireAll invoke [] w = w"
| "fireAll invoke (j # js) w = fireAll invoke js (jobCallback invoke j w)"

text \<open>The notice of a firing, given the invoker's answer.\<close>

definition firingNotice :: "job \<Rightarrow> string option \<Rightarrow> string" where
  "firingNotice j answer =
     (case answer of
        None \<Rightarrow> succeededMessage (jobFunction j)
      | Some err \<Rightarrow> failedMessage (jobFunction j) err)"

text \<open>The notices of a sequence of firings, given the number of invocations made
  before it.\<close>

fun firingNotices :: "invoker \<Rightarrow> nat \<Rightarrow> job list \<Rightarrow> string list" where
  "firingNotices invoke n [] = []"
| "firingNotices invoke n (j # js) =
     firingNotice j (invoke n (jobFunction j) (jobInput j)) # firingNotices invoke (Suc n) js"

section \<open>One firing\<close>

lemma jobCallback_emit:
  "jobCallback invoke j w =
     emit [Invoked (jobFunction j) (jobInput j),
           Logged (jobLogger j)
             (firingNotice j (invoke (length (invocations w)) (jobFunction j) (jobInput j)))] w"
  by (cases "invoke (length (invocations w)) (jobFunction j) (jobInput j)")
    (simp_all add: jobCallback_def slsInvokeFunction_def callLog_def firingNotice_def)

lemma jobs_jobCallback [simp]: "jobs (jobCallback invoke j w) = jobs w"
  by (simp add: jobCallback_emit)

lemma exitCode_jobCallback [simp]: "exitCode (jobCallback invoke j w) = exitCode w"
  by (simp add: jobCallback_emit)

lemma listeners_jobCallback [simp]: "listeners (jobCallback invoke j w) = listeners w"
  by (simp add: jobCallback_emit)

lemma invocations_jobCallback [simp]:
  "invocations (jobCallback invoke j w) = invocations w @ [(jobFunction j, jobInput j)]"
  by (simp add: jobCallback_emit)

text \<open>
  C9. A firing makes exactly one invocation attempt and emits exactly one notice, the
  success notice if the invoker returns and the failure notice with the thrown value if it
  throws; the exception goes no further, and the timers, the signal handlers and the exit
  status are as before.
\<close>

theorem jobCallback_effects:
  "trace (jobCallback invoke j w) =
     trace w @ [Invoked (jobFunction j) (jobInput j),
       Logged (jobLogger j)
         (case invoke (length (invocations w)) (jobFunction j) (jobInput j) of
            None \<Rightarrow> succeededMessage (jobFunction j)
          | Some err \<Rightarrow> failedMessage (jobFunction j) err)]
   \<and> jobs (jobCallback invoke j w) = jobs w
   \<and> listeners (jobCallback invoke j w) = listeners w
   \<and> exitCode (jobCallback invoke j w) = exitCode w"
  by (simp add: jobCallback_emit firingNotice_def)

section \<open>Runs\<close>

lemma fireAll_append [simp]: "fireAll invoke (js @ ks) w = fireAll invoke ks (fireAll invoke js w)"
  by (induction js arbitrary: w) simp_all

lemma jobs_fireAll [simp]: "jobs (fireAll invoke js w) = jobs w"
  by (induction js arbitrary: w) simp_all

lemma exitCode_fireAll [simp]: "exitCode (fireAll invoke js w) = exitCode w"
  by (induction js arbitrary: w) simp_all

lemma listeners_fireAll [simp]: "listeners (fireAll invoke js w) = listeners w"
  by (induction js arbitrary: w) simp_all

lemma invocations_fireAll [simp]:
  "invocations (fireAll invoke js w) = invocations w @ map (\<lambda>j. (jobFunction j, jobInput j)) js"
  by (induction js arbitrary: w) simp_all

lemma length_firingNotices [simp]: "length (firingNotices invoke n js) = length js"
  by (induction js arbitrary: n) simp_all

lemma notices_jobCallback:
  "notices l (jobCallback invoke j w) =
     notices l w @ (if jobLogger j = l
       then [firingNotice j (invoke (length (invocations w)) (jobFunction j) (jobInput j))]
       else [])"
  by (simp add: jobCallback_emit)

text \<open>A log function receives one notice per firing of a timer that was registered with
  it, in firing order.\<close>

lemma notices_fireAll:
  "\<forall>j \<in> set js. jobLogger j = l \<Longrightarrow>
     notices l (fireAll invoke js w)
       = notices l w @ firingNotices invoke (length (invocations w)) js"
  by (induction js arbitrary: w) (simp_all add: notices_jobCallback)

text \<open>The reachable worlds are those that some sequence of registered jobs leads to.\<close>

lemma reachableBy_fireAll:
  "set js \<subseteq> set (jobs w0) \<Longrightarrow> exitCode w0 = None \<Longrightarrow> reachableBy invoke w0 (fireAll invoke js w0)"
proof (induction js rule: rev_induct)
  case Nil
  then show ?case by (simp add: reachableBy.start)
next
  case (snoc j js)
  then have "fires invoke (fireAll invoke js w0) (jobCallback invoke j (fireAll invoke js w0))"
    by (intro fires.fire) simp_all
  with snoc show ?case by (auto intro: reachableBy.step)
qed

lemma reachableBy_is_fireAll:
  "reachableBy invoke w0 w \<Longrightarrow> \<exists>js. set js \<subseteq> set (jobs w0) \<and> w = fireAll invoke js w0"
proof (induction rule: reachableBy.induct)
  case start
  have "set [] \<subseteq> set (jobs w0) \<and> w0 = fireAll invoke [] w0" by simp
  then show ?case by blast
next
  case (step w w')
  then obtain js j where "set js \<subseteq> set (jobs w0)" "w = fireAll invoke js w0"
    "j \<in> set (jobs w)" "w' = jobCallback invoke j w"
    by (auto elim: firesE)
  then have "set (js @ [j]) \<subseteq> set (jobs w0) \<and> w' = fireAll invoke (js @ [j]) w0"
    by simp
  then show ?case by blast
qed

text \<open>
  C10. Isolation: no sequence of firings, failing or not, cancels a timer, installs or
  removes a signal handler or ends the process. In every world reachable by firings the
  registered timers are those of the start.
\<close>

theorem reachableBy_timers_kept:
  assumes "reachableBy invoke w0 w"
  shows "jobs w = jobs w0 \<and> listeners w = listeners w0 \<and> exitCode w = exitCode w0"
  using assms by (induction rule: reachableBy.induct) (auto elim!: firesE)

text \<open>
  C11. Each firing is one invocation attempt: a world reached by firings has exactly the
  invocations of the start followed by one per firing, in firing order, for the function
  and payload of the timer that fired.
\<close>

theorem reachableBy_invocations:
  assumes "reachableBy invoke w0 w"
  shows "\<exists>js. set js \<subseteq> set (jobs w0)
    \<and> invocations w = invocations w0 @ map (\<lambda>j. (jobFunction j, jobInput j)) js
    \<and> length (trace w) = length (trace w0) + 2 * length js"
proof -
  from assms obtain js where js: "set js \<subseteq> set (jobs w0)" "w = fireAll invoke js w0"
    using reachableBy_is_fireAll by blast
  have "length (trace (fireAll invoke ks v)) = length (trace v) + 2 * length ks" for ks v
    by (induction ks arbitrary: v) (simp_all add: jobCallback_emit)
  with js show ?thesis by auto
qed

end
