(* ===== verification/Lifecycle.thy ===== *)
theory Lifecycle
  imports Scheduler Firing
begin

text \<open>
  The standalone mode of \<^verbatim>\<open>src/src/scheduler.ts\<close>: \<^verbatim>\<open>scheduleEventsStandalone\<close> (lines 34-37)
  and \<^verbatim>\<open>listenForTermination\<close> (lines 93-108), and the life of the process after start-up as
  a transition system whose events are timer firings and termination signals.

  \<^verbatim>\<open>scheduleEventsStandalone\<close> logs the banner and calls \<^verbatim>\<open>scheduleEvents\<close> synchronously; an
  exception leaves the method at once. Otherwise \<^verbatim>\<open>listenForTermination\<close> runs as the
  continuation of an already resolved promise, before any timer or signal can be handled,
  so start-up is one action. \<^verbatim>\<open>listenForTermination\<close> installs one handler for \<^verbatim>\<open>SIGINT\<close> and
  one for \<^verbatim>\<open>SIGTERM\<close>; each resolves a promise, and the continuation of the race of the two
  logs the shutdown notice and calls \<^verbatim>\<open>process.exit(0)\<close>. Since the exit happens in the same
  turn as the first signal, the model runs handler and continuation as one step
  (\<open>onSignal\<close>) and no step is possible after it. A signal for which no handler is
  installed is left to the operating system and is not a step of the model.

  The last section is about a start that throws: lines 36 and 37 install the handlers
  only after \<^verbatim>\<open>scheduleEvents\<close> has returned, so the process that is left keeps its timers
  and handles no signal.
\<close>

section \<open>Start-up\<close>

text \<open>Line 35.\<close>

definition standaloneBanner :: string where
  "standaloneBanner =
     ''Starting serverless-offline-schedule in standalone process. Press CTRL+C to stop.''"

text \<open>Lines 96 and 101: the value each promise resolves with.\<close>

fun signalName :: "signal \<Rightarrow> string" where
  "signalName SIGINT = ''SIGINT''"
| "signalName SIGTERM = ''SIGTERM''"

text \<open>Line 105.\<close>

definition shutdownMessage :: "signal \<Rightarrow> string" where
  "shutdownMessage s =
     ''Got '' @ signalName s @ '' signal. Stopping serverless-offline-scheduleer...''"

text \<open>Lines 93-103: the two \<^verbatim>\<open>process.on\<close> calls, \<^verbatim>\<open>SIGINT\<close> first.\<close>

definition listenForTermination :: "OfflineScheduler \<Rightarrow> world \<Rightarrow> world" where
  "listenForTermination this w =
     w\<lparr>listeners := listeners w @ [(SIGINT, log this), (SIGTERM, log this)]\<rparr>"

text \<open>Lines 104-107: the continuation of the race, run with the name of the signal that
  came first.\<close>

definition terminate :: "logger \<Rightarrow> signal \<Rightarrow> world \<Rightarrow> world" where
  "terminate l s w = (callLog l (shutdownMessage s) w)\<lparr>exitCode := Some 0\<rparr>"

text \<open>Lines 34-37.\<close>

definition scheduleEventsStandalone :: "invoker \<Rightarrow> OfflineScheduler \<Rightarrow> (error, world) action" where
  "scheduleEventsStandalone invoke this =
     andThen (perform (callLog (log this) standaloneBanner))
       (andThen (scheduleEvents invoke this) (perform (listenForTermination this)))"

section \<open>The running process\<close>

text \<open>The delivery of a signal: the first handler installed for it decides.\<close>

definition onSignal :: "signal \<Rightarrow> world \<Rightarrow> world" where
  "onSignal s w =
     (case find (\<lambda>h. fst h = s) (listeners w) of
        None \<Rightarrow> w
      | Some h \<Rightarrow> terminate (snd h) s w)"

datatype process_event = TimerFires job | SignalArrives signal

inductive processStep :: "invoker \<Rightarrow> world \<Rightarrow> process_event \<Rightarrow> world \<Rightarrow> bool" for invoke where
  timer: "j \<in> set (jobs w) \<Longrightarrow> exitCode w = None \<Longrightarrow>
    processStep invoke w (TimerFires j) (jobCallback invoke j w)"
| signal: "s \<in> fst ` set (listeners w) \<Longrightarrow> exitCode w = None \<Longrightarrow>
    processStep invoke w (SignalArrives s) (onSignal s w)"

inductive processRun :: "invoker \<Rightarrow> world \<Rightarrow> process_event list \<Rightarrow> world \<Rightarrow> bool" for invoke w0 where
  idle: "processRun invoke w0 [] w0"
| more: "processRun invoke w0 evs w \<Longrightarrow> processStep invoke w ev w' \<Longrightarrow>
    processRun invoke w0 (evs @ [ev]) w'"

inductive_cases processStepE: "processStep invoke w ev w'"
inductive_cases timerStepE: "processStep invoke w (TimerFires j) w'"
inductive_cases signalStepE: "processStep invoke w (SignalArrives s) w'"

text \<open>The plan of a standalone start: the banner, then the plan of \<^verbatim>\<open>scheduleEvents\<close>.\<close>

definition standalonePlan :: "OfflineScheduler \<Rightarrow> FunctionConfiguration list \<Rightarrow> effect list" where
  "standalonePlan this cs = Logged (log this) standaloneBanner # plannedEffects this cs"

fun isSignal :: "process_event \<Rightarrow> bool" where
  "isSignal (SignalArrives s) = True"
| "isSignal (TimerFires j) = False"

section \<open>Lemmas on start-up\<close>

lemma trace_listenForTermination [simp]: "trace (listenForTermination this w) = trace w"
  by (simp add: listenForTermination_def)

lemma jobs_listenForTermination [simp]: "jobs (listenForTermination this w) = jobs w"
  by (simp add: jobs_def)

lemma exitCode_listenForTermination [simp]:
  "exitCode (listenForTermination this w) = exitCode w"
  by (simp add: listenForTermination_def)

lemma listeners_listenForTermination [simp]:
  "listeners (listenForTermination this w)
     = listeners w @ [(SIGINT, log this), (SIGTERM, log this)]"
  by (simp add: listenForTermination_def)

lemma scheduleEventsStandalone_apply:
  "scheduleEventsStandalone invoke this w =
     (case scheduleEvents invoke this (callLog (log this) standaloneBanner w) of
        (None, w') \<Rightarrow> (None, listenForTermination this w')
      | (Some e, w') \<Rightarrow> (Some e, w'))"
  by (simp add: scheduleEventsStandalone_def andThen_def perform_def
      split: prod.splits option.splits)

lemma scheduleEvents_after_notice:
  assumes "getFunctionConfigurations (functionProvider this) = Inr cs"
  shows "scheduleEvents invoke this (callLog l m w) =
     execute invoke (Logged l m # plannedEffects this cs) w"
  using assms
  by (simp add: scheduleEvents_def forEach_scheduleConfiguration_plan execute_Cons
      andThen_def perform_def)

lemma jobs_scheduleEventsStandalone:
  "jobs (snd (scheduleEventsStandalone invoke this w))
     = jobs (snd (scheduleEvents invoke this (callLog (log this) standaloneBanner w)))"
  by (simp add: scheduleEventsStandalone_apply split: prod.splits option.splits)

lemma invocations_scheduleEventsStandalone:
  "invocations (snd (scheduleEventsStandalone invoke this w))
     = invocations (snd (scheduleEvents invoke this (callLog (log this) standaloneBanner w)))"
  by (simp add: scheduleEventsStandalone_apply invocations_def listenForTermination_def
      split: prod.splits option.splits)

lemma notices_listenForTermination [simp]:
  "notices l (listenForTermination this w) = notices l w"
  by (simp add: notices_def)

lemma invocations_listenForTermination [simp]:
  "invocations (listenForTermination this w) = invocations w"
  by (simp add: invocations_def)

text \<open>The world after a standalone start that returned.\<close>

lemma scheduleEventsStandalone_returned:
  assumes "getFunctionConfigurations (functionProvider this) = Inr cs"
    and "fst (scheduleEventsStandalone invoke this w) = None"
  shows "snd (scheduleEventsStandalone invoke this w)
    = listenForTermination this (emit (standalonePlan this cs) w)"
proof -
  let ?w = "callLog (log this) standaloneBanner w"
  from assms(2) have returns: "fst (scheduleEvents invoke this ?w) = None"
    by (auto simp: scheduleEventsStandalone_apply split: prod.splits option.splits)
  with assms(2) have "snd (scheduleEventsStandalone invoke this w)
      = listenForTermination this (snd (scheduleEvents invoke this ?w))"
    by (auto simp: scheduleEventsStandalone_apply split: prod.splits option.splits)
  also have "snd (scheduleEvents invoke this ?w) = emit (plannedEffects this cs) ?w"
    using assms(1) returns by (rule scheduleEvents_returned)
  finally show ?thesis by (simp add: callLog_def standalonePlan_def)
qed

text \<open>
  C12. Standalone start-up: the banner is logged first; if an expression does not
  convert, \<open>InvalidExpression\<close> is thrown with only the banner logged; otherwise the same
  plan as \<^verbatim>\<open>scheduleEvents\<close> is performed, and the signal handlers are installed if and only
  if no immediate invocation threw.
\<close>

theorem scheduleEventsStandalone_plan:
  "scheduleEventsStandalone invoke this w =
     (case firstInvalid (allExpressions (functionProvider this ())) of
        Some e \<Rightarrow> (Some (InvalidExpression e), callLog (log this) standaloneBanner w)
      | None \<Rightarrow>
          (case execute invoke (standalonePlan this (resolved (functionProvider this ()))) w of
             (None, w') \<Rightarrow> (None, listenForTermination this w')
           | (Some e, w') \<Rightarrow> (Some e, w')))"
proof (cases "firstInvalid (allExpressions (functionProvider this ()))")
  case None
  then have "getFunctionConfigurations (functionProvider this)
      = Inr (resolved (functionProvider this ()))"
    by (simp add: getFunctionConfigurations_convertible firstInvalid_None_iff)
  with None show ?thesis
    by (simp add: scheduleEventsStandalone_apply scheduleEvents_after_notice standalonePlan_def)
next
  case (Some e)
  then show ?thesis
    by (simp add: scheduleEventsStandalone_apply scheduleEvents_fail_fast_lemma)
qed

section \<open>Lemmas on the running process\<close>

lemma terminate_fields [simp]:
  "exitCode (terminate l s w) = Some 0"
  "trace (terminate l s w) = trace w @ [Logged l (shutdownMessage s)]"
  "listeners (terminate l s w) = listeners w"
  by (simp_all add: terminate_def callLog_def)

lemma jobs_terminate [simp]: "jobs (terminate l s w) = jobs w"
  by (simp add: jobs_def)

lemma invocations_terminate [simp]: "invocations (terminate l s w) = invocations w"
  by (simp add: invocations_def)

lemma notices_terminate:
  "notices l' (terminate l s w) = notices l' w @ (if l = l' then [shutdownMessage s] else [])"
  by (simp add: notices_def)

lemma onSignal_handled:
  "(s, l0) \<in> set (listeners w) \<Longrightarrow>
     \<exists>l. (s, l) \<in> set (listeners w) \<and> onSignal s w = terminate l s w"
proof -
  assume "(s, l0) \<in> set (listeners w)"
  then obtain h where "find (\<lambda>h. fst h = s) (listeners w) = Some h"
    by (cases "find (\<lambda>h. fst h = s) (listeners w)") (auto simp: find_None_iff)
  moreover from this have "h \<in> set (listeners w)" "fst h = s"
    by (auto simp: find_Some_iff)
  ultimately show ?thesis
    by (cases h) (auto simp: onSignal_def)
qed

lemma processStep_running: "processStep invoke w ev w' \<Longrightarrow> exitCode w = None"
  by (auto elim: processStepE)

lemma processStep_listeners: "processStep invoke w ev w' \<Longrightarrow> listeners w' = listeners w"
  by (auto elim!: processStepE dest: onSignal_handled)

lemma scheduleEventsStandalone_frame:
  "exitCode (snd (scheduleEventsStandalone invoke this w)) = exitCode w"
  "fst (scheduleEventsStandalone invoke this w) = None \<Longrightarrow>
     listeners (snd (scheduleEventsStandalone invoke this w))
       = listeners w @ [(SIGINT, log this), (SIGTERM, log this)]"
  "fst (scheduleEventsStandalone invoke this w) \<noteq> None \<Longrightarrow>
     listeners (snd (scheduleEventsStandalone invoke this w)) = listeners w"
  using scheduleEvents_frame [of invoke this "callLog (log this) standaloneBanner w"]
  by (cases "scheduleEvents invoke this (callLog (log this) standaloneBanner w)";
      cases "fst (scheduleEvents invoke this (callLog (log this) standaloneBanner w))";
      simp add: scheduleEventsStandalone_apply callLog_def)+

lemma processRun_fireAll:
  "set js \<subseteq> set (jobs w) \<Longrightarrow> exitCode w = None \<Longrightarrow>
     processRun invoke w (map TimerFires js) (fireAll invoke js w)"
proof (induction js rule: rev_induct)
  case Nil
  show ?case by (simp add: processRun.idle)
next
  case (snoc j js)
  then have "processStep invoke (fireAll invoke js w) (TimerFires j)
      (jobCallback invoke j (fireAll invoke js w))"
    by (intro processStep.timer) simp_all
  with snoc show ?case
    by (simp add: processRun.more)
qed

text \<open>The handlers of a standalone start: either signal ends the process through the
  scheduler's log function.\<close>

lemma onSignal_standalone:
  "listeners w = [(SIGINT, l), (SIGTERM, l)] \<Longrightarrow> onSignal s w = terminate l s w"
  by (cases s) (simp_all add: onSignal_def)

lemma processRun_listeners: "processRun invoke w0 evs w \<Longrightarrow> listeners w = listeners w0"
  by (induction rule: processRun.induct) (simp_all add: processStep_listeners)

text \<open>
  C13. Graceful termination is always possible: after a standalone start that returned,
  from a world without earlier handlers, and after whatever the process has done since
  without exiting, the arrival of either signal is a step of the process; it logs exactly
  the shutdown notice naming that signal to the scheduler's log function and exits with
  status 0.
\<close>

theorem signal_terminates:
  assumes "fst (scheduleEventsStandalone invoke this w0) = None"
    and "listeners w0 = []" and "exitCode w0 = None"
    and "processRun invoke (snd (scheduleEventsStandalone invoke this w0)) evs w"
    and "exitCode w = None"
  shows "processStep invoke w (SignalArrives s) (terminate (log this) s w)
    \<and> exitCode (terminate (log this) s w) = Some 0
    \<and> trace (terminate (log this) s w) = trace w @ [Logged (log this) (shutdownMessage s)]"
proof -
  have handlers: "listeners w = [(SIGINT, log this), (SIGTERM, log this)]"
    using assms(1,2) processRun_listeners [OF assms(4)]
    by (simp add: scheduleEventsStandalone_frame)
  then have "onSignal s w = terminate (log this) s w"
    by (cases s) (simp_all add: onSignal_def)
  moreover have "processStep invoke w (SignalArrives s) (onSignal s w)"
    using handlers assms(5) by (intro processStep.signal; cases s) simp_all
  ultimately show ?thesis by simp
qed

text \<open>The shape of every run of the process: a sequence of firings of registered
  timers, after which at most one signal was handled, by terminating with the notice for
  that signal.\<close>

lemma processRun_shape:
  assumes "processRun invoke w0 evs w"
  shows "\<exists>js. set js \<subseteq> set (jobs w0) \<and>
    (w = fireAll invoke js w0 \<and> evs = map TimerFires js
     \<or> (\<exists>s l. (s, l) \<in> set (listeners w0) \<and> w = terminate l s (fireAll invoke js w0)
          \<and> evs = map TimerFires js @ [SignalArrives s]))"
  using assms
proof (induction rule: processRun.induct)
  case idle
  have "set [] \<subseteq> set (jobs w0) \<and> w0 = fireAll invoke [] w0 \<and> [] = map TimerFires []"
    by simp
  then show ?case by blast
next
  case (more evs w ev w')
  from more.hyps(2) have running: "exitCode w = None" by (rule processStep_running)
  with more.IH obtain js where js: "set js \<subseteq> set (jobs w0)" "w = fireAll invoke js w0"
    "evs = map TimerFires js"
    by auto
  from more.hyps(2) show ?case
  proof (cases rule: processStep.cases)
    case (timer j)
    with js have "set (js @ [j]) \<subseteq> set (jobs w0) \<and> w' = fireAll invoke (js @ [j]) w0
        \<and> evs @ [ev] = map TimerFires (js @ [j])"
      by simp
    then show ?thesis by blast
  next
    case (signal s)
    then obtain l0 where "(s, l0) \<in> set (listeners w)" by auto
    then obtain l where "(s, l) \<in> set (listeners w)" "onSignal s w = terminate l s w"
      using onSignal_handled by blast
    with js signal have "(s, l) \<in> set (listeners w0) \<and> w' = terminate l s (fireAll invoke js w0)
        \<and> evs @ [ev] = map TimerFires js @ [SignalArrives s]"
      by simp
    with js(1) show ?thesis by blast
  qed
qed

lemma timers_not_signals [simp]:
  "filter isSignal (map TimerFires js) = []"
  "list_all (\<lambda>ev. \<not> isSignal ev) (map TimerFires js)"
  "\<not> list_ex isSignal (map TimerFires js)"
  by (induction js) simp_all

text \<open>
  C15. The process ends only through a signal and only once: in every run at most one
  signal is handled and it is the last event, so a second signal is never observed and no
  timer fires after the exit; the exit status is 0 exactly if a signal was handled, and
  without one the process keeps running with all its timers, however long the run.
\<close>

theorem processRun_canonical:
  assumes "processRun invoke w0 evs w" and "exitCode w0 = None"
  shows "length (filter isSignal evs) \<le> 1
    \<and> list_all (\<lambda>ev. \<not> isSignal ev) (butlast evs)
    \<and> exitCode w = (if list_ex isSignal evs then Some 0 else None)
    \<and> jobs w = jobs w0"
proof -
  from processRun_shape [OF assms(1)] obtain js where
    "w = fireAll invoke js w0 \<and> evs = map TimerFires js
     \<or> (\<exists>s l. w = terminate l s (fireAll invoke js w0)
          \<and> evs = map TimerFires js @ [SignalArrives s])"
    by blast
  then show ?thesis
  proof (elim disjE conjE exE)
    assume "w = fireAll invoke js w0" "evs = map TimerFires js"
    with assms(2) show ?thesis by (simp add: map_butlast [symmetric])
  next
    fix s l
    assume "w = terminate l s (fireAll invoke js w0)"
      "evs = map TimerFires js @ [SignalArrives s]"
    then show ?thesis by simp
  qed
qed

section \<open>A standalone start that fails\<close>

lemma processRun_without_handlers:
  assumes "processRun invoke w0 evs w" and "listeners w0 = []" and "exitCode w0 = None"
  shows "exitCode w = None \<and> listeners w = [] \<and> list_all (\<lambda>ev. \<not> isSignal ev) evs"
  using assms
proof (induction rule: processRun.induct)
  case idle
  then show ?case by simp
next
  case (more evs w ev w')
  then have "exitCode w = None" "listeners w = []" "list_all (\<lambda>ev. \<not> isSignal ev) evs"
    by simp_all
  with more.hyps(2) show ?case
    by (cases rule: processStep.cases) simp_all
qed

lemma processRun_jobs: "processRun invoke w0 evs w \<Longrightarrow> jobs w = jobs w0"
  by (induction rule: processRun.induct) (auto elim!: processStepE dest: onSignal_handled)

text \<open>
  C14. A standalone start that throws leaves a process that cannot be stopped by a signal.
  The exception leaves \<^verbatim>\<open>scheduleEventsStandalone\<close> before \<^verbatim>\<open>listenForTermination\<close> runs (line
  36), so in a process without earlier handlers, whatever happens afterwards, no signal
  is ever handled and the process does not exit, while every timer that was registered
  before the exception goes on firing.
\<close>

theorem failed_standalone_start:
  assumes "fst (scheduleEventsStandalone invoke this w0) \<noteq> None"
    and "listeners w0 = []" and "exitCode w0 = None"
    and "processRun invoke (snd (scheduleEventsStandalone invoke this w0)) evs w"
  shows "exitCode w = None \<and> list_all (\<lambda>ev. \<not> isSignal ev) evs
    \<and> (\<nexists>s w'. processStep invoke w (SignalArrives s) w')
    \<and> list_all (\<lambda>j. processStep invoke w (TimerFires j) (jobCallback invoke j w))
        (jobs (snd (scheduleEventsStandalone invoke this w0)))"
proof -
  let ?w1 = "snd (scheduleEventsStandalone invoke this w0)"
  have "listeners ?w1 = []" "exitCode ?w1 = None"
    using assms(1-3) by (simp_all add: scheduleEventsStandalone_frame)
  with assms(4) have "exitCode w = None" "listeners w = []"
    "list_all (\<lambda>ev. \<not> isSignal ev) evs"
    using processRun_without_handlers by blast+
  moreover have "jobs w = jobs ?w1"
    using assms(4) by (rule processRun_jobs)
  ultimately show ?thesis
    by (auto simp: list_all_iff elim: signalStepE intro: processStep.timer)
qed

end
