(* ===== verification/Timer.thy ===== *)
theory Timer
  imports Firing Cron_Expression
begin

text \<open>
  The timer subsystem, \<^verbatim>\<open>node-schedule\<close>, as far as the scheduler depends on it: when a
  registered schedule is due, and what a tick of the clock does. \<^verbatim>\<open>scheduler.ts\<close> only calls
  \<^verbatim>\<open>schedule.scheduleJob\<close> (line 57) and the library is not part of the sources.

  The specification fixes one thing about it (section 4.3, step 4, and the glossary entry
  \<^emph>\<open>firing\<close>): each due time of a registered schedule produces exactly one firing, that is
  one invocation attempt. \<open>tick\<close> and \<open>clockRun\<close> model this, and what the theories after
  this one prove of the invocations of a run of the clock holds for every notion of
  \<^emph>\<open>due\<close>.

  When a schedule is due is fixed neither by the code nor by the specification. \<open>due\<close> is
  an assumption of the model, the usual reading of a five-field schedule: a field \<^verbatim>\<open>*\<close>
  matches every value, a field \<^verbatim>\<open>*/n\<close> matches the values of its range that are a multiple
  of \<open>n\<close> away from the lowest one. A step of \<open>0\<close> is taken never to be due, which is also
  an assumption. Only the theorems on rates as intervals, in theory \<open>System\<close>, depend
  on this reading, and they say so.

  Further assumptions: the clock has a resolution of one minute, as a five-field schedule
  has; the timers due at the same minute fire in the order of their registration, one
  after the other; only the schedules the normalizer produces are given a meaning.
  Theory \<open>Firing\<close> makes none of these assumptions: its theorems hold for every order of
  firings.
\<close>

section \<open>Instants and due schedules\<close>

text \<open>A minute of the calendar, by the five values a schedule is matched against.\<close>

record instant =
  minute :: nat
  hour :: nat
  dayOfMonth :: nat
  month :: nat
  dayOfWeek :: nat

text \<open>The distance of an instant's value from the lowest value of the field: minutes and
  hours count from 0, days of the month from 1.\<close>

fun unitValue :: "time_unit \<Rightarrow> instant \<Rightarrow> nat" where
  "unitValue Minute t = minute t"
| "unitValue Hour t = hour t"
| "unitValue Day t = dayOfMonth t - 1"

definition rateDue :: "nat \<Rightarrow> time_unit \<Rightarrow> instant \<Rightarrow> bool" where
  "rateDue n u t \<longleftrightarrow> 0 < n \<and> unitValue u t mod n = 0"

definition due :: "string \<Rightarrow> instant \<Rightarrow> bool" where
  "due c t = (case readSchedule c of None \<Rightarrow> False | Some (n, u) \<Rightarrow> rateDue n u t)"

section \<open>Ticks\<close>

definition dueJobs :: "instant \<Rightarrow> world \<Rightarrow> job list" where
  "dueJobs t w = filter (\<lambda>j. due (jobSchedule j) t) (jobs w)"

text \<open>One minute passes: every timer that is due fires once, unless the process has
  exited.\<close>

definition tick :: "invoker \<Rightarrow> instant \<Rightarrow> world \<Rightarrow> world" where
  "tick invoke t w = (if exitCode w = None then fireAll invoke (dueJobs t w) w else w)"

fun clockRun :: "invoker \<Rightarrow> instant list \<Rightarrow> world \<Rightarrow> world" where
  "clockRun invoke [] w = w"
| "clockRun invoke (t # ts) w = clockRun invoke ts (tick invoke t w)"

text \<open>The sixty minutes of an hour of some day.\<close>

definition minutesOfHour :: "instant \<Rightarrow> instant list" where
  "minutesOfHour t = map (\<lambda>m. t\<lparr>minute := m\<rparr>) [0..<60]"

text \<open>The \<open>m\<close>-th minute of the day of an instant, and the reading of a rate as an
  interval: an interval of \<open>n\<close> minutes that starts at midnight is over at the minutes that
  are multiples of \<open>n\<close>.\<close>

definition minuteOfDay :: "instant \<Rightarrow> nat \<Rightarrow> instant" where
  "minuteOfDay t m = t\<lparr>minute := m mod 60, hour := m div 60\<rparr>"

definition everyMinutes :: "nat \<Rightarrow> nat \<Rightarrow> bool" where
  "everyMinutes n m \<longleftrightarrow> 0 < n \<and> m mod n = 0"

section \<open>Due schedules\<close>

lemma due_cronOf [simp]: "due (cronOf n u) t \<longleftrightarrow> rateDue n u t"
  by (simp add: due_def)

lemma rateDue_zero [simp]: "\<not> rateDue 0 u t"
  by (simp add: rateDue_def)

lemma rateDue_one [simp]: "rateDue (Suc 0) u t"
  by (simp add: rateDue_def)

text \<open>Whether a schedule in hours or days is due does not depend on the minute.\<close>

lemma rateDue_minute_update [simp]:
  "u \<noteq> Minute \<Longrightarrow> rateDue n u (t\<lparr>minute := m\<rparr>) = rateDue n u t"
  by (cases u) (simp_all add: rateDue_def)

lemma rateDue_Minute_update [simp]:
  "rateDue n Minute (t\<lparr>minute := m\<rparr>) \<longleftrightarrow> 0 < n \<and> m mod n = 0"
  by (simp add: rateDue_def)

lemma filter_minutesOfHour_coarse:
  "u \<noteq> Minute \<Longrightarrow>
     filter (rateDue n u) (minutesOfHour t) = (if rateDue n u t then minutesOfHour t else [])"
  by (simp add: minutesOfHour_def filter_map comp_def)

lemma length_minutesOfHour [simp]: "length (minutesOfHour t) = 60"
  by (simp add: minutesOfHour_def)

text \<open>A step in the minute field restarts at every full hour: the schedule agrees with
  the interval exactly if the step divides the hour.\<close>

lemma rateDue_minuteOfDay:
  "rateDue n Minute (minuteOfDay t m) \<longleftrightarrow> 0 < n \<and> m mod 60 mod n = 0"
  by (simp add: rateDue_def minuteOfDay_def)

lemma rateDue_Minute_interval:
  "list_all (\<lambda>m. rateDue n Minute (minuteOfDay t m) = everyMinutes n m) [0..<1440]
     \<longleftrightarrow> n = 0 \<or> n dvd 60"
proof
  assume agree: "list_all (\<lambda>m. rateDue n Minute (minuteOfDay t m) = everyMinutes n m) [0..<1440]"
  show "n = 0 \<or> n dvd 60"
  proof (cases "n = 0")
    case False
    from agree
    have "\<forall>m \<in> set [0..<1440]. rateDue n Minute (minuteOfDay t m) = everyMinutes n m"
      by (simp only: list_all_iff)
    moreover have "(60::nat) \<in> set [0..<1440]"
      by simp
    ultimately have "rateDue n Minute (minuteOfDay t 60) = everyMinutes n 60"
      by (rule bspec)
    with False show ?thesis
      by (auto simp: rateDue_minuteOfDay everyMinutes_def intro: mod_0_imp_dvd)
  qed simp
next
  assume divides: "n = 0 \<or> n dvd 60"
  have "(0 < n \<and> m mod 60 mod n = 0) = (0 < n \<and> m mod n = 0)" for m
  proof (cases "n = 0")
    case False
    with divides have "m mod 60 mod n = m mod n"
      by (simp add: mod_mod_cancel)
    then show ?thesis
      by (simp only:)
  qed simp
  then show "list_all (\<lambda>m. rateDue n Minute (minuteOfDay t m) = everyMinutes n m) [0..<1440]"
    by (simp only: list_all_iff rateDue_minuteOfDay everyMinutes_def simp_thms ball_triv)
qed

section \<open>Runs of the clock\<close>

lemma jobs_tick [simp]: "jobs (tick invoke t w) = jobs w"
  by (simp add: tick_def)

lemma exitCode_tick [simp]: "exitCode (tick invoke t w) = exitCode w"
  by (simp add: tick_def)

lemma listeners_tick [simp]: "listeners (tick invoke t w) = listeners w"
  by (simp add: tick_def)

lemma jobs_clockRun [simp]: "jobs (clockRun invoke ts w) = jobs w"
  by (induction ts arbitrary: w) simp_all

lemma exitCode_clockRun [simp]: "exitCode (clockRun invoke ts w) = exitCode w"
  by (induction ts arbitrary: w) simp_all

lemma clockRun_append [simp]:
  "clockRun invoke (ts @ us) w = clockRun invoke us (clockRun invoke ts w)"
  by (induction ts arbitrary: w) simp_all

text \<open>A run of the clock fires the due timers of its minutes, one list after the other;
  in a process that has exited it does nothing.\<close>

lemma clockRun_fireAll:
  "exitCode w = None \<Longrightarrow>
     clockRun invoke ts w = fireAll invoke (concat (map (\<lambda>t. dueJobs t w) ts)) w"
  by (induction ts arbitrary: w) (simp_all add: tick_def dueJobs_def)

lemma clockRun_exited: "exitCode w \<noteq> None \<Longrightarrow> clockRun invoke ts w = w"
  by (induction ts) (auto simp: tick_def)

lemma invocations_tick:
  "exitCode w = None \<Longrightarrow>
     invocations (tick invoke t w)
       = invocations w @ map (\<lambda>j. (jobFunction j, jobInput j)) (dueJobs t w)"
  by (simp add: tick_def)

lemma dueJobs_tick [simp]: "dueJobs t' (tick invoke t w) = dueJobs t' w"
  by (simp add: dueJobs_def)

lemma dueJobs_clockRun [simp]: "dueJobs t (clockRun invoke ts w) = dueJobs t w"
  by (simp add: dueJobs_def)

text \<open>The invocations of a run of the clock: minute by minute, the timers due at that
  minute in registration order.\<close>

lemma invocations_clockRun:
  "exitCode w = None \<Longrightarrow>
     invocations (clockRun invoke ts w)
       = invocations w
         @ concat (map (\<lambda>t. map (\<lambda>j. (jobFunction j, jobInput j)) (dueJobs t w)) ts)"
  by (induction ts arbitrary: w) (simp_all add: invocations_tick)

end
