(* ===== verification/System.thy ===== *)
theory System
  imports Lifecycle Timer
begin

text \<open>
  The scheduler and its environment as one transition system, and the well-formedness
  of its state. A step is a call of \<^verbatim>\<open>scheduleEvents\<close> or of \<^verbatim>\<open>scheduleEventsStandalone\<close> on
  some scheduler object (\<^verbatim>\<open>src/src/scheduler.ts\<close> lines 39-67 and 34-37), with whatever
  outcome, or an event of the running process of theory \<open>Lifecycle\<close>: a timer fires or a
  signal is handled. Nothing happens in a process that has exited. The steps are a
  relation (\<open>systemStep\<close>, \<open>systemRun\<close>), for the proofs by rule induction; the interpreter
  \<open>stepOf\<close>, \<open>runOf\<close> computes the same histories and only serves to evaluate the runs
  of theory \<open>Scenarios\<close>.

  \<open>wf_world\<close> is what every component downstream of the scheduler relies on: the timer
  subsystem is only ever given schedules the normalizer made (\<^verbatim>\<open>schedule.scheduleJob\<close>
  silently returns \<^verbatim>\<open>null\<close> for a schedule it cannot read, and line 57 would not
  notice), the payload a timer invokes its function with is never falsy, the handlers for
  the two signals are installed together and report to the same log function, and a
  process that has exited did so with status 0 right after the shutdown notice.

  Two further invariants of histories follow the same pattern, a lemma per step and a rule
  induction: every invocation a history adds carries a truthy payload, at a start (line 56)
  as well as at a firing (line 59); and a log function receives notices only from the
  schedulers it was given to, through their starts, their timers and their handlers.

  The last two sections join the scheduler to the clock of theory \<open>Timer\<close>. The first
  reads two kinds of rate under the usual meaning of a five-field schedule, which is an
  assumption of the model (see theory \<open>Timer\<close>). The second shows that after a start the
  invocations of a run of the clock are those that step 4 of section 4.3 of the
  specification owes, \<open>dueInvocations\<close>: one per due time of each schedule of each
  configuration that is not skipped; it holds whatever \<^emph>\<open>due\<close> means.
\<close>

section \<open>Steps of the system\<close>

datatype action =
    Start OfflineScheduler
  | StartStandalone OfflineScheduler
  | Occurs process_event

inductive systemStep :: "invoker \<Rightarrow> world \<Rightarrow> action \<Rightarrow> world \<Rightarrow> bool" for invoke where
  start: "exitCode w = None \<Longrightarrow>
    systemStep invoke w (Start this) (snd (scheduleEvents invoke this w))"
| standalone: "exitCode w = None \<Longrightarrow>
    systemStep invoke w (StartStandalone this) (snd (scheduleEventsStandalone invoke this w))"
| occurs: "processStep invoke w ev w' \<Longrightarrow> systemStep invoke w (Occurs ev) w'"

inductive systemRun :: "invoker \<Rightarrow> world \<Rightarrow> action list \<Rightarrow> world \<Rightarrow> bool" for invoke w0 where
  idle: "systemRun invoke w0 [] w0"
| more: "systemRun invoke w0 as w \<Longrightarrow> systemStep invoke w a w' \<Longrightarrow>
    systemRun invoke w0 (as @ [a]) w'"

inductive_cases systemStepE: "systemStep invoke w a w'"

text \<open>The same steps as a function: what an action does to a world, and \<open>None\<close> where it
  cannot happen. A history is run from the left.\<close>

fun stepOf :: "invoker \<Rightarrow> action \<Rightarrow> world \<Rightarrow> world option" where
  "stepOf invoke (Start this) w =
     (if exitCode w = None then Some (snd (scheduleEvents invoke this w)) else None)"
| "stepOf invoke (StartStandalone this) w =
     (if exitCode w = None then Some (snd (scheduleEventsStandalone invoke this w)) else None)"
| "stepOf invoke (Occurs (TimerFires j)) w =
     (if j \<in> set (jobs w) \<and> exitCode w = None then Some (jobCallback invoke j w) else None)"
| "stepOf invoke (Occurs (SignalArrives s)) w =
     (if s \<in> set (map fst (listeners w)) \<and> exitCode w = None then Some (onSignal s w)
      else None)"

fun runOf :: "invoker \<Rightarrow> action list \<Rightarrow> world \<Rightarrow> world option" where
  "runOf invoke [] w = Some w"
| "runOf invoke (a # as) w = Option.bind (stepOf invoke a w) (runOf invoke as)"

text \<open>An action leaves a function alone if it is an event of the process or a start
  whose skip list names the function.\<close>

fun skips :: "string \<Rightarrow> action \<Rightarrow> bool" where
  "skips f (Start this) = skipped this f"
| "skips f (StartStandalone this) = skipped this f"
| "skips f (Occurs ev) = True"

text \<open>An action is a start of a scheduler that logs to a given log function.\<close>

fun logsTo :: "logger \<Rightarrow> action \<Rightarrow> bool" where
  "logsTo l (Start this) = (log this = l)"
| "logsTo l (StartStandalone this) = (log this = l)"
| "logsTo l (Occurs ev) = False"

text \<open>A log function is unknown to a world if no timer and no signal handler of the world
  closes over it.\<close>

definition unknownTo :: "logger \<Rightarrow> world \<Rightarrow> bool" where
  "unknownTo l w \<longleftrightarrow> l \<notin> jobLogger ` set (jobs w) \<and> l \<notin> snd ` set (listeners w)"

section \<open>Well-formed worlds\<close>

text \<open>A timer is well formed if its schedule reads back as a rate and its payload is
  truthy.\<close>

definition wf_job :: "job \<Rightarrow> bool" where
  "wf_job j \<longleftrightarrow> readSchedule (jobSchedule j) \<noteq> None \<and> truthy (jobInput j)"

text \<open>Handlers come in pairs, \<^verbatim>\<open>SIGINT\<close> then \<^verbatim>\<open>SIGTERM\<close>, with one log function.\<close>

fun wf_listeners :: "(signal \<times> logger) list \<Rightarrow> bool" where
  "wf_listeners [] = True"
| "wf_listeners ((SIGINT, l) # (SIGTERM, l') # hs) = (l = l' \<and> wf_listeners hs)"
| "wf_listeners hs = False"

text \<open>An exit has status 0 and directly follows the shutdown notice of an installed
  handler.\<close>

definition exitedCleanly :: "world \<Rightarrow> bool" where
  "exitedCleanly w =
     (case exitCode w of
        None \<Rightarrow> True
      | Some status \<Rightarrow>
          status = 0 \<and>
          (case rev (trace w) of
             Logged l m # es \<Rightarrow> list_ex (\<lambda>h. snd h = l \<and> m = shutdownMessage (fst h)) (listeners w)
           | _ \<Rightarrow> False))"

definition wf_world :: "world \<Rightarrow> bool" where
  "wf_world w \<longleftrightarrow> list_all wf_job (jobs w) \<and> wf_listeners (listeners w) \<and> exitedCleanly w"

section \<open>What a minute owes\<close>

text \<open>Section 4.3, step 4, of the specification as a function: at an instant, every schedule that
  is due of every configuration that is not skipped produces one invocation of the
  configuration's function with its payload, in the order of the configurations and of
  their schedules.\<close>

definition dueInvocations ::
  "OfflineScheduler \<Rightarrow> FunctionConfiguration list \<Rightarrow> instant \<Rightarrow> (string \<times> json) list" where
  "dueInvocations this cs t =
     concat (map (\<lambda>fc. map (\<lambda>c. (functionName fc, input fc)) (filter (\<lambda>c. due c t) (cron fc)))
       (filter (\<lambda>fc. \<not> skipped this (functionName fc)) cs))"

section \<open>Runs\<close>

text \<open>An invariant of the steps is an invariant of the runs.\<close>

lemma systemRun_invariant:
  assumes "systemRun invoke w0 as w" and "Q w0"
    and "\<And>w a w'. systemStep invoke w a w' \<Longrightarrow> Q w \<Longrightarrow> Q w'"
  shows "Q w"
  using assms(1,2) by (induction rule: systemRun.induct) (auto intro: assms(3))

section \<open>The interpreter\<close>

fun_cases stepOf_SomeE: "stepOf invoke a w = Some w'"

lemma systemStep_stepOf: "systemStep invoke w a w' \<longleftrightarrow> stepOf invoke a w = Some w'"
proof
  show "systemStep invoke w a w' \<Longrightarrow> stepOf invoke a w = Some w'"
    by (force elim!: systemStepE processStepE)
  show "stepOf invoke a w = Some w' \<Longrightarrow> systemStep invoke w a w'"
    by (erule stepOf_SomeE)
      (force split: if_splits intro: systemStep.intros processStep.intros)+
qed

lemma runOf_append:
  "runOf invoke (as @ bs) w = Option.bind (runOf invoke as w) (runOf invoke bs)"
  by (induction as arbitrary: w) (simp_all split: Option.bind_split)

lemma runOf_snoc:
  "runOf invoke (as @ [a]) w = Option.bind (runOf invoke as w) (stepOf invoke a)"
  by (simp add: runOf_append cong: Option.bind_cong)

lemma systemRun_iff_runOf: "systemRun invoke w0 as w \<longleftrightarrow> runOf invoke as w0 = Some w"
proof
  show "systemRun invoke w0 as w \<Longrightarrow> runOf invoke as w0 = Some w"
    by (induction rule: systemRun.induct) (simp_all add: runOf_snoc systemStep_stepOf)
  show "runOf invoke as w0 = Some w \<Longrightarrow> systemRun invoke w0 as w"
  proof (induction as arbitrary: w rule: rev_induct)
    case Nil
    then show ?case by (simp add: systemRun.idle)
  next
    case (snoc a as)
    then obtain w1 where "runOf invoke as w0 = Some w1" "stepOf invoke a w1 = Some w"
      by (auto simp: runOf_snoc bind_eq_Some_conv)
    with snoc.IH show ?case by (auto intro: systemRun.more simp: systemStep_stepOf)
  qed
qed

text \<open>The runs of the process are runs of the system.\<close>

lemma processRun_systemRun:
  "processRun invoke w0 evs w \<Longrightarrow> systemRun invoke w0 (map Occurs evs) w"
  by (induction rule: processRun.induct)
    (auto intro: systemRun.idle systemRun.more systemStep.occurs)

lemma processRun_iff_runOf:
  "processRun invoke w0 evs w \<longleftrightarrow> runOf invoke (map Occurs evs) w0 = Some w"
proof
  show "processRun invoke w0 evs w \<Longrightarrow> runOf invoke (map Occurs evs) w0 = Some w"
    by (simp add: processRun_systemRun systemRun_iff_runOf [symmetric])
  show "runOf invoke (map Occurs evs) w0 = Some w \<Longrightarrow> processRun invoke w0 evs w"
  proof (induction evs arbitrary: w rule: rev_induct)
    case Nil
    then show ?case by (simp add: processRun.idle)
  next
    case (snoc ev evs)
    then obtain w1 where "runOf invoke (map Occurs evs) w0 = Some w1"
      "systemStep invoke w1 (Occurs ev) w"
      by (auto simp: runOf_snoc bind_eq_Some_conv systemStep_stepOf)
    with snoc.IH show ?case by (auto elim!: systemStepE intro: processRun.more)
  qed
qed

section \<open>Skipped functions\<close>

lemma start_skips:
  assumes "skipped this f" and "f \<notin> jobFunction ` set (jobs w)"
  shows "f \<notin> jobFunction ` set (jobs (snd (scheduleEvents invoke this w)))
    \<and> (\<exists>more. invocations (snd (scheduleEvents invoke this w)) = invocations w @ more
         \<and> f \<notin> fst ` set more)"
  using scheduleEvents_registers [of invoke this w] scheduleEvents_invokes [of invoke this w] assms
  by (fastforce dest: plannedJobs_not_skipped)

lemma systemStep_skips:
  assumes "systemStep invoke w a w'" and "skips f a" and "f \<notin> jobFunction ` set (jobs w)"
  shows "f \<notin> jobFunction ` set (jobs w')
    \<and> (\<exists>more. invocations w' = invocations w @ more \<and> f \<notin> fst ` set more)"
  using assms(1)
proof (cases rule: systemStep.cases)
  case (start this)
  with assms(2,3) show ?thesis by (simp add: start_skips)
next
  case (standalone this)
  have "jobs (callLog (log this) standaloneBanner w) = jobs w"
    "invocations (callLog (log this) standaloneBanner w) = invocations w"
    by (simp_all add: callLog_def)
  with start_skips [of this f "callLog (log this) standaloneBanner w" invoke] standalone assms(2,3)
  show ?thesis
    by (simp add: jobs_scheduleEventsStandalone invocations_scheduleEventsStandalone)
next
  case (occurs ev)
  from occurs(2) assms(3) show ?thesis
    by (cases rule: processStep.cases) (auto dest: onSignal_handled)
qed

text \<open>
  C4. A skipped function never runs. In every history in which each start has the
  function on its skip list, from a world that holds no timer of the function, no timer
  is ever registered for it and it is never invoked: not at a start, whatever
  \<^verbatim>\<open>runImmediately\<close> says and however the start ends, and not by a firing.
\<close>

theorem skipped_never_invoked:
  assumes "systemRun invoke w0 as w" and "list_all (skips f) as"
    and "f \<notin> jobFunction ` set (jobs w0)"
  shows "f \<notin> jobFunction ` set (jobs w)
    \<and> (\<exists>more. invocations w = invocations w0 @ more \<and> f \<notin> fst ` set more)"
  using assms
proof (induction rule: systemRun.induct)
  case idle
  then show ?case by simp
next
  case (more as w a w')
  then have "f \<notin> jobFunction ` set (jobs w)"
    and "\<exists>xs. invocations w = invocations w0 @ xs \<and> f \<notin> fst ` set xs"
    and "skips f a"
    by simp_all
  with systemStep_skips [OF more.hyps(2), of f] show ?case by auto
qed

section \<open>Log functions\<close>

lemma registered_logger:
  assumes "j \<in> set (jobs (snd (scheduleEvents invoke this w)))"
  shows "j \<in> set (jobs w) \<or> jobLogger j = log this"
  using scheduleEvents_registers [of invoke this w] assms
  by (auto dest: jobLogger_plannedJobs)

lemma start_other_logger:
  assumes "log this \<noteq> l" and "unknownTo l w"
  shows "unknownTo l (snd (scheduleEvents invoke this w))"
    and "notices l (snd (scheduleEvents invoke this w)) = notices l w"
proof -
  show "unknownTo l (snd (scheduleEvents invoke this w))"
    using assms by (auto simp: unknownTo_def dest: registered_logger)
  show "notices l (snd (scheduleEvents invoke this w)) = notices l w"
    using assms(1) by (intro scheduleEvents_notices_other) simp
qed

lemma standalone_other_logger:
  assumes "log this \<noteq> l" and "unknownTo l w"
  shows "unknownTo l (snd (scheduleEventsStandalone invoke this w))"
    and "notices l (snd (scheduleEventsStandalone invoke this w)) = notices l w"
proof -
  let ?w = "callLog (log this) standaloneBanner w"
  let ?w' = "snd (scheduleEvents invoke this ?w)"
  from assms have banner: "unknownTo l ?w" "notices l ?w = notices l w"
    by (simp_all add: unknownTo_def callLog_def jobs_def notices_def)
  with assms(1) have start: "unknownTo l ?w'" "notices l ?w' = notices l w"
    by (simp_all add: start_other_logger)
  have "snd (scheduleEventsStandalone invoke this w) = ?w'
      \<or> snd (scheduleEventsStandalone invoke this w) = listenForTermination this ?w'"
    by (auto simp: scheduleEventsStandalone_apply split: prod.splits option.splits)
  with start assms(1)
  show "unknownTo l (snd (scheduleEventsStandalone invoke this w))"
    and "notices l (snd (scheduleEventsStandalone invoke this w)) = notices l w"
    by (auto simp: unknownTo_def)
qed

lemma processStep_other_logger:
  assumes "processStep invoke w ev w'" and "unknownTo l w"
  shows "unknownTo l w' \<and> notices l w' = notices l w"
  using assms(1)
proof (cases rule: processStep.cases)
  case (timer j)
  with assms(2) have "jobLogger j \<noteq> l"
    by (auto simp: unknownTo_def)
  with timer assms(2) show ?thesis
    by (simp add: unknownTo_def notices_jobCallback)
next
  case (signal s)
  from signal(3) obtain l0 where "(s, l0) \<in> set (listeners w)"
    by auto
  then obtain l' where "(s, l') \<in> set (listeners w)" "onSignal s w = terminate l' s w"
    using onSignal_handled by blast
  with signal(2) have "(s, l') \<in> set (listeners w)" "w' = terminate l' s w"
    by simp_all
  moreover from this assms(2) have "l' \<noteq> l"
    by (force simp: unknownTo_def)
  ultimately show ?thesis
    using assms(2) by (simp add: unknownTo_def notices_terminate)
qed

lemma systemStep_other_logger:
  assumes "systemStep invoke w a w'" and "\<not> logsTo l a" and "unknownTo l w"
  shows "unknownTo l w' \<and> notices l w' = notices l w"
  using assms(1)
proof (cases rule: systemStep.cases)
  case (start this)
  with assms(2,3) show ?thesis by (simp add: start_other_logger)
next
  case (standalone this)
  with assms(2,3) show ?thesis by (simp add: standalone_other_logger)
next
  case (occurs ev)
  with assms(3) show ?thesis by (simp add: processStep_other_logger)
qed

text \<open>
  C26. Log functions are kept apart. In every history in which no start is made on a
  scheduler that logs to a given log function, from a world in which no timer and no
  handler closes over it, that log function never receives a notice: every notice of a
  start, of a firing and of the shutdown goes to the log function of the scheduler that
  caused it, and to no other.
\<close>

theorem notices_isolated:
  assumes "systemRun invoke w0 as w" and "list_all (\<lambda>a. \<not> logsTo l a) as"
    and "unknownTo l w0"
  shows "notices l w = notices l w0 \<and> unknownTo l w"
  using assms
proof (induction rule: systemRun.induct)
  case idle
  then show ?case by simp
next
  case (more as w a w')
  then have "notices l w = notices l w0" "unknownTo l w" "\<not> logsTo l a"
    by simp_all
  with systemStep_other_logger [OF more.hyps(2), of l] show ?case by simp
qed

section \<open>Preservation\<close>

lemma wf_listeners_append_pair:
  "wf_listeners hs \<Longrightarrow> wf_listeners (hs @ [(SIGINT, l), (SIGTERM, l)])"
  by (induction hs rule: wf_listeners.induct) simp_all

lemma wf_job_planned:
  assumes "getFunctionConfigurations (functionProvider this) = Inr cs"
    and "j \<in> set (plannedJobs this cs)"
  shows "wf_job j"
proof -
  from assms(2) obtain fc where fc: "fc \<in> set cs" "jobInput j = input fc"
    "jobSchedule j \<in> set (cron fc)"
    by (blast dest: plannedJobs_origin)
  from getFunctionConfigurations_schedules [OF assms(1) fc(1,3)]
  have "readSchedule (jobSchedule j) \<noteq> None"
    by (auto simp: readSchedule_cronOfExpression convertible_def)
  moreover from fc(1) have "truthy (input fc)"
    using getFunctionConfigurations_InrD [OF assms(1)] by (simp add: input_resolved_truthy)
  ultimately show ?thesis by (simp add: wf_job_def fc(2))
qed

lemma wf_jobs_scheduleEvents:
  "list_all wf_job (jobs w) \<Longrightarrow> list_all wf_job (jobs (snd (scheduleEvents invoke this w)))"
  using scheduleEvents_registers [of invoke this w]
  by (auto simp: list_all_iff dest: wf_job_planned)

lemma exitedCleanly_running [simp]: "exitCode w = None \<Longrightarrow> exitedCleanly w"
  by (simp add: exitedCleanly_def)

lemma exitedCleanly_terminate:
  "(s, l) \<in> set (listeners w) \<Longrightarrow> exitedCleanly (terminate l s w)"
  by (force simp: exitedCleanly_def list_ex_iff)

lemma wf_world_scheduleEvents:
  "wf_world w \<Longrightarrow> exitCode w = None \<Longrightarrow> wf_world (snd (scheduleEvents invoke this w))"
  by (simp add: wf_world_def wf_jobs_scheduleEvents)

lemma wf_world_callLog:
  "wf_world w \<Longrightarrow> exitCode w = None \<Longrightarrow> wf_world (callLog l m w)"
  by (simp add: wf_world_def callLog_def)

lemma wf_world_scheduleEventsStandalone:
  assumes "wf_world w" and "exitCode w = None"
  shows "wf_world (snd (scheduleEventsStandalone invoke this w))"
proof -
  let ?w = "callLog (log this) standaloneBanner w"
  have "wf_world (snd (scheduleEvents invoke this ?w))"
    using assms by (intro wf_world_scheduleEvents wf_world_callLog) (simp_all add: callLog_def)
  moreover have "exitCode (snd (scheduleEventsStandalone invoke this w)) = None"
    using assms(2) by (simp add: scheduleEventsStandalone_frame)
  moreover have "wf_listeners (listeners (snd (scheduleEventsStandalone invoke this w)))"
    using assms(1)
    by (cases "fst (scheduleEventsStandalone invoke this w)")
      (simp_all add: scheduleEventsStandalone_frame wf_world_def wf_listeners_append_pair)
  ultimately show ?thesis
    by (simp add: wf_world_def jobs_scheduleEventsStandalone)
qed

lemma wf_world_processStep:
  assumes "processStep invoke w ev w'" and "wf_world w"
  shows "wf_world w'"
  using assms
proof (cases rule: processStep.cases)
  case (timer j)
  with assms(2) show ?thesis by (simp add: wf_world_def)
next
  case (signal s)
  then obtain l0 where "(s, l0) \<in> set (listeners w)" by auto
  then obtain l where "(s, l) \<in> set (listeners w)" "onSignal s w = terminate l s w"
    using onSignal_handled by blast
  with signal assms(2) show ?thesis
    by (simp add: wf_world_def exitedCleanly_terminate)
qed

lemma wf_world_systemStep: "systemStep invoke w a w' \<Longrightarrow> wf_world w \<Longrightarrow> wf_world w'"
  by (auto elim!: systemStepE
      intro: wf_world_scheduleEvents wf_world_scheduleEventsStandalone wf_world_processStep)

lemma wf_world_initialWorld: "wf_world initialWorld"
  by (simp add: wf_world_def initialWorld_def jobs_def)

text \<open>
  C24. Well-formedness is an invariant of the system: from a well-formed world, and so
  from the initial one, no sequence of starts (whatever their configuration and however
  they end), firings and signals leads to a world in which a timer has a schedule the
  timer subsystem cannot read or a falsy payload, in which only one of the two signals is
  handled, or in which the process has exited other than with status 0 after the
  shutdown notice.
\<close>

theorem systemRun_wf:
  assumes "systemRun invoke w0 as w" and "wf_world w0"
  shows "wf_world w"
  using assms wf_world_systemStep by (rule systemRun_invariant)

section \<open>Payloads of invocations\<close>

lemma start_payloads:
  "\<exists>more. invocations (snd (scheduleEvents invoke this w)) = invocations w @ more
     \<and> list_all (\<lambda>x. truthy (snd x)) more"
  using scheduleEvents_invokes [of invoke this w]
  by (fastforce simp: list_all_iff wf_job_def dest: wf_job_planned)

lemma systemStep_payloads:
  assumes "systemStep invoke w a w'" and "wf_world w"
  shows "\<exists>more. invocations w' = invocations w @ more \<and> list_all (\<lambda>x. truthy (snd x)) more"
  using assms(1)
proof (cases rule: systemStep.cases)
  case (start this)
  then show ?thesis by (simp add: start_payloads)
next
  case (standalone this)
  have "invocations (callLog (log this) standaloneBanner w) = invocations w"
    by (simp add: callLog_def)
  with start_payloads [of invoke this "callLog (log this) standaloneBanner w"] standalone
  show ?thesis by (simp add: invocations_scheduleEventsStandalone)
next
  case (occurs ev)
  from occurs(2) show ?thesis
  proof (cases rule: processStep.cases)
    case (timer j)
    with assms(2) have "truthy (jobInput j)"
      by (simp add: wf_world_def list_all_iff wf_job_def)
    with timer show ?thesis by simp
  next
    case (signal s)
    then obtain l0 where "(s, l0) \<in> set (listeners w)" by auto
    then obtain l where "onSignal s w = terminate l s w"
      using onSignal_handled by blast
    with signal show ?thesis by simp
  qed
qed

text \<open>
  C25. The invoker never sees a falsy payload. In every history from a well-formed world,
  and so from the initial one, each invocation made, at a start (also one that throws)
  or by a firing, carries a truthy payload: the payload of the schedule event, or the
  empty object where the event has none or a falsy one.
\<close>

theorem invoked_payloads_truthy:
  assumes "systemRun invoke w0 as w" and "wf_world w0"
  shows "\<exists>more. invocations w = invocations w0 @ more \<and> list_all (\<lambda>x. truthy (snd x)) more"
  using assms
proof (induction rule: systemRun.induct)
  case idle
  then show ?case by simp
next
  case (more as w a w')
  then obtain xs where xs: "invocations w = invocations w0 @ xs" "list_all (\<lambda>x. truthy (snd x)) xs"
    by auto
  from more have "wf_world w"
    by (auto intro: systemRun_invariant wf_world_systemStep)
  from systemStep_payloads [OF more.hyps(2) this] xs show ?case by auto
qed


section \<open>Rates and the clock\<close>

text \<open>The two theorems of this section read the schedule the normalizer is specified to
  produce (section 4.1 of the specification) under the usual meaning of a five-field
  schedule. Neither is in the sources: they are statements about what the specification
  asks for, not about \<^verbatim>\<open>node-schedule\<close>.\<close>

text \<open>
  C31. A rate in hours or days fires every minute of a due hour. The schedule of such a
  rate has \<^verbatim>\<open>*\<close> in its minute field, so it is due at all sixty minutes of an hour whose
  hour (or day) is due, and at none of the others: \<^verbatim>\<open>rate(2 hours)\<close> runs the function sixty
  times every second hour.
\<close>

theorem coarse_rate_fires_every_minute:
  assumes "rate s = OneRate (rateExpression n w)" and "parseUnit w = Some u"
    and "u \<noteq> Minute"
  shows "\<exists>fc c. eventConfiguration fname s = Inr fc \<and> cron fc = [c]
    \<and> length (filter (due c) (minutesOfHour t)) = (if rateDue n u t then 60 else 0)"
proof -
  have "filter (due (cronOf n u)) (minutesOfHour t) = filter (rateDue n u) (minutesOfHour t)"
    by (rule filter_cong) simp_all
  with assms(3) show ?thesis
    by (simp add: eventConfiguration_oneRate [OF assms(1,2)] filter_minutesOfHour_coarse)
qed

text \<open>
  C30. A rate in minutes is an interval only if it divides the hour. Over a day, the
  schedule resolved for \<^verbatim>\<open>rate(<n> minutes)\<close> is due at the same minutes as an interval of
  \<open>n\<close> minutes counted from midnight exactly if \<open>n\<close> divides 60 (or is 0, when neither is
  ever due): for any other \<open>n\<close> the step restarts at every full hour, and the last
  interval of each hour is cut short.
\<close>

theorem minute_rate_interval:
  assumes "rate s = OneRate (rateExpression n w)" and "parseUnit w = Some Minute"
  shows "\<exists>fc c. eventConfiguration fname s = Inr fc \<and> cron fc = [c]
    \<and> (list_all (\<lambda>m. due c (minuteOfDay t m) = everyMinutes n m) [0..<1440]
         \<longleftrightarrow> n = 0 \<or> n dvd 60)"
  by (simp add: eventConfiguration_oneRate [OF assms] rateDue_Minute_interval)

section \<open>From the start to the invocations of the clock\<close>

lemma due_plannedJobs:
  "map (\<lambda>j. (jobFunction j, jobInput j))
       (filter (\<lambda>j. due (jobSchedule j) t) (plannedJobs this cs))
     = dueInvocations this cs t"
  by (simp add: plannedJobs_def dueInvocations_def filter_concat map_concat filter_map
      comp_def jobFor_def)

text \<open>
  C23. The scheduler implements step 4 of section 4.3. When the configurations resolve and the
  start returns in a process without timers, the functions invoked up to any later
  moment are: those invoked before the start; with \<^verbatim>\<open>runImmediately\<close>, one invocation per
  registered timer, in registration order; then, minute by minute, exactly the
  invocations the specification owes at that minute, whether they succeed or fail.
\<close>

theorem start_then_clock:
  assumes "getFunctionConfigurations (functionProvider this) = Inr cs"
    and "fst (scheduleEvents invoke this w) = None"
    and "exitCode w = None" and "jobs w = []"
  shows "invocations (clockRun invoke ts (snd (scheduleEvents invoke this w)))
    = invocations w
      @ (if runImmediately (configOptions this)
         then map (\<lambda>j. (jobFunction j, jobInput j)) (plannedJobs this cs) else [])
      @ concat (map (dueInvocations this cs) ts)"
proof -
  let ?w = "snd (scheduleEvents invoke this w)"
  have w: "?w = emit (plannedEffects this cs) w"
    using assms(1,2) by (rule scheduleEvents_returned)
  then have "dueJobs t ?w = filter (\<lambda>j. due (jobSchedule j) t) (plannedJobs this cs)" for t
    by (simp add: dueJobs_def jobsOf_plannedEffects assms(4))
  moreover have "exitCode ?w = None"
    by (simp add: w assms(3))
  ultimately show ?thesis
    by (simp add: invocations_clockRun due_plannedJobs)
      (simp add: w invocationsOf_plannedEffects)
qed

end
