(* ===== verification/Phases.thy ===== *)
theory Phases
  imports System
begin

text \<open>
  The state machine of section 4.3 of the specification, and the proof that the system
  of theory \<open>System\<close> implements it. The phases are a linear order; \<open>phaseOf\<close> abstracts a
  world to its phase, \<open>phaseStep\<close> is the machine, labelled with the actions of the system,
  and the refinement is a simulation: every step of the system is a step of the machine
  between the phases of its worlds.
\<close>

section \<open>The phases of the engine\<close>

text \<open>Section 4.3 of the specification names the phases of the engine: Idle, Registering,
  Running, Terminating (standalone only), Exited. Registering and Terminating are passed
  through inside a start and inside the handling of a signal, which are single steps
  here; the others are states, in this order.\<close>

datatype phase = Idle | Running | Exited

fun rank :: "phase \<Rightarrow> nat" where
  "rank Idle = 0"
| "rank Running = 1"
| "rank Exited = 2"

instantiation phase :: linorder
begin

definition less_eq_phase :: "phase \<Rightarrow> phase \<Rightarrow> bool" where
  "p \<le> q \<longleftrightarrow> rank p \<le> rank q"

definition less_phase :: "phase \<Rightarrow> phase \<Rightarrow> bool" where
  "p < q \<longleftrightarrow> rank p < rank q"

instance
proof
  fix p q :: phase
  show "p \<le> q \<Longrightarrow> q \<le> p \<Longrightarrow> p = q"
    by (cases p; cases q) (simp_all add: less_eq_phase_def)
qed (auto simp: less_eq_phase_def less_phase_def)

end

text \<open>The phase a world is in: exited; or nothing registered and no handler installed;
  or running.\<close>

definition phaseOf :: "world \<Rightarrow> phase" where
  "phaseOf w =
     (if exitCode w \<noteq> None then Exited
      else if jobs w = [] \<and> listeners w = [] then Idle
      else Running)"

text \<open>The machine of the specification: a start registers and never leads back or out; a
  firing needs a running engine and leaves it running; a signal ends a running engine.\<close>

inductive phaseStep :: "phase \<Rightarrow> action \<Rightarrow> phase \<Rightarrow> bool" where
  registering: "p \<le> q \<Longrightarrow> q \<noteq> Exited \<Longrightarrow> phaseStep p (Start this) q"
| registeringStandalone: "p \<le> q \<Longrightarrow> q \<noteq> Exited \<Longrightarrow> phaseStep p (StartStandalone this) q"
| firing: "phaseStep Running (Occurs (TimerFires j)) Running"
| terminating: "phaseStep Running (Occurs (SignalArrives s)) Exited"

inductive phaseRun :: "phase \<Rightarrow> action list \<Rightarrow> phase \<Rightarrow> bool" for p where
  idle: "phaseRun p [] p"
| more: "phaseRun p as q \<Longrightarrow> phaseStep q a r \<Longrightarrow> phaseRun p (as @ [a]) r"

inductive_cases phaseStepE: "phaseStep p a q"

inductive_simps phaseStep_simps:
  "phaseStep p (Start this) q"
  "phaseStep p (StartStandalone this) q"
  "phaseStep p (Occurs (TimerFires j)) q"
  "phaseStep p (Occurs (SignalArrives s)) q"

section \<open>The system implements the phases of the specification\<close>

lemma phaseOf_simps:
  "exitCode w = Some c \<Longrightarrow> phaseOf w = Exited"
  "exitCode w = None \<Longrightarrow> j \<in> set (jobs w) \<Longrightarrow> phaseOf w = Running"
  "exitCode w = None \<Longrightarrow> h \<in> set (listeners w) \<Longrightarrow> phaseOf w = Running"
  by (auto simp: phaseOf_def)

lemma phaseOf_grown:
  assumes "exitCode w' = exitCode w" and "exitCode w = None"
    and "jobs w' = jobs w @ js" and "listeners w' = listeners w @ hs"
  shows "phaseOf w \<le> phaseOf w' \<and> phaseOf w' \<noteq> Exited"
  using assms by (auto simp: phaseOf_def less_eq_phase_def)

lemma jobs_scheduleEvents_grow: "\<exists>js. jobs (snd (scheduleEvents invoke this w)) = jobs w @ js"
  using scheduleEvents_registers [of invoke this w] by blast

lemma systemStep_phaseStep:
  assumes "systemStep invoke w a w'"
  shows "phaseStep (phaseOf w) a (phaseOf w')"
  using assms
proof (cases rule: systemStep.cases)
  case (start this)
  from jobs_scheduleEvents_grow obtain js
    where "jobs (snd (scheduleEvents invoke this w)) = jobs w @ js" ..
  with start have "phaseOf w \<le> phaseOf w' \<and> phaseOf w' \<noteq> Exited"
    by (intro phaseOf_grown [where hs = "[]"]) simp_all
  with start show ?thesis
    by (simp add: phaseStep_simps)
next
  case (standalone this)
  let ?w = "callLog (log this) standaloneBanner w"
  from jobs_scheduleEvents_grow obtain js
    where "jobs (snd (scheduleEvents invoke this ?w)) = jobs ?w @ js" ..
  moreover have "jobs ?w = jobs w"
    by (simp add: callLog_def)
  ultimately have jobs: "jobs w' = jobs w @ js"
    unfolding standalone(2) by (simp add: jobs_scheduleEventsStandalone)
  obtain hs where "listeners w' = listeners w @ hs"
    using scheduleEventsStandalone_frame(2,3) [of invoke this w] standalone
    by (cases "fst (scheduleEventsStandalone invoke this w) = None") auto
  with jobs standalone have "phaseOf w \<le> phaseOf w' \<and> phaseOf w' \<noteq> Exited"
    by (intro phaseOf_grown) (simp_all add: scheduleEventsStandalone_frame(1))
  with standalone show ?thesis
    by (simp add: phaseStep_simps)
next
  case (occurs ev)
  from occurs(2) show ?thesis
    unfolding occurs(1)
    by (cases rule: processStep.cases)
      (auto simp: phaseOf_simps phaseStep_simps dest: onSignal_handled)
qed

lemma systemRun_phaseRun:
  "systemRun invoke w0 as w \<Longrightarrow> phaseRun (phaseOf w0) as (phaseOf w)"
  by (induction rule: systemRun.induct)
    (auto intro: phaseRun.idle phaseRun.more systemStep_phaseStep)

text \<open>What the machine allows: phases never go back, nothing follows an exit, and an
  exit is the work of a signal.\<close>

lemma rank_Exited: "2 \<le> rank q \<longleftrightarrow> q = Exited"
  by (cases q) simp_all

lemma phaseStep_forward: "phaseStep p a q \<Longrightarrow> p \<le> q \<and> p \<noteq> Exited"
  by (auto elim!: phaseStepE simp: less_eq_phase_def rank_Exited)

lemma phaseStep_Exited: "phaseStep p a Exited \<Longrightarrow> p = Running \<and> (\<exists>s. a = Occurs (SignalArrives s))"
  by (auto elim: phaseStepE)

lemma phaseRun_forward: "phaseRun p as q \<Longrightarrow> p \<le> q"
  by (induction rule: phaseRun.induct) (auto dest: phaseStep_forward)

lemma phaseRun_Exited:
  "phaseRun p as q \<Longrightarrow> q = Exited \<Longrightarrow> p \<noteq> Exited \<Longrightarrow>
     \<exists>bs s. as = bs @ [Occurs (SignalArrives s)] \<and> phaseRun p bs Running"
  by (induction rule: phaseRun.induct) (auto dest: phaseStep_Exited)

text \<open>
  C27. The system implements the phases of section 4.3. Every history of the system is
  a run of the machine of the specification under the abstraction \<open>phaseOf\<close>: a start
  registers, a firing happens in a running engine, a signal ends it. Hence the phase
  never goes back, and a process that was running has exited only if the last thing
  that happened was a signal, before which the engine was running.
\<close>

theorem systemRun_phases:
  assumes "systemRun invoke w0 as w"
  shows "phaseRun (phaseOf w0) as (phaseOf w)
    \<and> phaseOf w0 \<le> phaseOf w
    \<and> (phaseOf w = Exited \<and> phaseOf w0 \<noteq> Exited \<longrightarrow>
         (\<exists>bs s. as = bs @ [Occurs (SignalArrives s)] \<and> phaseRun (phaseOf w0) bs Running))"
  using systemRun_phaseRun [OF assms] by (auto dest: phaseRun_forward phaseRun_Exited)

end
