(* ===== verification/Json_Reader.thy ===== *)
theory Json_Reader
  imports Json
begin

text \<open>
  A reader for the text \<^verbatim>\<open>JSON.stringify\<close> writes, the reference against which theory \<open>Json\<close>'s
  model of \<^verbatim>\<open>JSON.stringify(input)\<close> (\<^verbatim>\<open>scheduler.ts\<close>, line 50) is judged: the scheduling notice
  is the only place where a payload leaves the scheduler as text, and this theory shows that
  the text determines the payload. The program itself never parses JSON; the reader follows
  the grammar of \<^verbatim>\<open>JSON.parse\<close> for the values of the model (integers for numbers, characters
  below 256) and for compact text only: it accepts no white space between tokens, which
  \<^verbatim>\<open>JSON.stringify\<close> without an indent argument never writes.

  The reader is a recursive descent over the text with fuel, since arrays and objects nest
  without a bound known in advance. The theory shows that the fuel \<open>Suc (2 * length s)\<close> is
  enough for every text \<open>s\<close>: each call of the reader on a value either fails or consumes at
  least one character, and the call tree has at most two levels (value, list of elements or
  members) per character consumed. With that fuel the reader never answers \<open>OutOfFuel\<close>, and
  more fuel never changes its answer.
\<close>

section \<open>String literals\<close>

text \<open>The characters of a string literal up to its closing quote, escapes undone: the two-character
  escapes of \<^verbatim>\<open>QuoteJSONString\<close> and \<^verbatim>\<open>\u00XY\<close> for the code points a \<^typ>\<open>char\<close> has. An
  unescaped control character is refused, as \<^verbatim>\<open>JSON.parse\<close> refuses it.\<close>

definition hexVal :: "char \<Rightarrow> nat option" where
  "hexVal c = map_of (zip ''0123456789abcdef'' [0..<16]) c"

fun readChars :: "string \<Rightarrow> (string \<times> string) option" where
  "readChars [] = None"
| "readChars (c # cs) =
     (if c = CHR 0x22 then Some ([], cs)
      else if c = CHR 0x5C then
        (case cs of
           [] \<Rightarrow> None
         | e # es \<Rightarrow>
             if e = CHR ''u'' then
               (case es of
                  a # b # x # y # rest \<Rightarrow>
                    (if a = CHR ''0'' \<and> b = CHR ''0'' then
                       (case (hexVal x, hexVal y) of
                          (Some h, Some l) \<Rightarrow>
                            map_option (apfst ((#) (char_of (16 * h + l)))) (readChars rest)
                        | _ \<Rightarrow> None)
                     else None)
                | _ \<Rightarrow> None)
             else
               (case map_of [(CHR 0x22, CHR 0x22), (CHR 0x5C, CHR 0x5C), (CHR ''b'', CHR 0x08),
                     (CHR ''f'', CHR 0x0C), (CHR ''n'', CHR 0x0A), (CHR ''r'', CHR 0x0D),
                     (CHR ''t'', CHR 0x09)] e of
                  None \<Rightarrow> None
                | Some d \<Rightarrow> map_option (apfst ((#) d)) (readChars es)))
      else if (of_char c :: nat) < 32 then None
      else map_option (apfst ((#) c)) (readChars cs))"

section \<open>Numbers\<close>

text \<open>The payloads of the model hold integers: an optional minus sign and decimal digits,
  with no zero in front of another digit.\<close>

definition readNat :: "string \<Rightarrow> (nat \<times> string) option" where
  "readNat s =
     (let ds = takeWhile isDigit s in
      if ds = [] \<or> (hd ds = CHR ''0'' \<and> tl ds \<noteq> []) then None
      else Some (digitsVal ds, dropWhile isDigit s))"

definition readInt :: "string \<Rightarrow> (int \<times> string) option" where
  "readInt s =
     (case s of
        [] \<Rightarrow> None
      | c # cs \<Rightarrow>
          if c = CHR ''-'' then map_option (apfst (\<lambda>n. - int n)) (readNat cs)
          else map_option (apfst int) (readNat s))"

definition noDigitAhead :: "string \<Rightarrow> bool" where
  "noDigitAhead rest \<longleftrightarrow> (case rest of [] \<Rightarrow> True | c # cs \<Rightarrow> \<not> isDigit c)"

section \<open>Values\<close>

text \<open>A reading is the value read and the text left, or the reason there is none.\<close>

datatype read_error = Malformed | OutOfFuel

type_synonym 'a reading = "read_error + 'a \<times> string"

definition mapResult :: "('a \<Rightarrow> 'b) \<Rightarrow> 'a reading \<Rightarrow> 'b reading" where
  "mapResult f r = (case r of Inl e \<Rightarrow> Inl e | Inr (x, rest) \<Rightarrow> Inr (f x, rest))"

definition bindResult :: "'a reading \<Rightarrow> ('a \<Rightarrow> string \<Rightarrow> 'b reading) \<Rightarrow> 'b reading" where
  "bindResult r f = (case r of Inl e \<Rightarrow> Inl e | Inr (x, rest) \<Rightarrow> f x rest)"

text \<open>The pieces of the grammar: a keyword after its first letter, a string after its opening
  quote, a number; a bracket just opened, the text after an element, a character that must
  come next.\<close>

definition readLiteral :: "string \<Rightarrow> 'a \<Rightarrow> string \<Rightarrow> 'a reading" where
  "readLiteral lit x s =
     (if take (length lit) s = lit then Inr (x, drop (length lit) s) else Inl Malformed)"

definition readString :: "string \<Rightarrow> string reading" where
  "readString s = (case readChars s of None \<Rightarrow> Inl Malformed | Some r \<Rightarrow> Inr r)"

definition readNumber :: "string \<Rightarrow> json reading" where
  "readNumber s = (case readInt s of None \<Rightarrow> Inl Malformed | Some (i, rest) \<Rightarrow> Inr (JNumber i, rest))"

definition opened :: "char \<Rightarrow> (string \<Rightarrow> 'a list reading) \<Rightarrow> string \<Rightarrow> 'a list reading" where
  "opened close more s =
     (case s of
        [] \<Rightarrow> Inl Malformed
      | d # ds \<Rightarrow> if d = close then Inr ([], ds) else more s)"

definition item :: "char \<Rightarrow> 'a \<Rightarrow> (string \<Rightarrow> 'a list reading) \<Rightarrow> string \<Rightarrow> 'a list reading" where
  "item close x more s =
     (case s of
        [] \<Rightarrow> Inl Malformed
      | d # ds \<Rightarrow>
          if d = CHR '','' then mapResult ((#) x) (more ds)
          else if d = close then Inr ([x], ds)
          else Inl Malformed)"

definition expect :: "char \<Rightarrow> (string \<Rightarrow> 'a reading) \<Rightarrow> string \<Rightarrow> 'a reading" where
  "expect c more s =
     (case s of
        [] \<Rightarrow> Inl Malformed
      | d # ds \<Rightarrow> if d = c then more ds else Inl Malformed)"

text \<open>Recursive descent, one unit of fuel for each level of the call tree.\<close>

fun readValue :: "nat \<Rightarrow> string \<Rightarrow> json reading"
  and readElements :: "nat \<Rightarrow> string \<Rightarrow> json list reading"
  and readMembers :: "nat \<Rightarrow> string \<Rightarrow> (string \<times> json) list reading"
where
  "readValue 0 s = Inl OutOfFuel"
| "readValue (Suc n) s =
     (case s of
        [] \<Rightarrow> Inl Malformed
      | c # cs \<Rightarrow>
          if c = CHR ''n'' then readLiteral ''ull'' JNull cs
          else if c = CHR ''t'' then readLiteral ''rue'' (JBool True) cs
          else if c = CHR ''f'' then readLiteral ''alse'' (JBool False) cs
          else if c = CHR 0x22 then mapResult JString (readString cs)
          else if c = CHR ''['' then mapResult JArray (opened CHR '']'' (\<lambda>r. readElements n r) cs)
          else if c = CHR ''{'' then mapResult JObject (opened CHR ''}'' (\<lambda>r. readMembers n r) cs)
          else readNumber s)"
| "readElements 0 s = Inl OutOfFuel"
| "readElements (Suc n) s =
     bindResult (readValue n s) (\<lambda>x. item CHR '']'' x (\<lambda>r. readElements n r))"
| "readMembers 0 s = Inl OutOfFuel"
| "readMembers (Suc n) s =
     expect CHR 0x22 (\<lambda>cs.
       bindResult (readString cs) (\<lambda>k.
         expect CHR '':'' (\<lambda>vs.
           bindResult (readValue n vs) (\<lambda>v. item CHR ''}'' (k, v) (\<lambda>r. readMembers n r))))) s"

text \<open>The whole text must be one value. The fuel is fixed here; section \<open>Fuel\<close> below shows that
  it is enough for every text.\<close>

definition readJSON :: "string \<Rightarrow> json option" where
  "readJSON s =
     (case readValue (Suc (2 * length s)) s of
        Inr (j, []) \<Rightarrow> Some j
      | _ \<Rightarrow> None)"

section \<open>Measures of the proofs\<close>

text \<open>A reading consumes when it fails for a reason of the text or leaves less text than it was
  given.\<close>

definition consumes :: "'a reading \<Rightarrow> string \<Rightarrow> bool" where
  "consumes r s \<longleftrightarrow> (case r of Inl e \<Rightarrow> e = Malformed | Inr (x, rest) \<Rightarrow> length rest < length s)"

text \<open>A verdict that is not \<open>OutOfFuel\<close> is the verdict of every larger fuel.\<close>

definition settled :: "'a reading \<Rightarrow> 'a reading \<Rightarrow> bool" where
  "settled r r' \<longleftrightarrow> (r \<noteq> Inl OutOfFuel \<longrightarrow> r' = r)"

text \<open>How a printed value starts.\<close>

definition numberStart :: "char \<Rightarrow> bool" where
  "numberStart c \<longleftrightarrow> isDigit c \<or> c = CHR ''-''"

definition memberText :: "string \<times> json \<Rightarrow> string" where
  "memberText kv = quoteJSONString (fst kv) @ '':'' @ stringify (snd kv)"

section \<open>String literals are read back\<close>

lemma hexVal_hexDigit: "d < 16 \<Longrightarrow> hexVal (hexDigit d) = Some d"
proof -
  have "\<forall>d \<in> set [0..<16]. hexVal (hexDigit d) = Some d"
    by code_simp
  then show "d < 16 \<Longrightarrow> hexVal (hexDigit d) = Some d"
    by simp
qed

lemma readChars_escapeChar:
  "readChars (escapeChar c @ s) = map_option (apfst ((#) c)) (readChars s)"
proof -
  consider "c = CHR 0x22" | "c = CHR 0x5C" | "c = CHR 0x08" | "c = CHR 0x0C" | "c = CHR 0x0A"
    | "c = CHR 0x0D" | "c = CHR 0x09"
    | "c \<notin> {CHR 0x22, CHR 0x5C, CHR 0x08, CHR 0x0C, CHR 0x0A, CHR 0x0D, CHR 0x09}"
      "(of_char c :: nat) < 32"
    | "c \<notin> {CHR 0x22, CHR 0x5C, CHR 0x08, CHR 0x0C, CHR 0x0A, CHR 0x0D, CHR 0x09}"
      "\<not> (of_char c :: nat) < 32"
    by auto
  then show ?thesis
  proof cases
    case 8
    have "(of_char c :: nat) div 16 < 16" "(of_char c :: nat) mod 16 < 16"
      using 8(2) by auto
    moreover have "char_of (16 * ((of_char c :: nat) div 16) + (of_char c :: nat) mod 16) = c"
      by simp
    ultimately show ?thesis
      using 8 by (simp add: escapeChar_def hexVal_hexDigit)
  next
    case 9
    then show ?thesis by (simp add: escapeChar_def)
  qed (simp_all add: escapeChar_def)
qed

lemma readChars_quoted:
  "readChars (concat (map escapeChar s) @ CHR 0x22 # rest) = Some (s, rest)"
  by (induction s) (simp_all add: readChars_escapeChar)

section \<open>Numbers are read back\<close>

lemma takeWhile_digits:
  "list_all isDigit ds \<Longrightarrow> noDigitAhead rest \<Longrightarrow> takeWhile isDigit (ds @ rest) = ds"
  by (cases rest) (simp_all add: noDigitAhead_def list_all_iff takeWhile_append2 takeWhile_eq_all_conv[THEN iffD2])

lemma dropWhile_digits:
  "list_all isDigit ds \<Longrightarrow> noDigitAhead rest \<Longrightarrow> dropWhile isDigit (ds @ rest) = rest"
  by (cases rest) (simp_all add: noDigitAhead_def list_all_iff dropWhile_append2)

lemma string_of_nat_leading_zero: "hd (string_of_nat n) = CHR ''0'' \<Longrightarrow> n = 0"
proof (induction n rule: string_of_nat.induct)
  case (1 n)
  show ?case
  proof (cases "n < 10")
    case True
    with "1.prems" less_10_cases [OF True] show ?thesis
      by (auto simp: string_of_nat_small)
  next
    case False
    with "1.prems" have "hd (string_of_nat (n div 10)) = CHR ''0''"
      by (simp add: string_of_nat_large hd_append)
    with "1.IH" False have "n div 10 = 0"
      by simp
    with False show ?thesis
      by simp
  qed
qed

lemma readNat_string_of_nat:
  "noDigitAhead rest \<Longrightarrow> readNat (string_of_nat n @ rest) = Some (n, rest)"
  using string_of_nat_leading_zero [of n]
  by (auto simp: readNat_def Let_def takeWhile_digits dropWhile_digits string_of_nat_small)

lemma minus_not_digit [simp]: "\<not> isDigit CHR ''-''"
  by (simp add: isDigit_def)

lemma hd_string_of_nat_digit: "isDigit (hd (string_of_nat n))"
  using string_of_nat_digits [of n] string_of_nat_nonempty [of n]
  by (cases "string_of_nat n") simp_all

lemma readInt_string_of_int:
  assumes "noDigitAhead rest"
  shows "readInt (string_of_int i @ rest) = Some (i, rest)"
proof (cases "i < 0")
  case True
  with assms show ?thesis
    by (simp add: readInt_def string_of_int_def readNat_string_of_nat)
next
  case False
  obtain c cs where cs: "string_of_nat (nat i) = c # cs"
    by (cases "string_of_nat (nat i)") simp_all
  with hd_string_of_nat_digit [of "nat i"] have "c \<noteq> CHR ''-''"
    by auto
  with False assms readNat_string_of_nat [of rest "nat i"] show ?thesis
    by (simp add: readInt_def string_of_int_def cs)
qed

lemma readNat_shorter: "readNat s = Some (n, rest) \<Longrightarrow> length rest < length s"
  by (cases s) (auto simp: readNat_def Let_def length_dropWhile_le le_imp_less_Suc split: if_splits)

lemma readInt_shorter: "readInt s = Some (i, rest) \<Longrightarrow> length rest < length s"
  by (cases s) (auto simp: readInt_def dest!: readNat_shorter split: if_splits)

lemma readChars_shorter: "readChars s = Some (str, rest) \<Longrightarrow> length rest < length s"
  by (induction s arbitrary: str rule: readChars.induct)
    (fastforce split: if_splits list.splits option.splits)+

section \<open>Evaluation rules of the combinators\<close>

lemma mapResult_simps [simp]:
  "mapResult f (Inl e) = Inl e" "mapResult f (Inr (x, rest)) = Inr (f x, rest)"
  by (simp_all add: mapResult_def)

lemma bindResult_simps [simp]:
  "bindResult (Inl e) g = Inl e" "bindResult (Inr (x, rest)) g = g x rest"
  by (simp_all add: bindResult_def)

lemma readLiteral_append [simp]: "readLiteral lit x (lit @ rest) = Inr (x, rest)"
  by (simp add: readLiteral_def)

lemma readString_quoted [simp]:
  "readString (concat (map escapeChar s) @ CHR 0x22 # rest) = Inr (s, rest)"
  by (simp add: readString_def readChars_quoted)

lemma readNumber_string_of_int [simp]:
  "noDigitAhead rest \<Longrightarrow> readNumber (string_of_int i @ rest) = Inr (JNumber i, rest)"
  by (simp add: readNumber_def readInt_string_of_int)

lemma opened_simps [simp]:
  "opened close more (close # ds) = Inr ([], ds)"
  "d \<noteq> close \<Longrightarrow> opened close more (d # ds) = more (d # ds)"
  by (simp_all add: opened_def)

lemma item_simps [simp]:
  "item close x more (CHR '','' # ds) = mapResult ((#) x) (more ds)"
  "close \<noteq> CHR '','' \<Longrightarrow> item close x more (close # ds) = Inr ([x], ds)"
  by (simp_all add: item_def)

lemma expect_simps [simp]: "expect c more (c # ds) = more ds"
  by (simp add: expect_def)

section \<open>Fuel\<close>

lemma consumes_simps [simp]:
  "consumes (Inl e) s \<longleftrightarrow> e = Malformed"
  "consumes (Inr (x, rest)) s \<longleftrightarrow> length rest < length s"
  by (simp_all add: consumes_def)

lemma consumes_shorter: "consumes r s' \<Longrightarrow> length s' \<le> length s \<Longrightarrow> consumes r s"
  by (auto simp: consumes_def split: sum.splits)

lemma consumes_mapResult [simp]: "consumes (mapResult f r) s = consumes r s"
  by (auto simp: consumes_def mapResult_def split: sum.splits)

lemma consumes_bindResult:
  assumes "consumes r s"
    and "\<And>x rest. length rest < length s \<Longrightarrow> consumes (g x rest) rest"
  shows "consumes (bindResult r g) s"
proof (cases r)
  case (Inl e)
  with assms(1) show ?thesis by simp
next
  case (Inr p)
  obtain x rest where p: "p = (x, rest)" by (cases p)
  with Inr assms(1) have "length rest < length s" by simp
  from consumes_shorter [OF assms(2) [OF this], of s x] this show ?thesis
    by (simp add: Inr p)
qed

lemma consumes_readLiteral [simp]: "consumes (readLiteral lit x cs) (c # cs)"
  by (simp add: readLiteral_def less_Suc_eq_le)

lemma consumes_readString [simp]: "consumes (readString cs) cs"
  by (auto simp: readString_def split: option.splits dest: readChars_shorter)

lemma consumes_readNumber [simp]: "consumes (readNumber s) s"
  by (auto simp: readNumber_def split: option.splits dest: readInt_shorter)

lemma consumes_opened: "consumes (more s) s \<Longrightarrow> consumes (opened close more s) s"
  by (cases s) (simp_all add: opened_def)

lemma consumes_tail:
  "(\<And>ds. length ds < length (d # cs) \<Longrightarrow> consumes (more ds) ds) \<Longrightarrow>
     consumes (more cs) (d # cs)"
  by (rule consumes_shorter [where s' = cs]) simp_all

lemma consumes_item:
  "(\<And>ds. length ds < length s \<Longrightarrow> consumes (more ds) ds) \<Longrightarrow> consumes (item close x more s) s"
  by (cases s) (auto simp: item_def intro: consumes_tail)

lemma consumes_expect:
  "(\<And>ds. length ds < length s \<Longrightarrow> consumes (more ds) ds) \<Longrightarrow> consumes (expect c more s) s"
  by (cases s) (auto simp: expect_def intro: consumes_tail)

lemma fuel_enough:
  "(\<forall>s. 2 * length s < n \<longrightarrow> consumes (readValue n s) s)
   \<and> (\<forall>s. 2 * length s + 1 < n \<longrightarrow> consumes (readElements n s) s)
   \<and> (\<forall>s. 2 * length s + 1 < n \<longrightarrow> consumes (readMembers n s) s)"
proof (induction n)
  case 0
  show ?case by simp
next
  case (Suc n)
  then have V: "consumes (readValue n s) s" if "2 * length s < n" for s
    using that by blast
  from Suc have E: "consumes (readElements n s) s" if "2 * length s + 1 < n" for s
    using that by blast
  from Suc have M: "consumes (readMembers n s) s" if "2 * length s + 1 < n" for s
    using that by blast
  have "consumes (readValue (Suc n) s) s" if "2 * length s < Suc n" for s
  proof (cases s)
    case Nil
    then show ?thesis by simp
  next
    case (Cons c cs)
    with that have "2 * length cs + 1 < n" by simp
    then have "consumes (opened CHR '']'' (\<lambda>r. readElements n r) cs) (d # cs)"
      "consumes (opened CHR ''}'' (\<lambda>r. readMembers n r) cs) (d # cs)" for d
      by (auto intro!: consumes_shorter [where s' = cs] consumes_opened E M)
    moreover have "consumes (readString cs) (d # cs)" for d
      by (rule consumes_shorter [where s' = cs]) simp_all
    ultimately show ?thesis by (simp add: Cons)
  qed
  moreover have "consumes (readElements (Suc n) s) s" if "2 * length s + 1 < Suc n" for s
    using that by (auto intro!: consumes_bindResult consumes_item V E)
  moreover have "consumes (readMembers (Suc n) s) s" if "2 * length s + 1 < Suc n" for s
    using that
    by (auto intro!: consumes_expect consumes_bindResult consumes_item V M consumes_readString)
  ultimately show ?case by blast
qed

lemma settled_refl [simp]: "settled r r"
  by (simp add: settled_def)

lemma settled_trans: "settled r r' \<Longrightarrow> settled r' r'' \<Longrightarrow> settled r r''"
  by (auto simp: settled_def)

lemma settled_mapResult: "settled r r' \<Longrightarrow> settled (mapResult f r) (mapResult f r')"
  by (auto simp: settled_def mapResult_def split: sum.splits)

lemma settled_bindResult:
  "settled r r' \<Longrightarrow> (\<And>x rest. settled (g x rest) (g' x rest)) \<Longrightarrow>
     settled (bindResult r g) (bindResult r' g')"
  by (auto simp: settled_def bindResult_def split: sum.splits)

lemma settled_opened:
  "settled (more s) (more' s) \<Longrightarrow> settled (opened close more s) (opened close more' s)"
  by (cases s) (simp_all add: opened_def)

lemma settled_item:
  "(\<And>ds. settled (more ds) (more' ds)) \<Longrightarrow> settled (item close x more s) (item close x more' s)"
  by (cases s) (simp_all add: item_def settled_mapResult)

lemma settled_expect:
  "(\<And>ds. settled (more ds) (more' ds)) \<Longrightarrow> settled (expect c more s) (expect c more' s)"
  by (cases s) (simp_all add: expect_def)

lemmas settled_intros =
  settled_mapResult settled_bindResult settled_opened settled_item settled_expect

lemma fuel_step:
  "(\<forall>s. settled (readValue n s) (readValue (Suc n) s))
   \<and> (\<forall>s. settled (readElements n s) (readElements (Suc n) s))
   \<and> (\<forall>s. settled (readMembers n s) (readMembers (Suc n) s))"
proof (induction n)
  case 0
  show ?case by (simp add: settled_def)
next
  case (Suc n)
  have "settled (readValue (Suc n) s) (readValue (Suc (Suc n)) s)" for s
    using Suc by (cases s) (auto intro!: settled_intros)
  moreover have "settled (readElements (Suc n) s) (readElements (Suc (Suc n)) s)" for s
    using Suc by (auto intro!: settled_intros)
  moreover have "settled (readMembers (Suc n) s) (readMembers (Suc (Suc n)) s)" for s
    using Suc by (auto intro!: settled_intros)
  ultimately show ?case by blast
qed

lemma fuel_mono: "n \<le> m \<Longrightarrow> settled (readValue n s) (readValue m s)"
proof (induction m)
  case 0
  then show ?case by simp
next
  case (Suc m)
  show ?case
  proof (cases "n = Suc m")
    case True
    then show ?thesis by simp
  next
    case False
    with Suc have "settled (readValue n s) (readValue m s)" by simp
    moreover have "settled (readValue m s) (readValue (Suc m) s)"
      using fuel_step by blast
    ultimately show ?thesis by (rule settled_trans)
  qed
qed

section \<open>Round trip\<close>

lemma string_of_int_start: "\<exists>c cs. string_of_int i = c # cs \<and> numberStart c"
proof -
  obtain c cs where "string_of_nat (nat i) = c # cs"
    by (cases "string_of_nat (nat i)") simp_all
  with hd_string_of_nat_digit [of "nat i"] show ?thesis
    by (auto simp: string_of_int_def numberStart_def)
qed

lemma readValue_number:
  "numberStart c \<Longrightarrow> readValue (Suc n) (c # cs) = readNumber (c # cs)"
  by (auto simp: numberStart_def isDigit_def)

lemma stringify_start:
  "\<exists>c cs. stringify j = c # cs \<and> c \<noteq> CHR '']'' \<and> c \<noteq> CHR ''}''"
proof (cases j)
  case (JNumber i)
  with string_of_int_start [of i] show ?thesis
    by (auto simp: numberStart_def isDigit_def)
qed (simp_all add: quoteJSONString_def)

lemma stringify_JObject: "stringify (JObject kvs) = ''{'' @ joinWith '','' (map memberText kvs) @ ''}''"
  by (simp add: memberText_def [abs_def] split_def)

lemma readElements_joined:
  assumes "\<And>x n rest. x \<in> set xs \<Longrightarrow> 2 * length (stringify x @ rest) < n \<Longrightarrow> noDigitAhead rest
      \<Longrightarrow> readValue n (stringify x @ rest) = Inr (x, rest)"
    and "xs \<noteq> []"
    and "2 * length (joinWith '','' (map stringify xs) @ CHR '']'' # rest) + 1 < n"
  shows "readElements n (joinWith '','' (map stringify xs) @ CHR '']'' # rest) = Inr (xs, rest)"
  using assms
proof (induction xs arbitrary: n)
  case Nil
  then show ?case by simp
next
  case (Cons x xs)
  from Cons.prems(3) obtain m where n: "n = Suc m" by (cases n) simp_all
  have ahead: "noDigitAhead (CHR '']'' # r)" "noDigitAhead (CHR '','' # r)" for r
    by (simp_all add: noDigitAhead_def isDigit_def)
  show ?case
  proof (cases "xs = []")
    case True
    with Cons.prems(3) have "readValue m (stringify x @ CHR '']'' # rest) = Inr (x, CHR '']'' # rest)"
      by (intro Cons.prems(1) ahead) (simp_all add: n)
    with True show ?thesis by (simp add: n)
  next
    case False
    let ?more = "joinWith '','' (map stringify xs) @ CHR '']'' # rest"
    from False Cons.prems(3)
    have "readValue m (stringify x @ CHR '','' # ?more) = Inr (x, CHR '','' # ?more)"
      by (intro Cons.prems(1) ahead) (simp_all add: n joinWith_Cons)
    moreover from False Cons.prems(3) have "readElements m ?more = Inr (xs, rest)"
      by (intro Cons.IH Cons.prems(1)) (simp_all add: n joinWith_Cons)
    ultimately show ?thesis using False by (simp add: n joinWith_Cons)
  qed
qed

lemma readMembers_joined:
  assumes "\<And>kv n rest. kv \<in> set kvs \<Longrightarrow> 2 * length (stringify (snd kv) @ rest) < n
      \<Longrightarrow> noDigitAhead rest \<Longrightarrow> readValue n (stringify (snd kv) @ rest) = Inr (snd kv, rest)"
    and "kvs \<noteq> []"
    and "2 * length (joinWith '','' (map memberText kvs) @ CHR ''}'' # rest) + 1 < n"
  shows "readMembers n (joinWith '','' (map memberText kvs) @ CHR ''}'' # rest) = Inr (kvs, rest)"
  using assms
proof (induction kvs arbitrary: n)
  case Nil
  then show ?case by simp
next
  case (Cons kv kvs)
  from Cons.prems(3) obtain m where n: "n = Suc m" by (cases n) simp_all
  obtain k v where kv: "kv = (k, v)" by (cases kv)
  have ahead: "noDigitAhead (CHR ''}'' # r)" "noDigitAhead (CHR '','' # r)" for r
    by (simp_all add: noDigitAhead_def isDigit_def)
  have shape: "memberText (k, v) @ r
      = CHR 0x22 # concat (map escapeChar k) @ CHR 0x22 # CHR '':'' # stringify v @ r"
    "length (memberText (k, v)) = length (concat (map escapeChar k)) + length (stringify v) + 3"
    for r
    by (simp_all add: memberText_def quoteJSONString_def)
  show ?case
  proof (cases "kvs = []")
    case True
    with Cons.prems(3) have "readValue m (stringify (snd kv) @ CHR ''}'' # rest)
        = Inr (snd kv, CHR ''}'' # rest)"
      by (intro Cons.prems(1) ahead) (simp_all add: n shape kv)
    with True show ?thesis by (simp add: n shape kv)
  next
    case False
    let ?more = "joinWith '','' (map memberText kvs) @ CHR ''}'' # rest"
    from False Cons.prems(3)
    have "readValue m (stringify (snd kv) @ CHR '','' # ?more) = Inr (snd kv, CHR '','' # ?more)"
      by (intro Cons.prems(1) ahead) (simp_all add: n joinWith_Cons shape kv)
    moreover from False Cons.prems(3) have "readMembers m ?more = Inr (kvs, rest)"
      by (intro Cons.IH Cons.prems(1)) (simp_all add: n joinWith_Cons shape kv)
    ultimately show ?thesis using False by (simp add: n joinWith_Cons shape kv)
  qed
qed

text \<open>An array and an object, given that their elements are read back.\<close>

lemma readValue_JArray:
  assumes "\<And>x n rest. x \<in> set xs \<Longrightarrow> 2 * length (stringify x @ rest) < n \<Longrightarrow> noDigitAhead rest
      \<Longrightarrow> readValue n (stringify x @ rest) = Inr (x, rest)"
    and "2 * length (stringify (JArray xs) @ rest) < n"
  shows "readValue n (stringify (JArray xs) @ rest) = Inr (JArray xs, rest)"
proof (cases "xs = []")
  case True
  with assms(2) show ?thesis by (cases n) simp_all
next
  case False
  from assms(2) obtain m where n: "n = Suc m" by (cases n) simp_all
  let ?text = "joinWith '','' (map stringify xs) @ CHR '']'' # rest"
  have "readElements m ?text = Inr (xs, rest)"
    using assms False by (intro readElements_joined) (simp_all add: n)
  moreover obtain c cs where "?text = c # cs" "c \<noteq> CHR '']''"
    using False stringify_start [of "hd xs"]
    by (cases xs) (auto simp: joinWith_head_Cons)
  ultimately show ?thesis by (simp add: n)
qed

lemma readValue_JObject:
  assumes "\<And>kv n rest. kv \<in> set kvs \<Longrightarrow> 2 * length (stringify (snd kv) @ rest) < n
      \<Longrightarrow> noDigitAhead rest \<Longrightarrow> readValue n (stringify (snd kv) @ rest) = Inr (snd kv, rest)"
    and "2 * length (stringify (JObject kvs) @ rest) < n"
  shows "readValue n (stringify (JObject kvs) @ rest) = Inr (JObject kvs, rest)"
proof (cases "kvs = []")
  case True
  with assms(2) show ?thesis by (cases n) simp_all
next
  case False
  from assms(2) obtain m where n: "n = Suc m" by (cases n) simp_all
  let ?text = "joinWith '','' (map memberText kvs) @ CHR ''}'' # rest"
  from assms(2) have "2 * length ?text + 1 < m"
    by (simp add: n stringify_JObject del: stringify.simps)
  with False have "readMembers m ?text = Inr (kvs, rest)"
    by (intro readMembers_joined assms(1))
  moreover obtain cs where "?text = CHR 0x22 # cs"
    using False by (cases kvs) (auto simp: joinWith_head_Cons memberText_def quoteJSONString_def)
  ultimately show ?thesis by (simp add: n stringify_JObject del: stringify.simps)
qed

lemma readValue_stringify:
  "2 * length (stringify j @ rest) < n \<Longrightarrow> noDigitAhead rest \<Longrightarrow>
     readValue n (stringify j @ rest) = Inr (j, rest)"
proof (induction j arbitrary: n rest)
  case (JNumber i)
  then obtain m where n: "n = Suc m" by (cases n) simp_all
  obtain c cs where start: "string_of_int i = c # cs" "numberStart c"
    using string_of_int_start by blast
  from readValue_number [OF start(2), of m "cs @ rest"] JNumber.prems(2) show ?case
    using readNumber_string_of_int [of rest i] by (simp add: n start(1))
next
  case (JArray xs)
  from JArray.IH JArray.prems(1) show ?case
    by (rule readValue_JArray)
next
  case (JObject kvs)
  from JObject.prems(1) show ?case
    by (intro readValue_JObject JObject.IH) (auto simp: snds.simps)
next
  case JNull
  then show ?case by (cases n) (simp_all add: readLiteral_def)
next
  case (JBool b)
  then show ?case by (cases n) (simp_all add: readLiteral_def)
next
  case (JString s)
  then show ?case by (cases n) (simp_all add: quoteJSONString_def)
qed

section \<open>What the payload text of a notice guarantees\<close>

lemma readValue_stringify_whole:
  "readValue (Suc (2 * length (stringify j))) (stringify j) = Inr (j, [])"
  using readValue_stringify [of j "[]" "Suc (2 * length (stringify j))"]
  by (simp add: noDigitAhead_def)

text \<open>
  C29. Round trip. Reading the text \<^verbatim>\<open>JSON.stringify\<close> writes for a payload gives the payload
  back, for every payload: nested arrays and objects, strings with quotes, backslashes and
  control characters, negative numbers.
\<close>

theorem readJSON_stringify: "readJSON (stringify j) = Some j"
  unfolding readJSON_def readValue_stringify_whole by simp

text \<open>The payload text identifies the payload: two payloads are printed alike only when
  they are the same value, so a scheduling notice never hides a difference between two
  payloads.\<close>

lemma stringify_inject: "stringify a = stringify b \<longleftrightarrow> a = b"
proof
  assume eq: "stringify a = stringify b"
  have "(Inr (a, []) :: json reading) = readValue (Suc (2 * length (stringify a))) (stringify a)"
    by (simp only: readValue_stringify_whole)
  also have "\<dots> = Inr (b, [])"
    unfolding eq by (rule readValue_stringify_whole)
  finally show "a = b" by simp
qed simp

end
