(* ===== verification/Scenarios.thy ===== *)
theory Scenarios
  imports Phases Json_Reader
begin

text \<open>
  The fixtures of \<^verbatim>\<open>src/tests/scheduler.spec.ts\<close> as values of the model. Each general
  theorem of the component theories that has a hypothesis is applied here to a run on
  one of them, which shows that its hypotheses can be met; the expected notices are
  spelled out byte for byte, as the tests assert them.

  \<open>mockInvoker\<close> is the mocked \<^verbatim>\<open>slsInvokeFunction\<close> of the test at line 106 (it returns);
  \<open>failingInvoker\<close> and the functions \<open>calendarFunction\<close>, \<open>falsyPayloadFunction\<close>,
  \<open>emptyRatesFunction\<close> and \<open>stringScheduleFunction\<close> are further inputs, for the cases the
  tests do not exercise. The test cases themselves are in theory \<open>Test_Suite\<close>.
\<close>

section \<open>Fixtures\<close>

text \<open>Lines 10-24: one function with one schedule event.\<close>

definition scheduleFunction :: sls_functions where
  "scheduleFunction =
     [(''schedule-function'',
       \<lparr>handler = ''src/functions/schedule-function.handler'',
        events =
          [ScheduleEvent
             \<lparr>rate = OneRate ''rate(1 minute)'',
              schedule_input = Some (JObject [(''scheduler'', JString ''1-minute'')])\<rparr>],
        fn_name = ''my-service-dev-schedule-function''\<rparr>)]"

text \<open>Lines 53-59: a function without events.\<close>

definition getUserFunction :: sls_functions where
  "getUserFunction =
     [(''get-user'',
       \<lparr>handler = ''src/handlers/get-useer.handler'', events = [],
        fn_name = ''my-service-dev-get-user''\<rparr>)]"

text \<open>Lines 131-134: the fixture with its rate replaced by an array of two.\<close>

definition twoRatesFunction :: sls_functions where
  "twoRatesFunction =
     [(''schedule-function'',
       \<lparr>handler = ''src/functions/schedule-function.handler'',
        events =
          [ScheduleEvent
             \<lparr>rate = ManyRates [''rate(1 minute)'', ''rate(2 minute)''],
              schedule_input = Some (JObject [(''scheduler'', JString ''1-minute'')])\<rparr>],
        fn_name = ''my-service-dev-schedule-function''\<rparr>)]"

text \<open>The log function of the tests, \<^verbatim>\<open>const log = jest.fn()\<close> (e.g. line 72).\<close>

abbreviation mockLog :: logger where
  "mockLog \<equiv> Supplied 0"

text \<open>The construction every test performs (e.g. lines 74-81): a supplied log function, a
  provider that returns the fixture, and the two options.\<close>

definition testScheduler :: "string list \<Rightarrow> bool \<Rightarrow> sls_functions \<Rightarrow> OfflineScheduler" where
  "testScheduler skip immediately fs =
     newOfflineScheduler
       \<lparr>config_log = Some mockLog,
        config_functionProvider = (\<lambda>_. fs),
        config_configOptions = \<lparr>skipFunctions = Some skip, runImmediately = immediately\<rparr>\<rparr>"

text \<open>Lines 109-111: the invoker mocked to return.\<close>

definition mockInvoker :: invoker where
  "mockInvoker n fname inp = None"

text \<open>Further inputs: an invoker that throws on every call; a function with an event
  of another kind and a schedule whose payload is \<^verbatim>\<open>0\<close>; a function whose rate is an empty
  array; a function whose schedule is a calendar expression.\<close>

definition failingInvoker :: invoker where
  "failingInvoker n fname inp = Some ''Error: boom''"

definition falsyPayloadFunction :: sls_functions where
  "falsyPayloadFunction =
     [(''counter'',
       \<lparr>handler = ''src/functions/counter.handler'',
        events =
          [OtherEvent ''http'',
           ScheduleEvent \<lparr>rate = OneRate ''rate(3 days)'', schedule_input = Some (JNumber 0)\<rparr>],
        fn_name = ''my-service-dev-counter''\<rparr>)]"

definition emptyRatesFunction :: sls_functions where
  "emptyRatesFunction =
     [(''schedule-function'',
       \<lparr>handler = ''src/functions/schedule-function.handler'',
        events = [ScheduleEvent \<lparr>rate = ManyRates [], schedule_input = None\<rparr>],
        fn_name = ''my-service-dev-schedule-function''\<rparr>)]"

definition calendarFunction :: sls_functions where
  "calendarFunction =
     [(''nightly'',
       \<lparr>handler = ''src/functions/nightly.handler'',
        events =
          [ScheduleEvent \<lparr>rate = OneRate ''cron(0 12 * * ? *)'', schedule_input = None\<rparr>],
        fn_name = ''my-service-dev-nightly''\<rparr>)]"

text \<open>A service in which one function has its schedule written as a string
  (\<^verbatim>\<open>- schedule: rate(1 minute)\<close>), after a function with a schedule object.\<close>

definition reportFunction :: sls_function where
  "reportFunction =
     \<lparr>handler = ''src/functions/report.handler'',
      events = [ScheduleEvent \<lparr>rate = NoRate, schedule_input = None\<rparr>],
      fn_name = ''my-service-dev-report''\<rparr>"

definition stringScheduleFunction :: sls_functions where
  "stringScheduleFunction = scheduleFunction @ [(''report'', reportFunction)]"

text \<open>The payload of the fixture as \<^verbatim>\<open>JSON.stringify\<close> prints it, the notice the tests
  expect at lines 85 and 123, and the timer of the fixture.\<close>

definition fixturePayload :: string where
  "fixturePayload =
     ''{'' @ [CHR 0x22] @ ''scheduler'' @ [CHR 0x22] @ '':'' @ [CHR 0x22] @ ''1-minute''
       @ [CHR 0x22] @ ''}''"

definition fixtureNotice :: string where
  "fixtureNotice = ''Scheduling [schedule-function] cron: [*/1 * * * *] input: '' @ fixturePayload"

definition fixtureJob :: job where
  "fixtureJob =
     \<lparr>jobSchedule = ''*/1 * * * *'', jobLogger = mockLog,
      jobFunction = ''schedule-function'',
      jobInput = JObject [(''scheduler'', JString ''1-minute'')]\<rparr>"

text \<open>The world after the start of the test at line 71, with one timer registered.\<close>

definition startedWorld :: world where
  "startedWorld = snd (scheduleEvents mockInvoker (testScheduler [] False scheduleFunction) initialWorld)"

text \<open>The world after the standalone start of the test at line 152.\<close>

definition standaloneWorld :: world where
  "standaloneWorld =
     snd (scheduleEventsStandalone mockInvoker (testScheduler [] False scheduleFunction) initialWorld)"

text \<open>A standalone start on the fixture with two rates, with immediate runs and an
  invoker that throws at its second call: the first timer is registered, the second
  immediate run throws, and no handler is installed.\<close>

definition failingSecondInvoker :: invoker where
  "failingSecondInvoker n fname inp = (if n = 1 then Some ''Error: boom'' else None)"

definition halfStartedWorld :: world where
  "halfStartedWorld =
     snd (scheduleEventsStandalone failingSecondInvoker (testScheduler [] True twoRatesFunction)
       initialWorld)"

text \<open>A minute of the first of January, a Monday.\<close>

definition instantAt :: "nat \<Rightarrow> nat \<Rightarrow> instant" where
  "instantAt h m = \<lparr>minute = m, hour = h, dayOfMonth = 1, month = 1, dayOfWeek = 1\<rparr>"

section \<open>Evaluation of the fixtures\<close>

lemma resolved_scheduleFunction:
  "resolved scheduleFunction =
     [\<lparr>input = JObject [(''scheduler'', JString ''1-minute'')],
       functionName = ''schedule-function'', cron = [''*/1 * * * *'']\<rparr>]"
  by code_simp

lemma testScheduler_fields [simp]:
  "log (testScheduler skip immediately fs) = mockLog"
  "functionProvider (testScheduler skip immediately fs) = (\<lambda>_. fs)"
  "skipFunctions (configOptions (testScheduler skip immediately fs)) = Some skip"
  "runImmediately (configOptions (testScheduler skip immediately fs)) = immediately"
  by (simp_all add: testScheduler_def newOfflineScheduler_def)

lemma convertible_scheduleFunction: "list_all convertible (allExpressions scheduleFunction)"
  by code_simp

lemma getFunctionConfigurations_scheduleFunction:
  "getFunctionConfigurations (functionProvider (testScheduler skip immediately scheduleFunction))
     = Inr (resolved scheduleFunction)"
  using getFunctionConfigurations_convertible [of "\<lambda>_. scheduleFunction"]
  by (simp add: convertible_scheduleFunction)

section \<open>Witnesses\<close>

lemma getFunctionConfigurations_twoRates:
  "getFunctionConfigurations (\<lambda>_. getUserFunction @ twoRatesFunction)
     = Inr [\<lparr>input = JObject [(''scheduler'', JString ''1-minute'')],
             functionName = ''schedule-function'', cron = [''*/1 * * * *'', ''*/2 * * * *'']\<rparr>]"
  by code_simp

theorem resolved_schedules_in_order_witness:
  "concat (map cron [\<lparr>input = JObject [(''scheduler'', JString ''1-minute'')],
       functionName = ''schedule-function'', cron = [''*/1 * * * *'', ''*/2 * * * *'']\<rparr>])
     = map cronOfExpression (allExpressions (getUserFunction @ twoRatesFunction))
   \<and> map functionName [\<lparr>input = JObject [(''scheduler'', JString ''1-minute'')],
       functionName = ''schedule-function'', cron = [''*/1 * * * *'', ''*/2 * * * *'']\<rparr>]
     = concat (map (\<lambda>kf. replicate (length (scheduleEventsOf (events (snd kf)))) (fst kf))
         (getUserFunction @ twoRatesFunction))"
  by (rule resolved_schedules_in_order [OF getFunctionConfigurations_twoRates])

theorem eventConfiguration_rates_witness:
  "\<exists>cs. eventConfiguration ''schedule-function''
       \<lparr>rate = ManyRates [''rate(1 minute)'', ''rate(2 hours)''], schedule_input = None\<rparr>
       = Inr \<lparr>input = emptyObject, functionName = ''schedule-function'', cron = cs\<rparr>
     \<and> list_all2 (\<lambda>(n, w) c. splitOn CHR '' '' c
           = (replicate 5 ''*'')[fieldIndex (the (parseUnit w)) := stepField n])
         [(1, ''minute''), (2, ''hours'')] cs"
proof -
  let ?s = "\<lparr>rate = ManyRates [''rate(1 minute)'', ''rate(2 hours)''], schedule_input = None\<rparr>"
  have rates: "rateArray (rate ?s)
      = map (\<lambda>(n, w). Some (rateExpression n w)) [(1, ''minute''), (2, ''hours'')]"
    by code_simp
  have units: "list_all (\<lambda>(n, w). parseUnit w \<noteq> None) [(1::nat, ''minute''), (2, ''hours'')]"
    by simp
  from eventConfiguration_rates [OF rates units, of "''schedule-function''"]
  show ?thesis by simp
qed

theorem getFunctionConfigurations_payload_witness:
  "map input [\<lparr>input = emptyObject, functionName = ''counter'', cron = [''* * */3 * *'']\<rparr>]
     = map (orEmptyObject \<circ> schedule_input)
         (concat (map (scheduleEventsOf \<circ> events \<circ> snd) falsyPayloadFunction))
   \<and> list_all (\<lambda>fc. truthy (input fc))
         [\<lparr>input = emptyObject, functionName = ''counter'', cron = [''* * */3 * *'']\<rparr>]"
proof -
  have "getFunctionConfigurations (\<lambda>_. falsyPayloadFunction)
      = Inr [\<lparr>input = emptyObject, functionName = ''counter'', cron = [''* * */3 * *'']\<rparr>]"
    by code_simp
  then show ?thesis by (rule getFunctionConfigurations_payload)
qed

lemma nothing_to_schedule:
  "getFunctionConfigurations (\<lambda>_. getUserFunction) = Inr []
   \<and> getFunctionConfigurations (\<lambda>_. falsyPayloadFunction) \<noteq> Inr []"
  using getFunctionConfigurations_Nil_iff [of "\<lambda>_. getUserFunction"]
    getFunctionConfigurations_Nil_iff [of "\<lambda>_. falsyPayloadFunction"]
  by (simp add: getUserFunction_def falsyPayloadFunction_def)

theorem scheduleEvents_without_immediate_witness:
  "scheduleEvents mockInvoker (testScheduler [] False scheduleFunction) initialWorld
     = (None, emit [Logged mockLog fixtureNotice, Scheduled fixtureJob] initialWorld)
   \<and> jobs (snd (scheduleEvents mockInvoker (testScheduler [] False scheduleFunction) initialWorld))
     = [fixtureJob]
   \<and> invocations (snd (scheduleEvents mockInvoker (testScheduler [] False scheduleFunction)
        initialWorld)) = []"
proof -
  let ?s = "testScheduler [] False scheduleFunction"
  have off: "\<not> runImmediately (configOptions ?s)"
    by simp
  have plan: "plannedEffects ?s (resolved scheduleFunction)
      = [Logged mockLog fixtureNotice, Scheduled fixtureJob]"
    by code_simp
  have timers: "plannedJobs ?s (resolved scheduleFunction) = [fixtureJob]"
    by code_simp
  have start: "jobs initialWorld = [] \<and> invocations initialWorld = []"
    by code_simp
  from scheduleEvents_without_immediate
    [OF off getFunctionConfigurations_scheduleFunction, of mockInvoker initialWorld]
  show ?thesis by (simp add: plan timers start)
qed

theorem scheduleEvents_skipped_never_registered_witness:
  "fixtureJob \<in> set (jobs (snd (scheduleEvents mockInvoker
       (testScheduler [''get-user''] True scheduleFunction) initialWorld)))
   \<and> \<not> skipped (testScheduler [''get-user''] True scheduleFunction) (jobFunction fixtureJob)"
proof -
  let ?s = "testScheduler [''get-user''] True scheduleFunction"
  have registered: "fixtureJob \<in> set (jobs (snd (scheduleEvents mockInvoker ?s initialWorld)))"
    by code_simp
  have "fixtureJob \<notin> set (jobs initialWorld)"
    by code_simp
  with scheduleEvents_skipped_never_registered [OF registered] registered show ?thesis
    by simp
qed

text \<open>The skip list does not help: the function with the calendar expression is
  skipped, the function before it is fine, and the start fails all the same.\<close>

lemma skipped_function_still_validated:
  "scheduleEvents mockInvoker (testScheduler [''nightly''] False (scheduleFunction @ calendarFunction))
     initialWorld
     = (Some (InvalidExpression ''cron(0 12 * * ? *)''), initialWorld)"
  by code_simp

theorem scheduleEvents_immediate_failure_witness:
  "runImmediately (configOptions (testScheduler [] True scheduleFunction)) \<and>
   (\<exists>err registered missing.
      InvocationError ''Error: boom'' = InvocationError err
      \<and> plannedJobs (testScheduler [] True scheduleFunction) (resolved scheduleFunction)
          = registered @ missing
      \<and> missing \<noteq> []
      \<and> jobs (snd (scheduleEvents failingInvoker (testScheduler [] True scheduleFunction)
            initialWorld)) = jobs initialWorld @ registered
      \<and> last (invocations (snd (scheduleEvents failingInvoker
            (testScheduler [] True scheduleFunction) initialWorld)))
          = (jobFunction (hd missing), jobInput (hd missing)))"
proof -
  have thrown: "fst (scheduleEvents failingInvoker (testScheduler [] True scheduleFunction)
      initialWorld) = Some (InvocationError ''Error: boom'')"
    by code_simp
  show ?thesis
    by (rule scheduleEvents_immediate_failure
        [OF getFunctionConfigurations_scheduleFunction thrown])
qed

text \<open>The failing start-up in full: the exception, and no timer at all.\<close>

lemma immediate_failure_run:
  "scheduleEvents failingInvoker (testScheduler [] True scheduleFunction) initialWorld
     = (Some (InvocationError ''Error: boom''),
        emit [Logged mockLog fixtureNotice,
              Logged mockLog ''Running scheduled function immediately [schedule-function]'',
              Invoked ''schedule-function'' (JObject [(''scheduler'', JString ''1-minute'')])]
          initialWorld)"
  by code_simp

theorem scheduleEvents_immediate_runs_witness:
  "snd (scheduleEvents mockInvoker (testScheduler [] True scheduleFunction) initialWorld)
     = emit [Logged mockLog fixtureNotice,
             Logged mockLog ''Running scheduled function immediately [schedule-function]'',
             Invoked ''schedule-function'' (JObject [(''scheduler'', JString ''1-minute'')]),
             Scheduled fixtureJob] initialWorld
   \<and> immediatePlan (plannedEffects (testScheduler [] True scheduleFunction)
         (resolved scheduleFunction))
   \<and> invocations (snd (scheduleEvents mockInvoker (testScheduler [] True scheduleFunction)
         initialWorld))
       = [(''schedule-function'', JObject [(''scheduler'', JString ''1-minute'')])]
   \<and> jobs (snd (scheduleEvents mockInvoker (testScheduler [] True scheduleFunction)
         initialWorld)) = [fixtureJob]"
proof -
  let ?s = "testScheduler [] True scheduleFunction"
  have on: "runImmediately (configOptions ?s)" by simp
  have returns: "fst (scheduleEvents mockInvoker ?s initialWorld) = None"
    by code_simp
  have plan: "plannedEffects ?s (resolved scheduleFunction)
      = [Logged mockLog fixtureNotice,
         Logged mockLog ''Running scheduled function immediately [schedule-function]'',
         Invoked ''schedule-function'' (JObject [(''scheduler'', JString ''1-minute'')]),
         Scheduled fixtureJob]"
    by code_simp
  have timers: "plannedJobs ?s (resolved scheduleFunction) = [fixtureJob]"
    by code_simp
  have start: "jobs initialWorld = [] \<and> invocations initialWorld = []"
    by code_simp
  from scheduleEvents_immediate_runs
    [OF on getFunctionConfigurations_scheduleFunction returns]
  show ?thesis
    unfolding plan timers by (simp add: start fixtureJob_def)
qed

theorem scheduleEvents_returns_iff_witness:
  "fst (scheduleEvents failingInvoker (testScheduler [] True scheduleFunction) initialWorld) \<noteq> None
   \<and> fst (scheduleEvents failingInvoker (testScheduler [] False scheduleFunction) initialWorld)
       = None"
proof -
  have timers: "plannedJobs (testScheduler [] b scheduleFunction) (resolved scheduleFunction)
      = [fixtureJob]" for b
    by (cases b) (simp_all, code_simp+)
  show ?thesis
    using scheduleEvents_returns_iff [of failingInvoker "testScheduler [] True scheduleFunction"
        initialWorld]
      scheduleEvents_returns_iff [of failingInvoker "testScheduler [] False scheduleFunction"
        initialWorld]
    by (simp add: getFunctionConfigurations_scheduleFunction [unfolded testScheduler_fields]
        timers failingInvoker_def)
qed

theorem scheduleEvents_notices_witness:
  "notices mockLog
     (snd (scheduleEvents mockInvoker (testScheduler [] True scheduleFunction) initialWorld))
     = [fixtureNotice, ''Running scheduled function immediately [schedule-function]'']"
proof -
  let ?s = "testScheduler [] True scheduleFunction"
  have returns: "fst (scheduleEvents mockInvoker ?s initialWorld) = None"
    by code_simp
  have "notices mockLog initialWorld
      @ (if mockLog = log ?s then concat (map (configurationNotices ?s) (resolved scheduleFunction))
         else [])
      = [fixtureNotice, ''Running scheduled function immediately [schedule-function]'']"
    by code_simp
  with scheduleEvents_notices [OF getFunctionConfigurations_scheduleFunction returns, of mockLog]
  show ?thesis by simp
qed

section \<open>The running process\<close>

lemma startedWorld_fields:
  "jobs startedWorld = [fixtureJob]" "exitCode startedWorld = None" "listeners startedWorld = []"
  by code_simp+

lemma reachable_after_two_failures:
  "reachableBy failingInvoker startedWorld (fireAll failingInvoker [fixtureJob, fixtureJob] startedWorld)"
  by (rule reachableBy_fireAll) (simp_all add: startedWorld_fields)

theorem reachableBy_timers_kept_witness:
  "jobs (fireAll failingInvoker [fixtureJob, fixtureJob] startedWorld) = jobs startedWorld
   \<and> listeners (fireAll failingInvoker [fixtureJob, fixtureJob] startedWorld)
       = listeners startedWorld
   \<and> exitCode (fireAll failingInvoker [fixtureJob, fixtureJob] startedWorld)
       = exitCode startedWorld"
  by (rule reachableBy_timers_kept [OF reachable_after_two_failures])

theorem reachableBy_invocations_witness:
  "\<exists>js. set js \<subseteq> set (jobs startedWorld)
     \<and> invocations (fireAll failingInvoker [fixtureJob, fixtureJob] startedWorld)
         = invocations startedWorld @ map (\<lambda>j. (jobFunction j, jobInput j)) js
     \<and> length (trace (fireAll failingInvoker [fixtureJob, fixtureJob] startedWorld))
         = length (trace startedWorld) + 2 * length js"
  by (rule reachableBy_invocations [OF reachable_after_two_failures])

text \<open>The notices of the two failed firings, as line 62 prints them.\<close>

lemma two_failures_notices:
  "notices mockLog (fireAll failingInvoker [fixtureJob, fixtureJob] startedWorld)
     = [fixtureNotice,
        ''Failed to execute scheduled function: [schedule-function] Error: Error: boom'',
        ''Failed to execute scheduled function: [schedule-function] Error: Error: boom'']"
  by code_simp

section \<open>Standalone mode\<close>

lemma standalone_returns:
  "fst (scheduleEventsStandalone mockInvoker (testScheduler [] False scheduleFunction) initialWorld)
     = None"
  by code_simp

lemma standaloneWorld_fields:
  "jobs standaloneWorld = [fixtureJob]" "exitCode standaloneWorld = None"
  "listeners standaloneWorld = [(SIGINT, mockLog), (SIGTERM, mockLog)]"
  by code_simp+

lemma standalone_fired:
  "processRun mockInvoker standaloneWorld [TimerFires fixtureJob]
     (jobCallback mockInvoker fixtureJob standaloneWorld)"
  unfolding processRun_iff_runOf by code_simp

lemma standalone_run:
  "processRun mockInvoker standaloneWorld [TimerFires fixtureJob, SignalArrives SIGTERM]
     (terminate mockLog SIGTERM (jobCallback mockInvoker fixtureJob standaloneWorld))"
  unfolding processRun_iff_runOf by code_simp

theorem signal_terminates_witness:
  "processStep mockInvoker (jobCallback mockInvoker fixtureJob standaloneWorld)
     (SignalArrives SIGINT)
     (terminate mockLog SIGINT (jobCallback mockInvoker fixtureJob standaloneWorld))
   \<and> exitCode (terminate mockLog SIGINT (jobCallback mockInvoker fixtureJob standaloneWorld))
       = Some 0
   \<and> trace (terminate mockLog SIGINT (jobCallback mockInvoker fixtureJob standaloneWorld))
       = trace (jobCallback mockInvoker fixtureJob standaloneWorld)
         @ [Logged mockLog ''Got SIGINT signal. Stopping serverless-offline-scheduleer...'']"
proof -
  have "listeners initialWorld = []" "exitCode initialWorld = None"
    by (simp_all add: initialWorld_def)
  from signal_terminates [OF standalone_returns this
      standalone_fired [unfolded standaloneWorld_def], of SIGINT]
  show ?thesis by (simp add: standaloneWorld_def [symmetric] standaloneWorld_fields shutdownMessage_def)
qed

theorem processRun_canonical_witness:
  "length (filter isSignal [TimerFires fixtureJob, SignalArrives SIGTERM]) \<le> 1
   \<and> list_all (\<lambda>ev. \<not> isSignal ev) (butlast [TimerFires fixtureJob, SignalArrives SIGTERM])
   \<and> exitCode (terminate mockLog SIGTERM (jobCallback mockInvoker fixtureJob standaloneWorld))
       = Some 0
   \<and> jobs (terminate mockLog SIGTERM (jobCallback mockInvoker fixtureJob standaloneWorld))
       = jobs standaloneWorld"
  using processRun_canonical [OF standalone_run] by (simp add: standaloneWorld_fields)

lemma halfStartedWorld_fields:
  "jobs halfStartedWorld = [fixtureJob]" "listeners halfStartedWorld = []"
  "exitCode halfStartedWorld = None"
  "fst (scheduleEventsStandalone failingSecondInvoker (testScheduler [] True twoRatesFunction)
     initialWorld) = Some (InvocationError ''Error: boom'')"
  by code_simp+

theorem failed_standalone_start_witness:
  "exitCode (jobCallback failingSecondInvoker fixtureJob halfStartedWorld) = None
   \<and> list_all (\<lambda>ev. \<not> isSignal ev) [TimerFires fixtureJob]
   \<and> (\<nexists>s w'. processStep failingSecondInvoker
         (jobCallback failingSecondInvoker fixtureJob halfStartedWorld) (SignalArrives s) w')
   \<and> list_all (\<lambda>j. processStep failingSecondInvoker
         (jobCallback failingSecondInvoker fixtureJob halfStartedWorld) (TimerFires j)
         (jobCallback failingSecondInvoker j
            (jobCallback failingSecondInvoker fixtureJob halfStartedWorld)))
       (jobs halfStartedWorld)"
proof -
  have "processRun failingSecondInvoker halfStartedWorld [TimerFires fixtureJob]
      (jobCallback failingSecondInvoker fixtureJob halfStartedWorld)"
    unfolding processRun_iff_runOf by code_simp
  moreover have "listeners initialWorld = []" "exitCode initialWorld = None"
    by (simp_all add: initialWorld_def)
  ultimately show ?thesis
    unfolding halfStartedWorld_def
    by (intro failed_standalone_start) (simp_all add: halfStartedWorld_fields(4))
qed

section \<open>The system and the clock\<close>

lemma standalone_systemRun:
  "systemRun mockInvoker initialWorld
     [StartStandalone (testScheduler [] False scheduleFunction),
      Occurs (TimerFires fixtureJob), Occurs (SignalArrives SIGTERM)]
     (terminate mockLog SIGTERM (jobCallback mockInvoker fixtureJob standaloneWorld))"
  unfolding systemRun_iff_runOf by code_simp

theorem skipped_never_invoked_witness:
  "''counter'' \<notin> jobFunction ` set (jobs
      (terminate mockLog SIGTERM (jobCallback mockInvoker fixtureJob
        (snd (scheduleEventsStandalone mockInvoker
          (testScheduler [''counter''] True (falsyPayloadFunction @ scheduleFunction))
          initialWorld)))))
   \<and> (\<exists>more. invocations
      (terminate mockLog SIGTERM (jobCallback mockInvoker fixtureJob
        (snd (scheduleEventsStandalone mockInvoker
          (testScheduler [''counter''] True (falsyPayloadFunction @ scheduleFunction))
          initialWorld))))
       = invocations initialWorld @ more \<and> ''counter'' \<notin> fst ` set more)"
proof -
  let ?s = "testScheduler [''counter''] True (falsyPayloadFunction @ scheduleFunction)"
  let ?as = "[StartStandalone ?s, Occurs (TimerFires fixtureJob), Occurs (SignalArrives SIGTERM)]"
  have "systemRun mockInvoker initialWorld ?as
      (terminate mockLog SIGTERM (jobCallback mockInvoker fixtureJob
        (snd (scheduleEventsStandalone mockInvoker ?s initialWorld))))"
    unfolding systemRun_iff_runOf by code_simp
  moreover have "list_all (skips ''counter'') ?as"
    "''counter'' \<notin> jobFunction ` set (jobs initialWorld)"
    by code_simp+
  ultimately show ?thesis by (rule skipped_never_invoked)
qed

text \<open>The invocations of that session: the immediate run and the firing, both of the
  function that is not skipped.\<close>

lemma skipped_session_invocations:
  "invocations
      (terminate mockLog SIGTERM (jobCallback mockInvoker fixtureJob
        (snd (scheduleEventsStandalone mockInvoker
          (testScheduler [''counter''] True (falsyPayloadFunction @ scheduleFunction))
          initialWorld))))
     = [(''schedule-function'', JObject [(''scheduler'', JString ''1-minute'')]),
        (''schedule-function'', JObject [(''scheduler'', JString ''1-minute'')])]"
  by code_simp

theorem notices_isolated_witness:
  "notices (Supplied 1)
      (terminate mockLog SIGTERM (jobCallback mockInvoker fixtureJob standaloneWorld))
     = notices (Supplied 1) initialWorld
   \<and> unknownTo (Supplied 1)
      (terminate mockLog SIGTERM (jobCallback mockInvoker fixtureJob standaloneWorld))"
proof -
  have "list_all (\<lambda>a. \<not> logsTo (Supplied 1) a)
      [StartStandalone (testScheduler [] False scheduleFunction),
       Occurs (TimerFires fixtureJob), Occurs (SignalArrives SIGTERM)]"
    "unknownTo (Supplied 1) initialWorld"
    by code_simp+
  with standalone_systemRun show ?thesis by (rule notices_isolated)
qed

text \<open>Two schedulers with two log functions in one process: the second is started
  standalone, a timer of each fires, and the signal is reported to the log function of
  the scheduler that installed the handlers.\<close>

lemma two_log_functions:
  "map_option (\<lambda>w. (notices (Supplied 1) w, notices mockLog w, notices Console w))
     (runOf mockInvoker
        [Start ((testScheduler [] False scheduleFunction)\<lparr>log := Supplied 1\<rparr>),
         StartStandalone (testScheduler [] False scheduleFunction),
         Occurs (TimerFires (fixtureJob\<lparr>jobLogger := Supplied 1\<rparr>)),
         Occurs (TimerFires fixtureJob),
         Occurs (SignalArrives SIGINT)] initialWorld)
     = Some
        ([fixtureNotice, ''Succesfully invoked scheduled function: [schedule-function]''],
         [standaloneBanner, fixtureNotice,
          ''Succesfully invoked scheduled function: [schedule-function]'',
          ''Got SIGINT signal. Stopping serverless-offline-scheduleer...''],
         [])"
  by code_simp

theorem invoked_payloads_truthy_witness:
  "\<exists>more. invocations (snd (scheduleEvents mockInvoker
        (testScheduler [] True falsyPayloadFunction) initialWorld))
       = invocations initialWorld @ more
     \<and> list_all (\<lambda>x. truthy (snd x)) more"
proof -
  have "systemRun mockInvoker initialWorld [Start (testScheduler [] True falsyPayloadFunction)]
      (snd (scheduleEvents mockInvoker (testScheduler [] True falsyPayloadFunction) initialWorld))"
    unfolding systemRun_iff_runOf by code_simp
  then show ?thesis using wf_world_initialWorld by (rule invoked_payloads_truthy)
qed

text \<open>The immediate run of that start: the payload \<^verbatim>\<open>0\<close> of the event has become the empty
  object.\<close>

lemma falsy_payload_invocation:
  "invocations (snd (scheduleEvents mockInvoker
      (testScheduler [] True falsyPayloadFunction) initialWorld))
     = [(''counter'', emptyObject)]"
  by code_simp

theorem systemRun_wf_witness:
  "wf_world (terminate mockLog SIGTERM (jobCallback mockInvoker fixtureJob standaloneWorld))"
  by (rule systemRun_wf [OF standalone_systemRun wf_world_initialWorld])

theorem systemRun_phases_witness:
  "phaseRun (phaseOf initialWorld)
     [StartStandalone (testScheduler [] False scheduleFunction),
      Occurs (TimerFires fixtureJob), Occurs (SignalArrives SIGTERM)]
     (phaseOf (terminate mockLog SIGTERM (jobCallback mockInvoker fixtureJob standaloneWorld)))
   \<and> phaseOf initialWorld
       \<le> phaseOf (terminate mockLog SIGTERM (jobCallback mockInvoker fixtureJob standaloneWorld))
   \<and> phaseOf (terminate mockLog SIGTERM (jobCallback mockInvoker fixtureJob standaloneWorld))
       = Exited
   \<and> phaseOf initialWorld \<noteq> Exited
   \<and> (\<exists>bs s. [StartStandalone (testScheduler [] False scheduleFunction),
          Occurs (TimerFires fixtureJob), Occurs (SignalArrives SIGTERM)]
         = bs @ [Occurs (SignalArrives s)]
        \<and> phaseRun (phaseOf initialWorld) bs Running)"
proof -
  have "phaseOf (terminate mockLog SIGTERM (jobCallback mockInvoker fixtureJob standaloneWorld))
      = Exited" "phaseOf initialWorld \<noteq> Exited"
    by (simp_all add: phaseOf_def initialWorld_def)
  with systemRun_phases [OF standalone_systemRun] show ?thesis
    by blast
qed

theorem coarse_rate_fires_every_minute_witness:
  "\<exists>fc c. eventConfiguration ''report''
       \<lparr>rate = OneRate (rateExpression 2 ''hours''), schedule_input = None\<rparr> = Inr fc
     \<and> cron fc = [c]
     \<and> length (filter (due c) (minutesOfHour (instantAt 4 0)))
         = (if rateDue 2 Hour (instantAt 4 0) then 60 else 0)"
  by (rule coarse_rate_fires_every_minute [where w = "''hours''"]) simp_all

theorem minute_rate_interval_witness:
  "\<exists>fc c. eventConfiguration ''report''
       \<lparr>rate = OneRate (rateExpression 45 ''minutes''), schedule_input = None\<rparr> = Inr fc
     \<and> cron fc = [c]
     \<and> (list_all (\<lambda>m. due c (minuteOfDay (instantAt 0 0) m) = everyMinutes 45 m) [0..<1440]
          \<longleftrightarrow> (45::nat) = 0 \<or> (45::nat) dvd 60)"
  by (rule minute_rate_interval [where w = "''minutes''"]) simp_all

text \<open>\<^verbatim>\<open>rate(45 minutes)\<close> over the first two hours of a day: due at 0:00, 0:45, 1:00 and
  1:45, where an interval of 45 minutes is over at 0:00, 0:45, 1:30.\<close>

lemma rate_45_minutes:
  "filter (\<lambda>m. due ''*/45 * * * *'' (minuteOfDay (instantAt 0 0) m)) [0..<120] = [0, 45, 60, 105]"
  "filter (everyMinutes 45) [0..<120] = [0, 45, 90]"
  by code_simp+

text \<open>The expressions of the last two witnesses as they are written in a service
  definition, and what the clock makes of them.\<close>

lemma rateExpression_examples:
  "rateExpression 90 ''minutes'' = ''rate(90 minutes)''"
  "rateExpression 2 ''hours'' = ''rate(2 hours)''"
  "rateExpression 0 ''minutes'' = ''rate(0 minutes)''"
  by code_simp+

lemma rate_examples_due:
  "due ''*/90 * * * *'' (instantAt 1 0)" "\<not> due ''*/90 * * * *'' (instantAt 1 30)"
  "list_all (due ''* */2 * * *'') (minutesOfHour (instantAt 4 0))"
  "\<not> list_ex (due ''* */2 * * *'') (minutesOfHour (instantAt 5 0))"
  "\<not> list_ex (due ''*/0 * * * *'') (minutesOfHour (instantAt 0 0))"
  by code_simp+

section \<open>From the start to the invocations of the clock\<close>

theorem start_then_clock_witness:
  "invocations (clockRun mockInvoker [instantAt 0 1, instantAt 0 2]
      (snd (scheduleEvents mockInvoker
         (testScheduler [''get-user''] True (getUserFunction @ twoRatesFunction)) initialWorld)))
   = invocations initialWorld
     @ (if runImmediately
            (configOptions (testScheduler [''get-user''] True (getUserFunction @ twoRatesFunction)))
        then map (\<lambda>j. (jobFunction j, jobInput j))
          (plannedJobs (testScheduler [''get-user''] True (getUserFunction @ twoRatesFunction))
             (resolved (getUserFunction @ twoRatesFunction)))
        else [])
     @ concat (map (dueInvocations
          (testScheduler [''get-user''] True (getUserFunction @ twoRatesFunction))
          (resolved (getUserFunction @ twoRatesFunction))) [instantAt 0 1, instantAt 0 2])"
  by (rule start_then_clock) code_simp+

text \<open>The same run spelled out: two immediate invocations, one invocation at the first
  minute and two at the second.\<close>

lemma start_then_clock_invocations:
  "invocations (clockRun mockInvoker [instantAt 0 1, instantAt 0 2]
      (snd (scheduleEvents mockInvoker
         (testScheduler [''get-user''] True (getUserFunction @ twoRatesFunction)) initialWorld)))
   = replicate 5 (''schedule-function'', JObject [(''scheduler'', JString ''1-minute'')])"
  by code_simp

section \<open>A schedule without a rate\<close>

text \<open>The function with the string schedule is on the skip list, and the start fails all
  the same: the function before it is not scheduled either. The exception named here
  rests on the assumption of theory \<open>Function_Config\<close> about the normalizer's answer to
  \<^verbatim>\<open>undefined\<close>.\<close>

lemma string_schedule_start:
  "scheduleEvents mockInvoker (testScheduler [''report''] False stringScheduleFunction) initialWorld
     = (Some (InvalidExpression ''undefined''), initialWorld)"
  by code_simp

section \<open>Payload text\<close>

text \<open>The payload text the tests expect in the notice reads back as the payload of the
  fixture.\<close>

lemma readJSON_fixturePayload:
  "readJSON fixturePayload = Some (JObject [(''scheduler'', JString ''1-minute'')])"
  by code_simp

text \<open>Texts \<^verbatim>\<open>JSON.parse\<close> refuses: a trailing comma, a zero in front of a digit, white
  space, an unescaped line feed inside a string, text after the value.\<close>

lemma readJSON_refuses:
  "readJSON ''[1,]'' = None" "readJSON ''01'' = None" "readJSON ''[1, 2]'' = None"
  "readJSON [CHR 0x22, CHR 0x0A, CHR 0x22] = None" "readJSON ''nulll'' = None"
  by code_simp+

end
