(* ===== verification/Test_Suite.thy ===== *)
theory Test_Suite
  imports Scenarios
begin

text \<open>
  The test suite \<^verbatim>\<open>src/tests/scheduler.spec.ts\<close>: its seven test cases as definitions, and
  the theorem that each of them passes on the model. A test case constructs a scheduler
  over a fixture of theory \<open>Scenarios\<close>, calls \<^verbatim>\<open>scheduleEvents\<close> or
  \<^verbatim>\<open>scheduleEventsStandalone\<close> once in a fresh process, and states expectations on mock
  functions. A mock function records its calls: the calls of the mocked \<^verbatim>\<open>log\<close> are the
  notices of the supplied log function, the calls seen by the spy on
  \<^verbatim>\<open>schedule.scheduleJob\<close> are the registered timers, and the calls of the mocked
  \<^verbatim>\<open>slsInvokeFunction\<close> are the invocations. A test case passes if the call returns
  without an exception and every expectation holds.

  Only the test at line 106 mocks the invoker; the others leave \<^verbatim>\<open>slsInvokeFunction\<close> as it
  is, so they are stated for every invoker. \<^verbatim>\<open>beforeEach\<close> and \<^verbatim>\<open>jest.restoreAllMocks\<close>
  are the fresh fixture and the fresh world each case starts from.
\<close>

section \<open>Expectations on mock functions\<close>

text \<open>\<^verbatim>\<open>expect(mock).toBeCalledTimes(n)\<close>, \<^verbatim>\<open>expect(mock).toBeCalledWith(x)\<close> (some call had
  this argument) and \<^verbatim>\<open>expect(mock).nthCalledWith(n, x)\<close> (calls are counted from 1), over
  the list of the calls of a mock.\<close>

definition toBeCalledTimes :: "'a list \<Rightarrow> nat \<Rightarrow> bool" where
  "toBeCalledTimes calls n \<longleftrightarrow> length calls = n"

definition toBeCalledWith :: "'a list \<Rightarrow> 'a \<Rightarrow> bool" where
  "toBeCalledWith calls x \<longleftrightarrow> x \<in> set calls"

definition nthCalledWith :: "'a list \<Rightarrow> nat \<Rightarrow> 'a \<Rightarrow> bool" where
  "nthCalledWith calls n x \<longleftrightarrow> 0 < n \<and> n \<le> length calls \<and> calls ! (n - 1) = x"

text \<open>A test body: the call made, and the expectations on the world it leaves. An
  exception of the call fails the test.\<close>

definition passes :: "error option \<times> world \<Rightarrow> (world \<Rightarrow> bool) \<Rightarrow> bool" where
  "passes run expectations \<longleftrightarrow> fst run = None \<and> expectations (snd run)"

section \<open>The test cases\<close>

text \<open>Line 31, \<^verbatim>\<open>Should not schedule any jobs when no functions provided\<close>.\<close>

definition test_no_functions :: "invoker \<Rightarrow> bool" where
  "test_no_functions invoke =
     passes (scheduleEvents invoke (testScheduler [] False []) initialWorld)
       (\<lambda>w. toBeCalledTimes (notices mockLog w) 0)"

text \<open>Line 48, \<^verbatim>\<open>Should not schedule and jobs when function with no evets provided\<close>.\<close>

definition test_no_events :: "invoker \<Rightarrow> bool" where
  "test_no_events invoke =
     passes (scheduleEvents invoke (testScheduler [] False getUserFunction) initialWorld)
       (\<lambda>w. toBeCalledTimes (notices mockLog w) 0)"

text \<open>Line 71, \<^verbatim>\<open>Should schedule job when function with schedule provided\<close>.\<close>

definition test_schedule_job :: "invoker \<Rightarrow> bool" where
  "test_schedule_job invoke =
     passes (scheduleEvents invoke (testScheduler [] False scheduleFunction) initialWorld)
       (\<lambda>w. toBeCalledWith (notices mockLog w) fixtureNotice \<and> toBeCalledTimes (jobs w) 1)"

text \<open>Line 90, \<^verbatim>\<open>Should respect the "skipFunctions" option\<close>.\<close>

definition test_skip_functions :: "invoker \<Rightarrow> bool" where
  "test_skip_functions invoke =
     passes (scheduleEvents invoke (testScheduler [''schedule-function''] False scheduleFunction)
         initialWorld)
       (\<lambda>w. toBeCalledTimes (jobs w) 0)"

text \<open>Line 106, \<^verbatim>\<open>Should run the function immediately when "runImmediately" option is
  set\<close>, with the invoker mocked to return.\<close>

definition test_run_immediately :: bool where
  "test_run_immediately =
     passes (scheduleEvents mockInvoker (testScheduler [] True scheduleFunction) initialWorld)
       (\<lambda>w. toBeCalledWith (notices mockLog w) fixtureNotice
          \<and> toBeCalledTimes (invocations w) 1 \<and> toBeCalledTimes (jobs w) 1)"

text \<open>Line 129, \<^verbatim>\<open>Should schedule job with multiple schedules\<close>.\<close>

definition test_multiple :: "invoker \<Rightarrow> bool" where
  "test_multiple invoke =
     passes (scheduleEvents invoke (testScheduler [] False twoRatesFunction) initialWorld)
       (\<lambda>w. toBeCalledWith (notices mockLog w)
            (''Scheduling [schedule-function] cron: [*/1 * * * *,*/2 * * * *] input: ''
               @ fixturePayload)
          \<and> toBeCalledTimes (jobs w) 2)"

text \<open>Line 152, \<^verbatim>\<open>Should schedule job in standalone process when function with schedule
  provided\<close>.\<close>

definition test_standalone_process :: "invoker \<Rightarrow> bool" where
  "test_standalone_process invoke =
     passes (scheduleEventsStandalone invoke (testScheduler [] False scheduleFunction)
         initialWorld)
       (\<lambda>w. nthCalledWith (notices mockLog w) 1
            ''Starting serverless-offline-schedule in standalone process. Press CTRL+C to stop.''
          \<and> nthCalledWith (notices mockLog w) 2 fixtureNotice
          \<and> toBeCalledTimes (jobs w) 1)"

section \<open>Runs without immediate invocations do not depend on the invoker\<close>

lemma scheduleEvents_any_invoker:
  assumes "\<not> runImmediately (configOptions this)"
  shows "scheduleEvents invoke this w = scheduleEvents invoke' this w"
proof (cases "getFunctionConfigurations (functionProvider this)")
  case (Inl e)
  then show ?thesis by (simp add: scheduleEvents_def)
next
  case (Inr cs)
  from assms have "invocationsOf (plannedEffects this cs) = []"
    by (simp add: invocationsOf_plannedEffects)
  then show ?thesis
    by (simp add: scheduleEvents_runPlan [OF Inr] runPlan_no_invocations)
qed

lemma scheduleEventsStandalone_any_invoker:
  "\<not> runImmediately (configOptions this) \<Longrightarrow>
     scheduleEventsStandalone invoke this w = scheduleEventsStandalone invoke' this w"
  by (simp add: scheduleEventsStandalone_apply scheduleEvents_any_invoker [of this invoke _ invoke'])

section \<open>Every test case passes\<close>

lemma test_no_functions_passes: "test_no_functions invoke"
  unfolding test_no_functions_def
  by (subst scheduleEvents_any_invoker [where invoke' = mockInvoker], simp) code_simp

lemma test_no_events_passes: "test_no_events invoke"
  unfolding test_no_events_def
  by (subst scheduleEvents_any_invoker [where invoke' = mockInvoker], simp) code_simp

lemma test_schedule_job_passes: "test_schedule_job invoke"
  unfolding test_schedule_job_def
  by (subst scheduleEvents_any_invoker [where invoke' = mockInvoker], simp) code_simp

lemma test_skip_functions_passes: "test_skip_functions invoke"
  unfolding test_skip_functions_def
  by (subst scheduleEvents_any_invoker [where invoke' = mockInvoker], simp) code_simp

lemma test_run_immediately_passes: "test_run_immediately"
  by code_simp

lemma test_multiple_passes: "test_multiple invoke"
  unfolding test_multiple_def
  by (subst scheduleEvents_any_invoker [where invoke' = mockInvoker], simp) code_simp

lemma test_standalone_process_passes: "test_standalone_process invoke"
  unfolding test_standalone_process_def
  by (subst scheduleEventsStandalone_any_invoker [where invoke' = mockInvoker], simp) code_simp

text \<open>The seven cases together: a check of the model against the expectations of the
  test file, on the inputs the tests fix.\<close>

lemmas test_suite_passes =
  test_no_functions_passes test_no_events_passes test_schedule_job_passes
  test_skip_functions_passes test_run_immediately_passes test_multiple_passes
  test_standalone_process_passes

section \<open>What the runs of the test cases leave behind\<close>

text \<open>The worlds the test cases end in, beyond what their expectations ask for.\<close>

text \<open>The test cases at lines 31 and 48: with no function, or with a function that has
  no events, \<^verbatim>\<open>scheduleEvents\<close> returns with the log function never called and no timer
  registered.\<close>

lemma test_nothing_to_schedule:
  "scheduleEvents mockInvoker (testScheduler [] False []) initialWorld = (None, initialWorld)
   \<and> scheduleEvents mockInvoker (testScheduler [] False getUserFunction) initialWorld
       = (None, initialWorld)"
  by code_simp

text \<open>The test case at line 90: with the function on the skip list, \<^verbatim>\<open>scheduleJob\<close> is
  never called, the invoker is not called although it would be with \<^verbatim>\<open>runImmediately\<close>,
  and the only notice is the skip notice.\<close>

lemma test_skipFunctions:
  "jobs (snd (scheduleEvents mockInvoker
       (testScheduler [''schedule-function''] immediately scheduleFunction) initialWorld)) = []
   \<and> invocations (snd (scheduleEvents mockInvoker
       (testScheduler [''schedule-function''] immediately scheduleFunction) initialWorld)) = []
   \<and> notices mockLog (snd (scheduleEvents mockInvoker
       (testScheduler [''schedule-function''] immediately scheduleFunction) initialWorld))
     = [''Skipping scheduled function [schedule-function]'']"
proof (cases immediately)
  case True
  show ?thesis unfolding True by code_simp
next
  case False
  show ?thesis unfolding False by code_simp
qed

text \<open>The test case at line 129: a rate that is an array of two expressions gives one
  scheduling notice that lists both schedules separated by a comma, and two timers.\<close>

lemma test_multiple_schedules:
  "notices mockLog (snd (scheduleEvents mockInvoker (testScheduler [] False twoRatesFunction)
       initialWorld))
     = [''Scheduling [schedule-function] cron: [*/1 * * * *,*/2 * * * *] input: '' @ fixturePayload]
   \<and> map jobSchedule (jobs (snd (scheduleEvents mockInvoker
       (testScheduler [] False twoRatesFunction) initialWorld)))
     = [''*/1 * * * *'', ''*/2 * * * *'']"
  by code_simp

text \<open>The test case at line 152: in standalone mode the first notice is the banner, the
  second the scheduling notice and one timer is registered; once the start has completed,
  the handlers for \<^verbatim>\<open>SIGINT\<close> and \<^verbatim>\<open>SIGTERM\<close> are installed, in this order.\<close>

lemma test_standalone:
  "notices mockLog standaloneWorld
     = [''Starting serverless-offline-schedule in standalone process. Press CTRL+C to stop.'',
        fixtureNotice]
   \<and> jobs standaloneWorld = [fixtureJob]
   \<and> map fst (listeners standaloneWorld) = [SIGINT, SIGTERM]"
  by code_simp

end
