(* ===== verification/Spec2Isabelle.thy ===== *)
theory Spec2Isabelle
  imports Test_Suite
begin

text \<open>
  \<^bold>\<open>A verification of serverless-offline-schedule.\<close>

  The program is a local scheduler for serverless functions. Its one class,
  \<^verbatim>\<open>OfflineScheduler\<close> in \<^verbatim>\<open>src/src/scheduler.ts\<close>, reads the functions of a service from a
  provider, turns every schedule event into a task configuration
  (\<^verbatim>\<open>getFunctionConfigurations\<close>, lines 69-91), registers one recurring timer per schedule
  with the library \<^verbatim>\<open>node-schedule\<close> (\<^verbatim>\<open>scheduleEvents\<close>, lines 39-67), invokes the function
  through \<^verbatim>\<open>slsInvokeFunction\<close> whenever a timer fires (the callback of lines 57-64) and, in
  standalone mode, prints a banner and exits with status 0 on \<^verbatim>\<open>SIGINT\<close> or \<^verbatim>\<open>SIGTERM\<close>
  (\<^verbatim>\<open>scheduleEventsStandalone\<close> and \<^verbatim>\<open>listenForTermination\<close>, lines 34-37 and 93-108).
  \<^verbatim>\<open>src/tests/scheduler.spec.ts\<close> is its test suite.

  \<^bold>\<open>The theories\<close>, in import order, and the code each one models:

  \<^item> \<open>Sched_Prelude\<close>: what the components share. The result of a call that may throw is
    a value: \<open>error + 'a\<close> for a function, \<open>'e option \<times> 's\<close> for an action on a state
    (\<open>Some e\<close>: thrown with the state reached so far). \<open>forEach\<close> and \<open>mapE\<close> are
    \<^verbatim>\<open>Array.prototype.forEach\<close> and \<^verbatim>\<open>map\<close> with a callback that may throw, \<open>joinWith\<close> is
    \<^verbatim>\<open>join\<close>, and \<open>string_of_nat\<close>, \<open>nat_of_string\<close>, \<open>splitOn\<close> print and read the pieces
    of an expression. Lemmas: the laws of sequencing, \<open>forEach\<close> over an append, the
    characterisation of \<open>mapE\<close> (it returns iff every call returns, and throws the error
    of the first call that throws), round trips of printing and splitting.

  \<^item> \<open>Json\<close>: the payload \<^verbatim>\<open>input\<close> of an event, JavaScript's truthiness on it, the default
    \<^verbatim>\<open>input || {}\<close> of line 85 (\<open>orEmptyObject\<close>) and \<^verbatim>\<open>JSON.stringify\<close>, which line 50
    calls (\<open>stringify\<close>, with \<open>quoteJSONString\<close> and \<open>escapeChar\<close> for string literals).
    \<^verbatim>\<open>JSON.stringify\<close> is a builtin of the language: these definitions follow the ECMAScript
    specification, not code of the repository. Lemmas:
    the default leaves no falsy payload; the text of a payload holds no character below
    \<^verbatim>\<open>0x20\<close>, and the length of a string literal is bounded by the length of the string.

  \<^item> \<open>Json_Reader\<close>: the reference \<open>stringify\<close> is judged against, a reader of compact
    JSON text after the grammar of \<^verbatim>\<open>JSON.parse\<close> (\<open>readJSON\<close>; the program itself never
    parses). It is a recursive descent with fuel, built from a few combinators
    (\<open>mapResult\<close>, \<open>bindResult\<close>, \<open>opened\<close>, \<open>item\<close>, \<open>expect\<close>) so that each proof is one
    lemma per combinator. The theorem is the round trip: reading the text of a payload
    gives the payload, hence the text identifies the payload. Lemmas on the fuel: the
    fuel \<open>readJSON\<close> uses is enough for every text, and more fuel never changes an answer.

  \<^item> \<open>Cron_Expression\<close>: \<^verbatim>\<open>convertExpressionToCron\<close>. Its source (\<^verbatim>\<open>./utils\<close>, imported at
    line 4) is not part of the sources at hand, so it is modelled from the specification's
    description of the normalizer: \<^verbatim>\<open>rate(<n> <unit>)\<close> becomes a five-field schedule with the
    step \<^verbatim>\<open>*/n\<close> in the field of the unit, and anything else is refused with
    \<open>InvalidExpression\<close>. \<open>readSchedule\<close> reads a schedule back into its step and unit, as
    the timer subsystem has to. Lemmas: the exact domain of the conversion, the fields of
    its result, that the schedule determines the number and the unit, and that every
    schedule the conversion produces is read back.

  \<^item> \<open>Function_Config\<close>: the types of lines 6-20 and \<open>getFunctionConfigurations\<close>, written
    as the code is (a \<open>mapE\<close> over the keys, a filter on the events, a \<open>mapE\<close> over the
    rates), beside a reference definition \<open>resolved\<close> that cannot fail. The theorems relate
    the two: the code throws for the first expression, in source order, that does not
    convert, and otherwise returns \<open>resolved\<close>; order and multiplicity are preserved.
    Further theorems: rates of the form \<^verbatim>\<open>rate(<n> <unit>)\<close> always resolve, to schedules
    with the step in the field of the unit; payloads are defaulted and never falsy; the
    result is empty exactly if no function has a schedule event. A schedule may lack its
    rate (\<open>NoRate\<close>: an object without the property, or a schedule written as a string,
    of which line 78 reads the property \<^verbatim>\<open>rate\<close> all the same); the array of lines 78-81
    then holds \<^verbatim>\<open>undefined\<close>. That the normalizer refuses it with \<open>InvalidExpression\<close> is an
    assumption (see below).

  \<^item> \<open>Runtime\<close>: the world the scheduler acts on. Everything observable is one
    \<open>trace\<close> of effects in the order they happen: \<open>Logged\<close> (a call of a log function),
    \<open>Invoked\<close> (a call of \<^verbatim>\<open>slsInvokeFunction\<close>), \<open>Scheduled\<close> (a call of
    \<^verbatim>\<open>schedule.scheduleJob\<close>); \<open>jobs\<close>, \<open>invocations\<close> and \<open>notices\<close> are its projections.
    A log function is \<^verbatim>\<open>console.log\<close> or a supplied function with an identity, so the
    notices of schedulers with different log functions are told apart.
    The world also holds the installed signal handlers and the exit status. The invoker is
    a parameter of every operation, a function from the number of earlier calls and the
    arguments to the exception it throws, if any: the theorems hold for every invoker.
    \<open>runPlan\<close> executes a list of intended calls until one throws; its lemmas say where
    it stops.

  \<^item> \<open>Scheduler\<close>: the class: its fields and constructor (lines 22-32) and \<open>scheduleEvents\<close>
    with its two nested loops (\<open>scheduleConfiguration\<close> for the body of lines 42-66,
    \<open>scheduleCron\<close> for the body of lines 52-65). \<open>plannedEffects\<close> is the abstract
    specification of a start, the list of calls it intends; the refinement theorem shows
    that \<open>scheduleEvents\<close> executes exactly this list, and the other theorems (skipped
    functions get no timer, the behaviour with and without \<^verbatim>\<open>runImmediately\<close>, the
    uncaught exception of an immediate invocation, the notices logged, exactly when a
    start returns) follow from it. Fail-fast on a bad expression is the first branch of
    the refinement theorem itself, and since the theorems hold for every world a start
    begins in, a second start adds its timers to those of the first.

  \<^item> \<open>Firing\<close>: the callback registered at lines 57-64 (\<open>jobCallback\<close>) with its
    \<^verbatim>\<open>try/catch\<close>, and the timers firing in any order and any number of times as the
    step relation \<open>fires\<close> with its reachability \<open>reachableBy\<close>. Theorems: a firing is one
    invocation attempt and one notice, its exception goes no further, no sequence of
    firings removes a timer or ends the process (so every registered timer can fire
    again), and the invocations of a sequence of firings are those of the timers that
    fired, in order.

  \<^item> \<open>Lifecycle\<close>: \<open>scheduleEventsStandalone\<close>, \<open>listenForTermination\<close> and the handler of
    lines 104-107 (\<open>terminate\<close>), and the running process as a step relation \<open>processStep\<close>
    over timer firings and signal arrivals. Theorems: the banner precedes everything, the
    handlers are installed only if the start returned, at every later moment a signal
    ends the process with the shutdown notice and status 0, and nothing happens after
    the exit. When the start throws, the process that is left never ends through the
    scheduler: no signal is handled in any later state, while every timer registered
    before the exception goes on firing.

  \<^item> \<open>Timer\<close>: the clock. The specification fixes one thing about the timer subsystem
    (section 4.3, step 4): each due time of a registered schedule produces exactly one
    firing. A \<open>tick\<close> fires the timers due at an instant in registration order and
    \<open>clockRun\<close> is a sequence of ticks; a lemma gives the invocations of a run of the clock
    minute by minute. When a schedule is \<open>due\<close> is an assumption of the model (see below):
    a schedule with the step \<^verbatim>\<open>*/n\<close> is due when \<open>n\<close> is positive and the value of its field
    is a multiple of \<open>n\<close> away from the lowest one. \<open>everyMinutes\<close> is the reading of a
    rate as an interval counted from midnight, the reference the due times of a rate in
    minutes are compared with.

  \<^item> \<open>System\<close>: the scheduler, the clock and the process together. \<open>systemStep\<close> is one
    operation of the class (\<open>Start\<close>, \<open>StartStandalone\<close>, each with its configuration) or
    one event of the running process, \<open>systemRun\<close> a history of them. \<open>stepOf\<close> and
    \<open>runOf\<close> compute the same histories; they are there to evaluate the runs of theory
    \<open>Scenarios\<close>. \<open>wf_world\<close> is the well-formedness of a world: every timer has a
    schedule the timer subsystem can read and a truthy payload, the handlers of the two
    signals are installed together, the process has exited only with status 0 after the
    shutdown notice. \<open>dueInvocations\<close> is step 4 of section 4.3 of the specification as a
    function of the minute. Theorems: a function that every start skips gets no timer
    and is never invoked, in any history; well-formedness is preserved by every
    operation and so holds in every history; every invocation a history adds, at a start
    or at a firing, carries a truthy payload; a log function that no start of a history
    was given (\<open>logsTo\<close>) and that no timer or handler holds (\<open>unknownTo\<close>) receives no
    notice in it; after a start that returned, the
    invocations of every run of the clock are the ones \<open>dueInvocations\<close> lists, whatever
    \<^emph>\<open>due\<close> means; and, under the usual reading of a five-field schedule, what the
    schedule the specification prescribes for a rate amounts to when the number of
    minutes does not divide the hour and when the unit is hours or days.

  \<^item> \<open>Phases\<close>: the state machine of section 4.3 of the specification. \<open>phase\<close> has the
    stable phases Idle, Running and Exited, ordered as a \<open>linorder\<close>; Registering and
    Terminating are passed through inside a start and inside the handling of a signal,
    which are single steps of the model. \<open>phaseOf\<close> abstracts a world, \<open>phaseStep\<close> is the
    machine. Theorem: every step of the system is a step of the machine (a simulation),
    so phases never go back and only a signal ends a running engine.

  \<^item> \<open>Scenarios\<close>: the fixtures of the test suite as values, and each theorem that has a
    hypothesis applied to one of them.

  \<^item> \<open>Test_Suite\<close>: \<^verbatim>\<open>src/tests/scheduler.spec.ts\<close>. A mock function is the list of its
    calls (the notices for the mocked log function, the registered timers for the spy on
    \<^verbatim>\<open>schedule.scheduleJob\<close>, the invocations for the mocked invoker); \<open>toBeCalledTimes\<close>,
    \<open>toBeCalledWith\<close> and \<open>nthCalledWith\<close> are the expectations the suite uses, and each of
    the seven test cases is a definition. All of them pass, the six that do not mock the
    invoker for every invoker: evaluations on the inputs the tests fix, kept as a check
    of the model and not counted among its properties.

  \<^item> This theory: the properties that span the resolver, the scheduler, the clock and
    the process (which timers a start registers, from the provider's answer; the notices
    of a whole standalone session from the banner to the shutdown notice; the whole life
    of a standalone process that is driven by the clock and ended by a signal) and what
    the resolver and the scheduler make of an empty array of rates.

  \<^bold>\<open>Assumptions and bounds of the model.\<close>

  \<^item> \<^emph>\<open>Synchrony.\<close> \<^verbatim>\<open>scheduleEvents\<close> and the invoker are synchronous, so a start is one
    action; what happens later, the firing of a timer and the arrival of a signal, is a
    step of a relation. Line 36 runs \<^verbatim>\<open>listenForTermination\<close> as the continuation of an
    already resolved promise, in a microtask that precedes every timer and signal; the
    model installs the handlers inside the start.

  \<^item> \<^emph>\<open>Log functions and the timer registry.\<close> A log function returns and does not
    throw (one that threw at line 60 would reach the \<^verbatim>\<open>catch\<close> of line 61).
    \<^verbatim>\<open>schedule.scheduleJob\<close> registers every schedule it is given; the library returns
    \<^verbatim>\<open>null\<close> for a schedule it cannot read, and \<open>wf_world\<close> shows that the scheduler only
    registers schedules the normalizer made.

  \<^item> \<^emph>\<open>The provider.\<close> Its answer is a list of pairs in \<^verbatim>\<open>Object.keys\<close> order
    (\<open>wf_functions\<close>: distinct keys) of the declared type: \<^verbatim>\<open>events\<close> is an array, a schedule
    is an object or a string. The provider is a function of no argument and every start
    calls it once; a provider that answers differently at a later start is a scheduler
    with another provider.

  \<^item> \<^emph>\<open>The normalizer.\<close> \<^verbatim>\<open>utils.ts\<close> is not among the sources. \<open>convertExpressionToCron\<close>
    follows section 4.1 of the specification; where that is silent the model chooses
    (theory \<open>Cron_Expression\<close> lists the choices), and that \<^verbatim>\<open>undefined\<close> is refused with
    \<open>InvalidExpression\<close> is an assumption taken from the specification's demand for a
    total normalizer.

  \<^item> \<^emph>\<open>Due times.\<close> Neither the code nor the specification says when a five-field
    schedule is due. \<open>due\<close> is the usual reading of \<^verbatim>\<open>*\<close> and \<^verbatim>\<open>*/n\<close>, with a step of \<open>0\<close>
    never due. The clock has a resolution of one minute and the timers due at the same
    minute fire in registration order. Only the two theorems on rates as intervals depend
    on the reading of \<open>due\<close>; theory \<open>Firing\<close> depends on none of this, its theorems hold
    for every order of firings.

  \<^item> \<^emph>\<open>Payloads.\<close> JSON numbers are integers of a magnitude up to \<open>2^53\<close>, which
    JavaScript holds exactly and prints in plain decimal, and strings are byte strings.
    \<open>stringify\<close> models the builtin \<^verbatim>\<open>JSON.stringify\<close> after the ECMAScript specification.

  \<^item> \<^emph>\<open>Loops.\<close> Every loop of the program runs over a finite list and is a structural
    recursion without fuel; the running process, which need not end, is an inductive
    relation, and the statements about it hold for runs of every length.

  \<^bold>\<open>Fuel.\<close> The only definition with fuel is the reader of theory \<open>Json_Reader\<close>, whose
  recursion follows the nesting of the text. \<open>readJSON s\<close> runs it with the fuel
  \<open>Suc (2 * length s)\<close>. This is enough for every text: a call on a value fails or
  consumes at least one character, and between two characters consumed the call tree
  grows by at most two levels, one for the value and one for the list of elements or
  members it stands in. The theory proves it (with that fuel the answer is never
  \<open>OutOfFuel\<close>) together with the stability of answers under more fuel, so \<open>None\<close> from
  \<open>readJSON\<close> always means that the text is not a value.

  \<^bold>\<open>Not modelled.\<close> The shell command behind \<^verbatim>\<open>slsInvokeFunction\<close>, calendar
  (\<^verbatim>\<open>cron(...)\<close>) expressions and the plugin's command-line wiring, none of which is in the
  sources. Answers of the provider that do not have the declared type: \<^verbatim>\<open>events\<close> that is
  \<^verbatim>\<open>undefined\<close> and a schedule that is \<^verbatim>\<open>null\<close> (a \<^verbatim>\<open>TypeError\<close> at lines 75 and 78), and rates
  that are neither a string nor an array nor absent. A log function that throws. Of
  \<^verbatim>\<open>node-schedule\<close>: seconds, time zones,
  lists and ranges in a field, and the cancellation of a timer, which the scheduler never
  asks for. Fractions and exponents of JSON numbers, characters beyond 255 and white
  space between the tokens of a JSON text. The default action of a signal that arrives
  before the handlers are installed. The lines of \<^verbatim>\<open>scheduler.ts\<close> that no definition
  translates are its imports, blank lines and closing braces: every statement of the
  class is modelled.
\<close>

section \<open>From the provider's answer to the registered timers\<close>

lemma resolved_filter:
  "filter (\<lambda>fc. P (functionName fc)) (resolved fs) = resolved (filter (\<lambda>kf. P (fst kf)) fs)"
proof (induction fs)
  case Nil
  then show ?case by (simp add: resolved_def)
next
  case (Cons kf fs)
  have "filter (\<lambda>fc. P (functionName fc)) (resolvedFunction kf)
      = (if P (fst kf) then resolvedFunction kf else [])"
    by (auto simp: resolvedFunction_def filter_empty_conv intro: filter_True)
  with Cons show ?case by (simp add: resolved_def)
qed

lemma schedules_plannedJobs:
  "map jobSchedule (plannedJobs this cs)
     = concat (map cron (filter (\<lambda>fc. \<not> skipped this (functionName fc)) cs))"
  by (simp add: plannedJobs_def map_concat comp_def jobFor_def)

text \<open>
  C16. End to end: when every expression converts and the start returns, the schedules
  of the timers registered by \<^verbatim>\<open>scheduleEvents\<close> are, in order, the conversions of the
  expressions of the functions that are not skipped, one timer per expression, after the
  timers that existed before.
\<close>

theorem start_registers_one_timer_per_expression:
  assumes "list_all convertible (allExpressions (functionProvider this ()))"
    and "fst (scheduleEvents invoke this w) = None"
  shows "map jobSchedule (jobs (snd (scheduleEvents invoke this w)))
    = map jobSchedule (jobs w)
      @ map cronOfExpression
          (allExpressions (filter (\<lambda>kf. \<not> skipped this (fst kf)) (functionProvider this ())))"
proof -
  let ?fs = "functionProvider this ()"
  have resolved: "getFunctionConfigurations (functionProvider this) = Inr (resolved ?fs)"
    using assms(1) by (rule getFunctionConfigurations_convertible)
  then have "snd (scheduleEvents invoke this w) = emit (plannedEffects this (resolved ?fs)) w"
    using assms(2) by (rule scheduleEvents_returned)
  then have "jobs (snd (scheduleEvents invoke this w)) = jobs w @ plannedJobs this (resolved ?fs)"
    by (simp add: jobsOf_plannedEffects)
  then show ?thesis
    by (simp add: schedules_plannedJobs schedules_resolved
        resolved_filter [of "\<lambda>n. \<not> skipped this n"])
qed

theorem start_registers_one_timer_per_expression_witness:
  "map jobSchedule (jobs (snd (scheduleEvents mockInvoker
       (testScheduler [''get-user''] True (getUserFunction @ twoRatesFunction)) initialWorld)))
     = [''*/1 * * * *'', ''*/2 * * * *'']"
proof -
  let ?s = "testScheduler [''get-user''] True (getUserFunction @ twoRatesFunction)"
  have ok: "list_all convertible (allExpressions (functionProvider ?s ()))"
    by simp code_simp
  have returns: "fst (scheduleEvents mockInvoker ?s initialWorld) = None"
    by code_simp
  have "map cronOfExpression
      (allExpressions (filter (\<lambda>kf. \<not> skipped ?s (fst kf)) (functionProvider ?s ())))
      = [''*/1 * * * *'', ''*/2 * * * *'']"
    by simp code_simp
  moreover have "jobs initialWorld = []"
    by code_simp
  ultimately show ?thesis
    using start_registers_one_timer_per_expression [OF ok returns] by simp
qed

text \<open>
  C21. A rate that is an empty array is accepted. The resolver never throws for such an
  event and returns a configuration without a schedule; for that configuration
  \<^verbatim>\<open>scheduleEvents\<close> logs one notice, the skip notice or the scheduling notice with an
  empty list of schedules and the defaulted payload, and does nothing else: no timer is
  registered and, even with \<^verbatim>\<open>runImmediately\<close>, the invoker is never called.
\<close>

theorem empty_rate_array_registers_nothing:
  assumes "rate s = ManyRates []"
  shows "\<exists>fc. eventConfiguration fname s = Inr fc \<and> cron fc = []
    \<and> scheduleConfiguration invoke this fc w
        = (None, callLog (log this)
            (if skipped this fname then skippingMessage fname
             else ''Scheduling ['' @ fname @ ''] cron: [] input: ''
               @ stringify (orEmptyObject (schedule_input s))) w)"
proof (intro exI conjI)
  show "eventConfiguration fname s = Inr (resolvedEvent fname s)"
    using assms by (simp add: eventConfiguration_eq firstInvalid_def)
  show "cron (resolvedEvent fname s) = []"
    using assms by (simp add: resolvedEvent_def)
  then show "scheduleConfiguration invoke this (resolvedEvent fname s) w
      = (None, callLog (log this)
          (if skipped this fname then skippingMessage fname
           else ''Scheduling ['' @ fname @ ''] cron: [] input: ''
             @ stringify (orEmptyObject (schedule_input s))) w)"
    by (simp add: scheduleConfiguration_def schedulingMessage_def resolvedEvent_def
        andThen_perform forEach_Nil ok_def)
qed

theorem empty_rate_array_registers_nothing_witness:
  "\<exists>fc. eventConfiguration ''schedule-function'' \<lparr>rate = ManyRates [], schedule_input = None\<rparr>
       = Inr fc \<and> cron fc = []
     \<and> scheduleConfiguration failingInvoker (testScheduler [] True emptyRatesFunction) fc
         initialWorld
       = (None, callLog mockLog ''Scheduling [schedule-function] cron: [] input: {}''
           initialWorld)"
  using empty_rate_array_registers_nothing [of "\<lparr>rate = ManyRates [], schedule_input = None\<rparr>"
      "''schedule-function''" failingInvoker "testScheduler [] True emptyRatesFunction"
      initialWorld]
  by (simp add: testScheduler_def skipped_def skipList_def newOfflineScheduler_def)

text \<open>The whole start on such a function, with a failing invoker and immediate runs
  requested.\<close>

lemma empty_rate_array_start:
  "scheduleEvents failingInvoker (testScheduler [] True emptyRatesFunction) initialWorld
     = (None, emit [Logged mockLog ''Scheduling [schedule-function] cron: [] input: {}'']
          initialWorld)"
  by code_simp

section \<open>A standalone session from start to exit\<close>

text \<open>The world a standalone start from nothing leaves behind.\<close>

lemma standalone_started:
  assumes "getFunctionConfigurations (functionProvider this) = Inr cs"
    and "fst (scheduleEventsStandalone invoke this initialWorld) = None"
  shows "jobs (snd (scheduleEventsStandalone invoke this initialWorld)) = plannedJobs this cs"
    and "exitCode (snd (scheduleEventsStandalone invoke this initialWorld)) = None"
    and "listeners (snd (scheduleEventsStandalone invoke this initialWorld))
      = [(SIGINT, log this), (SIGTERM, log this)]"
    and "invocations (snd (scheduleEventsStandalone invoke this initialWorld))
      = invocationsOf (plannedEffects this cs)"
    and "notices (log this) (snd (scheduleEventsStandalone invoke this initialWorld))
      = standaloneBanner # concat (map (configurationNotices this) cs)"
  unfolding scheduleEventsStandalone_returned [OF assms]
  by (simp_all add: standalonePlan_def jobsOf_plannedEffects noticesOf_plannedEffects
      initialWorld_def jobs_def invocations_def notices_def)

text \<open>
  C22. The notices of a whole standalone session. When the process, started standalone
  from nothing, has exited, its events were firings of planned timers followed by one
  signal, the exit status is 0, and the scheduler's log function has received exactly:
  the banner; the notices of the start, per configuration; one success or failure
  notice per firing, in firing order; and the shutdown notice naming the signal.
\<close>

theorem standalone_session:
  assumes resolved: "getFunctionConfigurations (functionProvider this) = Inr cs"
    and started: "fst (scheduleEventsStandalone invoke this initialWorld) = None"
    and run: "processRun invoke (snd (scheduleEventsStandalone invoke this initialWorld)) evs w"
    and exited: "exitCode w \<noteq> None"
  shows "\<exists>js s. evs = map TimerFires js @ [SignalArrives s]
    \<and> set js \<subseteq> set (plannedJobs this cs)
    \<and> notices (log this) w
        = standaloneBanner # concat (map (configurationNotices this) cs)
          @ firingNotices invoke (length (invocationsOf (plannedEffects this cs))) js
          @ [shutdownMessage s]
    \<and> exitCode w = Some 0"
proof -
  let ?w1 = "snd (scheduleEventsStandalone invoke this initialWorld)"
  note start = standalone_started [OF resolved started]
  from processRun_shape [OF run] start(2) exited obtain js s l where
    js: "set js \<subseteq> set (jobs ?w1)" and l: "(s, l) \<in> set (listeners ?w1)"
    and w: "w = terminate l s (fireAll invoke js ?w1)"
    and evs: "evs = map TimerFires js @ [SignalArrives s]"
    by auto
  from js have loggers: "\<forall>j \<in> set js. jobLogger j = log this"
    by (auto simp: start(1) dest: jobLogger_plannedJobs)
  from l have "l = log this"
    by (auto simp: start(3))
  then have "notices (log this) w
      = standaloneBanner # concat (map (configurationNotices this) cs)
        @ firingNotices invoke (length (invocationsOf (plannedEffects this cs))) js
        @ [shutdownMessage s]"
    by (simp add: w notices_terminate notices_fireAll [OF loggers] start(4,5))
  with js evs w show ?thesis
    by (auto simp: start(1))
qed

theorem standalone_session_witness:
  "\<exists>js s. [TimerFires fixtureJob, SignalArrives SIGTERM] = map TimerFires js @ [SignalArrives s]
    \<and> set js \<subseteq> set (plannedJobs (testScheduler [] False scheduleFunction)
          (resolved scheduleFunction))
    \<and> notices (log (testScheduler [] False scheduleFunction))
          (terminate mockLog SIGTERM (jobCallback mockInvoker fixtureJob standaloneWorld))
        = standaloneBanner
          # concat (map (configurationNotices (testScheduler [] False scheduleFunction))
              (resolved scheduleFunction))
          @ firingNotices mockInvoker
              (length (invocationsOf (plannedEffects (testScheduler [] False scheduleFunction)
                 (resolved scheduleFunction)))) js
          @ [shutdownMessage s]
    \<and> exitCode (terminate mockLog SIGTERM (jobCallback mockInvoker fixtureJob standaloneWorld))
        = Some 0"
  unfolding standaloneWorld_def
  by (rule standalone_session [OF getFunctionConfigurations_scheduleFunction standalone_returns
        standalone_run [unfolded standaloneWorld_def]]) simp

text \<open>The same session with its notices spelled out.\<close>

lemma standalone_session_notices:
  "notices mockLog (terminate mockLog SIGTERM (jobCallback mockInvoker fixtureJob standaloneWorld))
     = [''Starting serverless-offline-schedule in standalone process. Press CTRL+C to stop.'',
        fixtureNotice,
        ''Succesfully invoked scheduled function: [schedule-function]'',
        ''Got SIGTERM signal. Stopping serverless-offline-scheduleer...'']"
  by code_simp

section \<open>A standalone session driven by the clock\<close>

text \<open>
  C28. The whole life of a standalone process. After a standalone start from nothing
  that returned, let the clock pass through any minutes and then a signal arrive. This is
  a run of the process whose events are the firings of the timers due at each minute, in
  registration order, and the signal; the scheduler's log function has received the
  banner, the notices of the start, one success or failure notice per firing and the
  shutdown notice; the functions invoked are those of the immediate runs and then, minute
  by minute, the ones the specification owes; the exit status is 0, and no later minute
  invokes anything.
\<close>

theorem standalone_clock_session:
  assumes resolved: "getFunctionConfigurations (functionProvider this) = Inr cs"
    and started: "fst (scheduleEventsStandalone invoke this initialWorld) = None"
  shows "\<exists>js w.
      js = concat (map (\<lambda>t. filter (\<lambda>j. due (jobSchedule j) t) (plannedJobs this cs)) ts)
    \<and> w = onSignal s (clockRun invoke ts (snd (scheduleEventsStandalone invoke this initialWorld)))
    \<and> processRun invoke (snd (scheduleEventsStandalone invoke this initialWorld))
        (map TimerFires js @ [SignalArrives s]) w
    \<and> notices (log this) w
        = standaloneBanner # concat (map (configurationNotices this) cs)
          @ firingNotices invoke (length (invocationsOf (plannedEffects this cs))) js
          @ [shutdownMessage s]
    \<and> invocations w
        = invocationsOf (plannedEffects this cs) @ concat (map (dueInvocations this cs) ts)
    \<and> exitCode w = Some 0
    \<and> clockRun invoke later w = w"
proof -
  let ?w1 = "snd (scheduleEventsStandalone invoke this initialWorld)"
  let ?js = "concat (map (\<lambda>t. filter (\<lambda>j. due (jobSchedule j) t) (plannedJobs this cs)) ts)"
  note start = standalone_started [OF resolved started]
  have clock: "clockRun invoke ts ?w1 = fireAll invoke ?js ?w1"
    by (simp add: clockRun_fireAll start(1,2) dueJobs_def)
  have signal: "onSignal s (fireAll invoke ?js ?w1) = terminate (log this) s (fireAll invoke ?js ?w1)"
    by (rule onSignal_standalone) (simp add: start(3))
  have js: "set ?js \<subseteq> set (jobs ?w1)"
    by (auto simp: start(1))
  then have loggers: "\<forall>j \<in> set ?js. jobLogger j = log this"
    by (auto simp: start(1) dest: jobLogger_plannedJobs)
  have "processRun invoke ?w1 (map TimerFires ?js) (fireAll invoke ?js ?w1)"
    using js start(2) by (rule processRun_fireAll)
  moreover have "processStep invoke (fireAll invoke ?js ?w1) (SignalArrives s)
      (onSignal s (fireAll invoke ?js ?w1))"
    by (rule processStep.signal) (cases s; simp add: start(2,3))+
  ultimately have "processRun invoke ?w1 (map TimerFires ?js @ [SignalArrives s])
      (onSignal s (fireAll invoke ?js ?w1))"
    by (rule processRun.more)
  moreover have "invocations (fireAll invoke ?js ?w1)
      = invocationsOf (plannedEffects this cs) @ concat (map (dueInvocations this cs) ts)"
    by (simp add: start(4) map_concat comp_def due_plannedJobs)
  ultimately show ?thesis
    unfolding clock signal
    by (simp add: notices_terminate notices_fireAll [OF loggers] start(4,5) clockRun_exited)
qed

theorem standalone_clock_session_witness:
  "\<exists>js w.
      js = concat (map (\<lambda>t. filter (\<lambda>j. due (jobSchedule j) t)
             (plannedJobs (testScheduler [] False scheduleFunction) (resolved scheduleFunction)))
           [instantAt 0 0, instantAt 0 1])
    \<and> w = onSignal SIGINT (clockRun mockInvoker [instantAt 0 0, instantAt 0 1] standaloneWorld)
    \<and> processRun mockInvoker standaloneWorld (map TimerFires js @ [SignalArrives SIGINT]) w
    \<and> notices (log (testScheduler [] False scheduleFunction)) w
        = standaloneBanner
          # concat (map (configurationNotices (testScheduler [] False scheduleFunction))
              (resolved scheduleFunction))
          @ firingNotices mockInvoker
              (length (invocationsOf (plannedEffects (testScheduler [] False scheduleFunction)
                 (resolved scheduleFunction)))) js
          @ [shutdownMessage SIGINT]
    \<and> invocations w
        = invocationsOf (plannedEffects (testScheduler [] False scheduleFunction)
            (resolved scheduleFunction))
          @ concat (map (dueInvocations (testScheduler [] False scheduleFunction)
              (resolved scheduleFunction)) [instantAt 0 0, instantAt 0 1])
    \<and> exitCode w = Some 0
    \<and> clockRun mockInvoker [instantAt 0 2] w = w"
  unfolding standaloneWorld_def
  by (rule standalone_clock_session [OF getFunctionConfigurations_scheduleFunction
        standalone_returns])

text \<open>The same session with its notices and invocations spelled out.\<close>

lemma standalone_clock_session_trace:
  "notices mockLog
     (onSignal SIGINT (clockRun mockInvoker [instantAt 0 0, instantAt 0 1] standaloneWorld))
     = [''Starting serverless-offline-schedule in standalone process. Press CTRL+C to stop.'',
        fixtureNotice,
        ''Succesfully invoked scheduled function: [schedule-function]'',
        ''Succesfully invoked scheduled function: [schedule-function]'',
        ''Got SIGINT signal. Stopping serverless-offline-scheduleer...'']"
  "invocations
     (onSignal SIGINT (clockRun mockInvoker [instantAt 0 0, instantAt 0 1] standaloneWorld))
     = replicate 2 (''schedule-function'', JObject [(''scheduler'', JString ''1-minute'')])"
  by code_simp+

end
